theory Spec2Isabelle
  imports Main "HOL-Library.Multiset" "HOL-Library.Sublist"
begin

section \<open>JavaScript values, errors and string primitives\<close>

text \<open>
  Strings are lists of code units below 256. A value that reaches a replacement
  callback at run time is a string, \<open>undefined\<close> (a group that did not take part in
  the match), a number (the match offset) or a member inherited from
  \<open>Object.prototype\<close> (what a lookup such as \<open>map['constructor']\<close> on an object
  literal returns).
\<close>

datatype jsval = JStr string | JUndef | JNum nat | JNative string

datatype jserr = TypeError string | RangeError string | Error string

fun digit_char :: "nat \<Rightarrow> char" where
  "digit_char n = char_of (48 + n)"

fun show_nat_fuel :: "nat \<Rightarrow> nat \<Rightarrow> string" where
  "show_nat_fuel 0 n = []"
| "show_nat_fuel (Suc f) n =
     (if n < 10 then [digit_char n] else show_nat_fuel f (n div 10) @ [digit_char (n mod 10)])"

definition show_nat :: "nat \<Rightarrow> string" where
  "show_nat n = show_nat_fuel (Suc n) n"

text \<open>String conversion as a template literal \<open>`${v}`\<close> performs it.\<close>

fun js_to_string :: "jsval \<Rightarrow> string" where
  "js_to_string (JStr s) = s"
| "js_to_string JUndef = ''undefined''"
| "js_to_string (JNum n) = show_nat n"
| "js_to_string (JNative k) =
     (if k = ''__proto__'' then ''[object Object]''
      else if k = ''constructor'' then ''function Object() { [native code] }''
      else ''function '' @ k @ ''() { [native code] }'')"

fun truthy :: "jsval \<Rightarrow> bool" where
  "truthy (JStr s) = (s \<noteq> [])"
| "truthy JUndef = False"
| "truthy (JNum n) = (n \<noteq> 0)"
| "truthy (JNative k) = True"

text \<open>\<open>a || b\<close>\<close>

definition js_or :: "jsval \<Rightarrow> jsval \<Rightarrow> jsval" where
  "js_or a b = (if truthy a then a else b)"

text \<open>Reading index \<open>i\<close> of an array: \<open>undefined\<close> past the end.\<close>

fun js_index :: "jsval list \<Rightarrow> nat \<Rightarrow> jsval" where
  "js_index [] i = JUndef"
| "js_index (v # vs) 0 = v"
| "js_index (v # vs) (Suc i) = js_index vs i"

definition is_line_terminator :: "char \<Rightarrow> bool" where
  "is_line_terminator c = (c = CHR 0x0A \<or> c = CHR 0x0D)"

text \<open>White space and line terminators below 256: TAB, LF, VT, FF, CR, SP, NBSP.\<close>

definition is_space :: "char \<Rightarrow> bool" where
  "is_space c = (c = CHR '' '' \<or> c = CHR 0x0A \<or> c = CHR 0x09 \<or> c = CHR 0x0D
                 \<or> c = CHR 0x0B \<or> c = CHR 0x0C \<or> c = CHR 0xA0)"

definition in_range :: "char \<Rightarrow> char \<Rightarrow> char \<Rightarrow> bool" where
  "in_range lo hi c = ((of_char lo :: nat) \<le> of_char c \<and> (of_char c :: nat) \<le> of_char hi)"

definition is_digit :: "char \<Rightarrow> bool" where
  "is_digit c = in_range CHR ''0'' CHR ''9'' c"

definition is_word :: "char \<Rightarrow> bool" where
  "is_word c = (in_range CHR ''a'' CHR ''z'' c \<or> in_range CHR ''A'' CHR ''Z'' c
                \<or> is_digit c \<or> c = CHR ''_'')"

text \<open>\<open>String.prototype.trim\<close>\<close>

definition trim :: "string \<Rightarrow> string" where
  "trim s = rev (dropWhile is_space (rev (dropWhile is_space s)))"

text \<open>\<open>s.startsWith(p)\<close>, returning the remainder.\<close>

fun strip_prefix :: "string \<Rightarrow> string \<Rightarrow> string option" where
  "strip_prefix [] s = Some s"
| "strip_prefix (p # ps) [] = None"
| "strip_prefix (p # ps) (c # cs) = (if p = c then strip_prefix ps cs else None)"

definition startsWith :: "string \<Rightarrow> string \<Rightarrow> bool" where
  "startsWith s p = (strip_prefix p s \<noteq> None)"

definition endsWith :: "string \<Rightarrow> string \<Rightarrow> bool" where
  "endsWith s p = startsWith (rev s) (rev p)"

text \<open>\<open>s.includes(p)\<close>\<close>

fun includes_str :: "string \<Rightarrow> string \<Rightarrow> bool" where
  "includes_str [] p = (p = [])"
| "includes_str (c # cs) p = (startsWith (c # cs) p \<or> includes_str cs p)"

text \<open>\<open>s.split(sep)\<close> for a one-character separator: never the empty list.\<close>

fun split_on :: "char \<Rightarrow> string \<Rightarrow> string list" where
  "split_on sep [] = [[]]"
| "split_on sep (c # cs) =
     (if c = sep then [] # split_on sep cs
      else (case split_on sep cs of [] \<Rightarrow> [[c]] | l # ls \<Rightarrow> (c # l) # ls))"

text \<open>\<open>xs.join(sep)\<close>\<close>

fun join :: "string \<Rightarrow> string list \<Rightarrow> string" where
  "join sep [] = []"
| "join sep [x] = x"
| "join sep (x # y # ys) = x @ sep @ join sep (y # ys)"

section \<open>Regular expressions\<close>

text \<open>
  The fragment of the regular-expression language that the patterns of the sources use.
  Matching is the backtracking search of the language specification: \<open>rmatch r st\<close>
  lists every way \<open>r\<close> can match at state \<open>st\<close>, in the order in which backtracking
  tries them, so that the head of the list is the match the engine reports.
\<close>

datatype citem = CChr char | CRange char char | CWord | CSpace | CDigit | CNotSpace

datatype re =
    RLit string
  | RAny
  | RSet bool "citem list"
  | RSeq re re
  | RAlt re re
  | RStar bool re
  | RPlus bool re
  | ROpt bool re
  | RGroup nat re
  | RBol bool
  | REol bool
  | RWordB
  | RLook re
  | REps

text \<open>
  A match state: the text before the position (reversed), the text from the position
  on, and the captures so far (group \<open>n\<close> at index \<open>n - 1\<close>).
\<close>

type_synonym mstate = "string \<times> string \<times> string option list"

fun citem_has :: "char \<Rightarrow> citem \<Rightarrow> bool" where
  "citem_has c (CChr d) = (c = d)"
| "citem_has c (CRange lo hi) = in_range lo hi c"
| "citem_has c CWord = is_word c"
| "citem_has c CSpace = is_space c"
| "citem_has c CDigit = is_digit c"
| "citem_has c CNotSpace = (\<not> is_space c)"

definition class_has :: "bool \<Rightarrow> citem list \<Rightarrow> char \<Rightarrow> bool" where
  "class_has neg items c = (list_ex (citem_has c) items \<noteq> neg)"

fun word_at :: "string \<Rightarrow> bool" where
  "word_at [] = False"
| "word_at (c # cs) = is_word c"

fun line_edge :: "bool \<Rightarrow> string \<Rightarrow> bool" where
  "line_edge ml [] = True"
| "line_edge ml (c # cs) = (ml \<and> is_line_terminator c)"

primrec groups_in :: "re \<Rightarrow> nat list" where
  "groups_in (RLit s) = []"
| "groups_in RAny = []"
| "groups_in (RSet neg items) = []"
| "groups_in (RSeq a b) = groups_in a @ groups_in b"
| "groups_in (RAlt a b) = groups_in a @ groups_in b"
| "groups_in (RStar g r) = groups_in r"
| "groups_in (RPlus g r) = groups_in r"
| "groups_in (ROpt g r) = groups_in r"
| "groups_in (RGroup n r) = n # groups_in r"
| "groups_in (RBol ml) = []"
| "groups_in (REol ml) = []"
| "groups_in RWordB = []"
| "groups_in (RLook r) = groups_in r"
| "groups_in REps = []"

fun set_cap :: "nat \<Rightarrow> string option \<Rightarrow> string option list \<Rightarrow> string option list" where
  "set_cap n v caps = (if 0 < n \<and> n \<le> length caps then caps[n - 1 := v] else caps)"

fun clear_caps :: "nat list \<Rightarrow> string option list \<Rightarrow> string option list" where
  "clear_caps [] caps = caps"
| "clear_caps (n # ns) caps = clear_caps ns (set_cap n None caps)"

text \<open>
  One more round of a quantified atom \<open>f\<close>: the captures of its groups are reset, and a
  round that consumed nothing is rejected. The fuel is the number of characters left
  plus one, so it never runs out: every accepted round consumes a character.
\<close>

fun round_of :: "nat list \<Rightarrow> (mstate \<Rightarrow> mstate list) \<Rightarrow> mstate \<Rightarrow> mstate list" where
  "round_of gs f (rp, rest, caps) =
     filter (\<lambda>(rp', rest', caps'). length rest' < length rest) (f (rp, rest, clear_caps gs caps))"

fun star_iter ::
  "bool \<Rightarrow> nat list \<Rightarrow> (mstate \<Rightarrow> mstate list) \<Rightarrow> nat \<Rightarrow> mstate \<Rightarrow> mstate list" where
  "star_iter greedy gs f 0 st = [st]"
| "star_iter greedy gs f (Suc n) st =
     (if greedy then concat (map (star_iter greedy gs f n) (round_of gs f st)) @ [st]
      else st # concat (map (star_iter greedy gs f n) (round_of gs f st)))"

fun fuel_of :: "mstate \<Rightarrow> nat" where
  "fuel_of (rp, rest, caps) = Suc (length rest)"

primrec rmatch :: "re \<Rightarrow> mstate \<Rightarrow> mstate list" where
  "rmatch (RLit s) st =
     (case st of (rp, rest, caps) \<Rightarrow>
        (case strip_prefix s rest of None \<Rightarrow> [] | Some rest' \<Rightarrow> [(rev s @ rp, rest', caps)]))"
| "rmatch RAny st =
     (case st of (rp, rest, caps) \<Rightarrow>
        (case rest of [] \<Rightarrow> []
         | c # cs \<Rightarrow> if is_line_terminator c then [] else [(c # rp, cs, caps)]))"
| "rmatch (RSet neg items) st =
     (case st of (rp, rest, caps) \<Rightarrow>
        (case rest of [] \<Rightarrow> []
         | c # cs \<Rightarrow> if class_has neg items c then [(c # rp, cs, caps)] else []))"
| "rmatch (RSeq a b) st = concat (map (rmatch b) (rmatch a st))"
| "rmatch (RAlt a b) st = rmatch a st @ rmatch b st"
| "rmatch (RStar g r) st = star_iter g (groups_in r) (rmatch r) (fuel_of st) st"
| "rmatch (RPlus g r) st =
     concat (map (\<lambda>st'. star_iter g (groups_in r) (rmatch r) (fuel_of st') st') (rmatch r st))"
| "rmatch (ROpt g r) st =
     (if g then round_of (groups_in r) (rmatch r) st @ [st]
      else st # round_of (groups_in r) (rmatch r) st)"
| "rmatch (RGroup n r) st =
     (case st of (rp, rest, caps) \<Rightarrow>
        map (\<lambda>(rp', rest', caps').
               (rp', rest', set_cap n (Some (take (length rest - length rest') rest)) caps'))
            (rmatch r st))"
| "rmatch (RBol ml) st =
     (case st of (rp, rest, caps) \<Rightarrow> if line_edge ml rp then [st] else [])"
| "rmatch (REol ml) st =
     (case st of (rp, rest, caps) \<Rightarrow> if line_edge ml rest then [st] else [])"
| "rmatch RWordB st =
     (case st of (rp, rest, caps) \<Rightarrow> if word_at rp \<noteq> word_at rest then [st] else [])"
| "rmatch (RLook r) st =
     (case st of (rp, rest, caps) \<Rightarrow>
        (case rmatch r st of [] \<Rightarrow> []
         | (rp', rest', caps') # others \<Rightarrow> [(rp, rest, caps')]))"
| "rmatch REps st = [st]"

subsection \<open>Searching and replacing\<close>

text \<open>
  A \<open>RegExp\<close> object: the pattern, its number of capture groups and its \<open>g\<close> flag.
  The \<open>m\<close> flag is carried by the \<open>^\<close> and \<open>$\<close> assertions of the pattern.
\<close>

record regex =
  re_src :: re
  re_groups :: nat
  re_global :: bool

text \<open>A match attempt at one position: its length and captures.\<close>

definition exec_at :: "regex \<Rightarrow> string \<Rightarrow> string \<Rightarrow> (nat \<times> string option list) option" where
  "exec_at rx rp rest =
     (case rmatch (re_src rx) (rp, rest, replicate (re_groups rx) None) of
        [] \<Rightarrow> None
      | (rp', rest', caps) # others \<Rightarrow> Some (length rest - length rest', caps))"

text \<open>\<open>s.match(rx)\<close> and \<open>rx.test(s)\<close> for a pattern without \<open>g\<close>: the leftmost match.\<close>

fun search_from :: "regex \<Rightarrow> string \<Rightarrow> string \<Rightarrow> (string \<times> string option list) option" where
  "search_from rx rp [] =
     (case exec_at rx rp [] of None \<Rightarrow> None | Some (l, caps) \<Rightarrow> Some ([], caps))"
| "search_from rx rp (c # cs) =
     (case exec_at rx rp (c # cs) of
        None \<Rightarrow> search_from rx (c # rp) cs
      | Some (l, caps) \<Rightarrow> Some (take l (c # cs), caps))"

definition js_match :: "regex \<Rightarrow> string \<Rightarrow> (string \<times> string option list) option" where
  "js_match rx s = search_from rx [] s"

definition has_match :: "regex \<Rightarrow> string \<Rightarrow> bool" where
  "has_match rx s = (js_match rx s \<noteq> None)"

text \<open>
  The replacement of one match, computed from the matched text, the captures, the text
  before the match and the text after it.
\<close>

type_synonym rfun = "string \<Rightarrow> string option list \<Rightarrow> string \<Rightarrow> string \<Rightarrow> jserr + string"

text \<open>
  \<open>s.replace(rx, f)\<close>. The scan looks for a match at each position; after a match of
  length \<open>l\<close> it skips the matched characters (\<open>skip\<close> counts those still to drop), and
  after an empty match it copies one character. Without the \<open>g\<close> flag the scan stops
  looking after the first match (\<open>active\<close> becomes false).
\<close>

fun replace_scan ::
  "regex \<Rightarrow> rfun \<Rightarrow> bool \<Rightarrow> nat \<Rightarrow> string \<Rightarrow> string \<Rightarrow> jserr + string" where
  "replace_scan rx f active skip rp [] =
     (if active \<and> skip = 0 then
        (case exec_at rx rp [] of
           None \<Rightarrow> Inr []
         | Some (l, caps) \<Rightarrow> f [] caps (rev rp) [])
      else Inr [])"
| "replace_scan rx f active skip rp (c # cs) =
     (if 0 < skip then replace_scan rx f active (skip - 1) (c # rp) cs
      else if \<not> active then Inr (c # cs)
      else
        (case exec_at rx rp (c # cs) of
           None \<Rightarrow>
             (case replace_scan rx f True 0 (c # rp) cs of
                Inl e \<Rightarrow> Inl e
              | Inr out \<Rightarrow> Inr (c # out))
         | Some (l, caps) \<Rightarrow>
             (case f (take l (c # cs)) caps (rev rp) (drop l (c # cs)) of
                Inl e \<Rightarrow> Inl e
              | Inr new \<Rightarrow>
                  (case (if l = 0
                         then (case replace_scan rx f (re_global rx) 0 (c # rp) cs of
                                 Inl e \<Rightarrow> Inl e
                               | Inr out \<Rightarrow> Inr (c # out))
                         else replace_scan rx f (re_global rx) (l - 1) (c # rp) cs) of
                     Inl e \<Rightarrow> Inl e
                   | Inr out \<Rightarrow> Inr (new @ out)))))"

definition js_replace :: "regex \<Rightarrow> rfun \<Rightarrow> string \<Rightarrow> jserr + string" where
  "js_replace rx f s = replace_scan rx f True 0 [] s"

text \<open>The substitution of a replacement template: \<open>$$\<close>, \<open>$&\<close>, \<open>$`\<close>, \<open>$'\<close>, \<open>$n\<close>, \<open>$nn\<close>.\<close>

definition digit_val :: "char \<Rightarrow> nat" where
  "digit_val c = of_char c - 48"

definition cap_text :: "string option list \<Rightarrow> nat \<Rightarrow> string" where
  "cap_text caps n = (case caps ! (n - 1) of None \<Rightarrow> [] | Some s \<Rightarrow> s)"

definition cap_ok :: "string option list \<Rightarrow> nat \<Rightarrow> bool" where
  "cap_ok caps n = (1 \<le> n \<and> n \<le> length caps)"

fun expand_template ::
  "string \<Rightarrow> string \<Rightarrow> string option list \<Rightarrow> string \<Rightarrow> string \<Rightarrow> string" where
  "expand_template [] m caps pre post = []"
| "expand_template [c] m caps pre post = [c]"
| "expand_template (c # d # t) m caps pre post =
     (if c \<noteq> CHR ''$'' then c # expand_template (d # t) m caps pre post
      else if d = CHR ''$'' then CHR ''$'' # expand_template t m caps pre post
      else if d = CHR ''&'' then m @ expand_template t m caps pre post
      else if d = CHR 0x60 then pre @ expand_template t m caps pre post
      else if d = CHR 0x27 then post @ expand_template t m caps pre post
      else if is_digit d then
        (case t of
           [] \<Rightarrow> (if cap_ok caps (digit_val d) then cap_text caps (digit_val d)
                   else [c, d])
         | e # t' \<Rightarrow>
             (if is_digit e \<and> cap_ok caps (10 * digit_val d + digit_val e)
              then cap_text caps (10 * digit_val d + digit_val e)
                   @ expand_template t' m caps pre post
              else if cap_ok caps (digit_val d)
              then cap_text caps (digit_val d) @ expand_template (e # t') m caps pre post
              else c # d # expand_template (e # t') m caps pre post))
      else c # expand_template (d # t) m caps pre post)"

section \<open>The rule-rewrite engine (\<open>migration/rules-engine.ts\<close>)\<close>

datatype category = Syntax | DataTypes | Controls | Functions | Patterns | Framework

datatype condition_type = contains | not_contains | file_extension | project_type

record MigrationCondition =
  ctype :: condition_type
  cvalue :: string

record MigrationExample =
  ex_before :: string
  ex_after :: string
  ex_description :: string

record MigrationContext =
  filePath :: string
  fileContent :: string
  projectType :: string
  targetFramework :: string
  usings :: "string list"
  variableTypes :: "(string \<times> string) list"
  functionTypes :: "(string \<times> string) list"

text \<open>
  A replacement is a template or a callback \<open>(match, ...groups) => string\<close>. The
  callbacks of the built-in rules are closures over the engine and call its
  \<open>convertMethodBody\<close>; a callback therefore receives that method as its first argument.
  \<open>groups\<close> holds the captures followed by the match offset and the whole text.
\<close>

datatype replacement =
    Template string
  | Func "(jsval \<Rightarrow> jserr + string) \<Rightarrow> string \<Rightarrow> jsval list \<Rightarrow> jserr + string"

record MigrationRule =
  rid :: string
  rname :: string
  description :: string
  category :: category
  priority :: int
  pattern :: regex
  replacement :: replacement
  conditions :: "MigrationCondition list option"
  examples :: "MigrationExample list option"

fun condition_holds :: "MigrationContext \<Rightarrow> MigrationCondition \<Rightarrow> bool" where
  "condition_holds context c =
     (case ctype c of
        contains \<Rightarrow> includes_str (fileContent context) (cvalue c)
      | not_contains \<Rightarrow> \<not> includes_str (fileContent context) (cvalue c)
      | file_extension \<Rightarrow> endsWith (filePath context) (cvalue c)
      | project_type \<Rightarrow> projectType context = cvalue c)"

text \<open>The loop of \<open>shouldApplyRule\<close>: the first condition that fails returns false.\<close>

fun conditions_loop :: "MigrationContext \<Rightarrow> MigrationCondition list \<Rightarrow> bool" where
  "conditions_loop context [] = True"
| "conditions_loop context (c # cs) =
     (if \<not> condition_holds context c then False else conditions_loop context cs)"

definition shouldApplyRule :: "MigrationRule \<Rightarrow> MigrationContext \<Rightarrow> bool" where
  "shouldApplyRule rule context =
     (case conditions rule of None \<Rightarrow> True | Some cs \<Rightarrow> conditions_loop context cs)"

definition cap_val :: "string option \<Rightarrow> jsval" where
  "cap_val c = (case c of None \<Rightarrow> JUndef | Some s \<Rightarrow> JStr s)"

definition replacer :: "(jsval \<Rightarrow> jserr + string) \<Rightarrow> replacement \<Rightarrow> rfun" where
  "replacer conv r m caps pre post =
     (case r of
        Template t \<Rightarrow> Inr (expand_template t m caps pre post)
      | Func f \<Rightarrow> f conv m (map cap_val caps @ [JNum (length pre), JStr (pre @ m @ post)]))"

definition applyRule ::
  "(jsval \<Rightarrow> jserr + string) \<Rightarrow> MigrationRule \<Rightarrow> string \<Rightarrow> MigrationContext \<Rightarrow> jserr + string" where
  "applyRule conv rule content context =
     js_replace (pattern rule) (replacer conv (replacement rule)) content"

text \<open>
  \<open>this.rules.sort((a, b) => b.priority - a.priority)\<close>: the language guarantees a stable
  sort; the array is sorted in place.
\<close>

definition sortedRules :: "MigrationRule list \<Rightarrow> MigrationRule list" where
  "sortedRules rules = sort_key (\<lambda>r. - priority r) rules"

text \<open>The \<open>for\<close> loop of \<open>applyRules\<close>; an exception of a callback leaves it.\<close>

fun rules_loop ::
  "(jsval \<Rightarrow> jserr + string) \<Rightarrow> MigrationContext \<Rightarrow> MigrationRule list \<Rightarrow> string
   \<Rightarrow> jserr + string" where
  "rules_loop conv context [] result = Inr result"
| "rules_loop conv context (rule # rest) result =
     (if shouldApplyRule rule context then
        (case applyRule conv rule result context of
           Inl e \<Rightarrow> Inl e
         | Inr result' \<Rightarrow> rules_loop conv context rest result')
      else rules_loop conv context rest result)"

definition LF :: char where
  "LF = CHR 0x0A"

definition placeholder :: string where
  "placeholder = ''    // TODO: Implement method logic''"

definition indent_line :: "string \<Rightarrow> string" where
  "indent_line line = (if trim line \<noteq> [] then ''    '' @ line else line)"

text \<open>
  \<open>convertMethodBody\<close>, given the \<open>applyRules\<close> it calls. At run time the argument may be
  any value: a number has no \<open>trim\<close>.
\<close>

definition convertMethodBody ::
  "(string \<Rightarrow> MigrationContext \<Rightarrow> jserr + string) \<Rightarrow> jsval \<Rightarrow> jserr + string" where
  "convertMethodBody apply vbBody =
     (if \<not> truthy vbBody then Inr placeholder
      else
        (case vbBody of
           JStr s \<Rightarrow>
             (if trim s = [] then Inr placeholder
              else
                (case apply s \<lparr> filePath = [], fileContent = s, projectType = ''WinForms'',
                                targetFramework = ''net8.0'', usings = [], variableTypes = [],
                                functionTypes = [] \<rparr> of
                   Inl e \<Rightarrow> Inl e
                 | Inr csBody \<Rightarrow> Inr (join [LF] (map indent_line (split_on LF csBody)))))
         | _ \<Rightarrow> Inl (TypeError ''vbBody.trim is not a function'')))"

text \<open>
  \<open>applyRules\<close> with the call depth left: \<open>applyRules\<close> reaches itself through the
  callbacks and \<open>convertMethodBody\<close>, and a call stack that is used up raises a
  \<open>RangeError\<close>.
\<close>

primrec applyRules_d ::
  "nat \<Rightarrow> MigrationRule list \<Rightarrow> string \<Rightarrow> MigrationContext \<Rightarrow> jserr + string" where
  "applyRules_d 0 rules content context = Inl (RangeError ''Maximum call stack size exceeded'')"
| "applyRules_d (Suc d) rules content context =
     rules_loop (convertMethodBody (applyRules_d d (sortedRules rules))) context
       (sortedRules rules) content"


subsection \<open>Helpers of the built-in rules\<close>

text \<open>
  A lookup \<open>map[key]\<close> in an object literal: an own property, else a member inherited
  from \<open>Object.prototype\<close>, else \<open>undefined\<close>.
\<close>

definition object_prototype_keys :: "string list" where
  "object_prototype_keys =
     [''constructor'', ''__defineGetter__'', ''__defineSetter__'', ''hasOwnProperty'',
      ''__lookupGetter__'', ''__lookupSetter__'', ''isPrototypeOf'', ''propertyIsEnumerable'',
      ''toString'', ''valueOf'', ''__proto__'', ''toLocaleString'']"

definition obj_lookup :: "(string \<times> string) list \<Rightarrow> string \<Rightarrow> jsval" where
  "obj_lookup table key =
     (case map_of table key of
        Some v \<Rightarrow> JStr v
      | None \<Rightarrow> if key \<in> set object_prototype_keys then JNative key else JUndef)"

definition mapAccessibility :: "jsval \<Rightarrow> jsval" where
  "mapAccessibility vbAccessibility =
     js_or (obj_lookup [(''Private'', ''private''), (''Public'', ''public''),
                        (''Protected'', ''protected''), (''Friend'', ''internal'')]
              (js_to_string vbAccessibility))
           (JStr ''private'')"

definition mapDataType :: "jsval \<Rightarrow> jsval" where
  "mapDataType vbType =
     js_or (obj_lookup [(''Integer'', ''int''), (''String'', ''string''), (''Boolean'', ''bool''),
                        (''Double'', ''double''), (''Single'', ''float''), (''Long'', ''long''),
                        (''Decimal'', ''decimal''), (''Date'', ''DateTime''),
                        (''Object'', ''object'')]
              (js_to_string vbType))
           vbType"

definition ws_plus :: re where
  "ws_plus = RPlus True (RSet False [CSpace])"

definition ws_star :: re where
  "ws_star = RStar True (RSet False [CSpace])"

definition word_plus :: re where
  "word_plus = RPlus True (RSet False [CWord])"

text \<open>\<open>[\s\S]*?\<close>, \<open>.+?\<close> and \<open>.*?\<close>\<close>

definition any_lazy :: re where
  "any_lazy = RStar False (RSet False [CSpace, CNotSpace])"

definition dot_plus_lazy :: re where
  "dot_plus_lazy = RPlus False RAny"

definition dot_star_lazy :: re where
  "dot_star_lazy = RStar False RAny"

fun rseq :: "re list \<Rightarrow> re" where
  "rseq [] = REps"
| "rseq [r] = r"
| "rseq (r # q # rs) = RSeq r (rseq (q # rs))"

fun ralt :: "string list \<Rightarrow> re" where
  "ralt [] = REps"
| "ralt [s] = RLit s"
| "ralt (s # t # ss) = RAlt (RLit s) (ralt (t # ss))"

definition mk_regex :: "nat \<Rightarrow> bool \<Rightarrow> re list \<Rightarrow> regex" where
  "mk_regex n g rs = \<lparr> re_src = rseq rs, re_groups = n, re_global = g \<rparr>"

text \<open>\<open>/(\w+)\s+As\s+(\w+)/\<close> of \<open>convertParameters\<close>\<close>

definition param_regex :: regex where
  "param_regex = mk_regex 2 False
     [RGroup 1 word_plus, ws_plus, RLit ''As'', ws_plus, RGroup 2 word_plus]"

definition convertParameter :: "string \<Rightarrow> string" where
  "convertParameter param =
     (let trimmed = trim param in
      case js_match param_regex trimmed of
        Some (m, caps) \<Rightarrow>
          js_to_string (mapDataType (cap_val (caps ! 1))) @ '' '' @ js_to_string (cap_val (caps ! 0))
      | None \<Rightarrow> trimmed)"

definition convertParameters :: "jsval \<Rightarrow> jserr + string" where
  "convertParameters vbParams =
     (if \<not> truthy vbParams then Inr []
      else
        (case vbParams of
           JStr s \<Rightarrow>
             (if trim s = [] then Inr []
              else Inr (join '', '' (map convertParameter (split_on CHR '','' s))))
         | _ \<Rightarrow> Inl (TypeError ''vbParams.trim is not a function'')))"

definition convertEventParameters :: "jsval \<Rightarrow> string" where
  "convertEventParameters vbParams = ''object sender, EventArgs e''"

subsection \<open>The callbacks of the built-in rules\<close>

text \<open>
  Each callback is declared \<open>(match, ...groups)\<close> and destructures \<open>groups\<close> with a
  pattern that starts with a hole: \<open>const [, a, b] = groups\<close> binds \<open>a\<close> to \<open>groups[1]\<close>.
\<close>

definition method_callback ::
  "(jsval \<Rightarrow> jserr + string) \<Rightarrow> string \<Rightarrow> jsval list \<Rightarrow> jserr + string" where
  "method_callback conv m groups =
     (let accessibility = js_index groups 1;
          methodType = js_index groups 2;
          methodName = js_index groups 3;
          parameters = js_index groups 4;
          returnType = js_index groups 6;
          body = js_index groups 7;
          csAccessibility = mapAccessibility accessibility;
          csReturnType = (if methodType = JStr ''Function'' then js_or returnType (JStr ''object'')
                          else JStr ''void'')
      in case convertParameters parameters of
           Inl e \<Rightarrow> Inl e
         | Inr csParameters \<Rightarrow>
             (case conv body of
                Inl e \<Rightarrow> Inl e
              | Inr csBody \<Rightarrow>
                  Inr (js_to_string csAccessibility @ '' '' @ js_to_string csReturnType @ '' ''
                       @ js_to_string methodName @ ''('' @ csParameters @ '')'' @ [LF] @ ''{''
                       @ [LF] @ csBody @ [LF] @ ''}'')))"

definition event_callback ::
  "(jsval \<Rightarrow> jserr + string) \<Rightarrow> string \<Rightarrow> jsval list \<Rightarrow> jserr + string" where
  "event_callback conv m groups =
     (let accessibility = js_index groups 1;
          controlName = js_index groups 2;
          eventName = js_index groups 3;
          parameters = js_index groups 4;
          body = js_index groups 7
      in case conv body of
           Inl e \<Rightarrow> Inl e
         | Inr csBody \<Rightarrow>
             (let csParameters = convertEventParameters parameters
              in Inr (''private void '' @ js_to_string controlName @ ''_''
                      @ js_to_string eventName @ ''('' @ csParameters @ '')'' @ [LF] @ ''{''
                      @ [LF] @ csBody @ [LF] @ ''}'')))"

definition for_callback ::
  "(jsval \<Rightarrow> jserr + string) \<Rightarrow> string \<Rightarrow> jsval list \<Rightarrow> jserr + string" where
  "for_callback conv m groups =
     (let variable = js_index groups 1;
          type = js_index groups 2;
          start = js_index groups 3;
          end' = js_index groups 4;
          step = js_index groups 5;
          body = js_index groups 6;
          csType = mapDataType type;
          csStep = (if truthy step then '' += '' @ js_to_string step else ''++'')
      in case conv body of
           Inl e \<Rightarrow> Inl e
         | Inr csBody \<Rightarrow>
             Inr (''for ('' @ js_to_string csType @ '' '' @ js_to_string variable @ '' = ''
                  @ js_to_string start @ ''; '' @ js_to_string variable @ '' <= ''
                  @ js_to_string end' @ ''; '' @ js_to_string variable @ csStep @ '')''
                  @ [LF] @ ''{'' @ [LF] @ csBody @ [LF] @ ''}''))"

definition try_callback ::
  "(jsval \<Rightarrow> jserr + string) \<Rightarrow> string \<Rightarrow> jsval list \<Rightarrow> jserr + string" where
  "try_callback conv m groups =
     (let tryBody = js_index groups 1;
          exceptionVar = js_index groups 2;
          exceptionType = js_index groups 3;
          catchBody = js_index groups 4
      in case conv tryBody of
           Inl e \<Rightarrow> Inl e
         | Inr csTryBody \<Rightarrow>
             (case conv catchBody of
                Inl e \<Rightarrow> Inl e
              | Inr csCatchBody \<Rightarrow>
                  Inr (''try'' @ [LF] @ ''{'' @ [LF] @ csTryBody @ [LF] @ ''}'' @ [LF]
                       @ ''catch ('' @ js_to_string exceptionType @ '' ''
                       @ js_to_string exceptionVar @ '')'' @ [LF] @ ''{'' @ [LF]
                       @ csCatchBody @ [LF] @ ''}'')))"

definition property_callback ::
  "(jsval \<Rightarrow> jserr + string) \<Rightarrow> string \<Rightarrow> jsval list \<Rightarrow> jserr + string" where
  "property_callback conv m groups =
     (let accessibility = js_index groups 1;
          propName = js_index groups 2;
          propType = js_index groups 3;
          getterBody = js_index groups 4;
          setterParam = js_index groups 5;
          setterBody = js_index groups 6;
          csAccessibility = mapAccessibility accessibility;
          csType = mapDataType propType
      in case conv getterBody of
           Inl e \<Rightarrow> Inl e
         | Inr csGetterBody \<Rightarrow>
             (case conv setterBody of
                Inl e \<Rightarrow> Inl e
              | Inr csSetterBody \<Rightarrow>
                  Inr (js_to_string csAccessibility @ '' '' @ js_to_string csType @ '' ''
                       @ js_to_string propName @ [LF] @ ''{'' @ [LF] @ ''    get'' @ [LF]
                       @ ''    {'' @ [LF] @ csGetterBody @ [LF] @ ''    }'' @ [LF]
                       @ ''    set'' @ [LF] @ ''    {'' @ [LF] @ csSetterBody @ [LF]
                       @ ''    }'' @ [LF] @ ''}'')))"

subsection \<open>\<open>initializeRules\<close>\<close>

definition mk_rule ::
  "string \<Rightarrow> string \<Rightarrow> string \<Rightarrow> category \<Rightarrow> int \<Rightarrow> regex \<Rightarrow> replacement
   \<Rightarrow> MigrationExample list option \<Rightarrow> MigrationRule" where
  "mk_rule i n d c p rx r ex =
     \<lparr> rid = i, rname = n, description = d, category = c, priority = p, pattern = rx,
       replacement = r, conditions = None, examples = ex \<rparr>"

definition ex1 :: "string \<Rightarrow> string \<Rightarrow> string \<Rightarrow> MigrationExample list option" where
  "ex1 b a d = Some [\<lparr> ex_before = b, ex_after = a, ex_description = d \<rparr>]"

definition vb_dim_declaration :: MigrationRule where
  "vb_dim_declaration = mk_rule ''vb-dim-declaration'' ''Dim Variable Declaration''
     ''Convert VB Dim statements to C# variable declarations'' Syntax 10
     (mk_regex 2 True [RLit ''Dim'', ws_plus, RGroup 1 word_plus, ws_plus, RLit ''As'', ws_plus,
                       RGroup 2 word_plus])
     (Template ''$2 $1'')
     (ex1 ''Dim nombre As String'' ''string nombre'' ''Basic variable declaration'')"

definition vb_new_object :: MigrationRule where
  "vb_new_object = mk_rule ''vb-new-object'' ''New Object Creation''
     ''Convert VB New object creation to C#'' Syntax 10
     (mk_regex 3 True [RLit ''Dim'', ws_plus, RGroup 1 word_plus, ws_plus, RLit ''As'', ws_plus,
                       RLit ''New'', ws_plus, RGroup 2 word_plus, ws_star, RLit ''('',
                       RGroup 3 dot_star_lazy, RLit '')''])
     (Template ''var $1 = new $2($3)'')
     (ex1 ''Dim lista As New List(Of String)()'' ''var lista = new List<string>()''
          ''Object instantiation'')"

definition vb_if_then :: MigrationRule where
  "vb_if_then = mk_rule ''vb-if-then'' ''If-Then Statement''
     ''Convert VB If-Then to C# if statement'' Syntax 9
     (mk_regex 1 True [RLit ''If'', ws_plus, RGroup 1 dot_plus_lazy, ws_plus, RLit ''Then''])
     (Template ''if ($1)'')
     (ex1 ''If x > 5 Then'' ''if (x > 5)'' ''Basic if statement'')"

definition vb_elseif :: MigrationRule where
  "vb_elseif = mk_rule ''vb-elseif'' ''ElseIf Statement''
     ''Convert VB ElseIf to C# else if'' Syntax 9
     (mk_regex 1 True [RLit ''ElseIf'', ws_plus, RGroup 1 dot_plus_lazy, ws_plus, RLit ''Then''])
     (Template ''else if ($1)'')
     (ex1 ''ElseIf x < 0 Then'' ''else if (x < 0)'' ''ElseIf conversion'')"

definition vb_end_if :: MigrationRule where
  "vb_end_if = mk_rule ''vb-end-if'' ''End If Statement''
     ''Convert VB End If to C# closing brace'' Syntax 8
     (mk_regex 0 True [RLit ''End If''])
     (Template ''}'')
     (ex1 ''End If'' ''}'' ''Block closing'')"

definition vb_string_type :: MigrationRule where
  "vb_string_type = mk_rule ''vb-string-type'' ''String Type''
     ''Convert VB String to C# string'' DataTypes 9
     (mk_regex 0 True [RWordB, RLit ''String'', RWordB])
     (Template ''string'')
     (ex1 ''String nombre'' ''string nombre'' ''String type conversion'')"

definition vb_integer_type :: MigrationRule where
  "vb_integer_type = mk_rule ''vb-integer-type'' ''Integer Type''
     ''Convert VB Integer to C# int'' DataTypes 9
     (mk_regex 0 True [RWordB, RLit ''Integer'', RWordB])
     (Template ''int'')
     (ex1 ''Integer edad'' ''int edad'' ''Integer type conversion'')"

definition vb_boolean_type :: MigrationRule where
  "vb_boolean_type = mk_rule ''vb-boolean-type'' ''Boolean Type''
     ''Convert VB Boolean to C# bool'' DataTypes 9
     (mk_regex 0 True [RWordB, RLit ''Boolean'', RWordB])
     (Template ''bool'')
     (ex1 ''Boolean activo'' ''bool activo'' ''Boolean type conversion'')"

definition vb_string_concat :: MigrationRule where
  "vb_string_concat = mk_rule ''vb-string-concat'' ''String Concatenation''
     ''Convert VB & operator to C# + operator'' Syntax 8
     (mk_regex 0 True [ws_plus, RLit ''&'', ws_plus])
     (Template '' + '')
     (ex1 ''resultado = \"Hola\" & \" Mundo\"'' ''resultado = \"Hola\" + \" Mundo\"''
          ''String concatenation'')"

definition vb_logical_and :: MigrationRule where
  "vb_logical_and = mk_rule ''vb-logical-and'' ''Logical AND''
     ''Convert VB And to C# &&'' Syntax 8
     (mk_regex 0 True [RWordB, RLit ''And'', RWordB])
     (Template ''&&'')
     (ex1 ''If x > 0 And y < 10 Then'' ''if (x > 0 && y < 10)'' ''Logical AND operator'')"

definition vb_logical_or :: MigrationRule where
  "vb_logical_or = mk_rule ''vb-logical-or'' ''Logical OR''
     ''Convert VB Or to C# ||'' Syntax 8
     (mk_regex 0 True [RWordB, RLit ''Or'', RWordB])
     (Template ''||'')
     (ex1 ''If x < 0 Or y > 10 Then'' ''if (x < 0 || y > 10)'' ''Logical OR operator'')"

definition vb_logical_not :: MigrationRule where
  "vb_logical_not = mk_rule ''vb-logical-not'' ''Logical NOT''
     ''Convert VB Not to C# !'' Syntax 8
     (mk_regex 0 True [RWordB, RLit ''Not'', ws_plus])
     (Template ''!'')
     (ex1 ''If Not esValido Then'' ''if (!esValido)'' ''Logical NOT operator'')"

definition vb_msgbox :: MigrationRule where
  "vb_msgbox = mk_rule ''vb-msgbox'' ''MsgBox Function''
     ''Convert VB MsgBox to C# MessageBox.Show'' Functions 7
     (mk_regex 0 True [RLit ''MsgBox'', ws_star, RLit ''(''])
     (Template ''MessageBox.Show('')
     (ex1 ''MsgBox(\"Hola Mundo\")'' ''MessageBox.Show(\"Hola Mundo\")'' ''Message box display'')"

definition vb_comments :: MigrationRule where
  "vb_comments = mk_rule ''vb-comments'' ''Comments''
     ''Convert VB single quote comments to C# double slash'' Syntax 5
     (mk_regex 1 True [RBol True, RGroup 1 ws_star, RLit [CHR 0x27]])
     (Template ''$1//'')
     (ex1 (CHR 0x27 # '' This is a comment'') ''// This is a comment'' ''Single line comment'')"

definition vb_method_with_body :: MigrationRule where
  "vb_method_with_body = mk_rule ''vb-method-with-body'' ''Method Declaration with Body''
     ''Convert VB method declarations with complete body'' Functions 10
     (mk_regex 8 True
        [RGroup 1 (ralt [''Private'', ''Public'', ''Protected'', ''Friend'']), ws_plus,
         RGroup 2 (ralt [''Sub'', ''Function'']), ws_plus, RGroup 3 word_plus, ws_star,
         RLit ''('', RGroup 4 dot_star_lazy, RLit '')'',
         ROpt True (RGroup 5 (rseq [ws_plus, RLit ''As'', ws_plus, RGroup 6 word_plus])),
         ws_star, RLit [LF], RGroup 7 any_lazy, RLit (LF # ''End''), ws_plus,
         RGroup 8 (ralt [''Sub'', ''Function''])])
     (Func method_callback) None"

definition vb_event_handler_complete :: MigrationRule where
  "vb_event_handler_complete = mk_rule ''vb-event-handler-complete'' ''Complete Event Handler''
     ''Convert VB event handlers with actual implementation'' Patterns 10
     (mk_regex 7 True
        [RGroup 1 (ralt [''Private'', ''Public'']), ws_plus, RLit ''Sub'', ws_plus,
         RGroup 2 word_plus, RLit ''_'', RGroup 3 word_plus, ws_star, RLit ''('',
         RGroup 4 (RStar True (RSet True [CChr CHR '')''])), RLit '')'', ws_plus,
         RLit ''Handles'', ws_plus, RGroup 5 (RPlus True (RSet True [CChr CHR ''.'', CChr LF])),
         RLit ''.'', RGroup 6 (RPlus True (RSet True [CChr CHR ''.'', CChr LF])), ws_star,
         RLit [LF], RGroup 7 any_lazy, RLit (LF # ''End Sub'')])
     (Func event_callback) None"

definition vb_for_loop_complete :: MigrationRule where
  "vb_for_loop_complete = mk_rule ''vb-for-loop-complete'' ''Complete For Loop''
     ''Convert VB For loops with body'' Patterns 9
     (mk_regex 6 True
        [RLit ''For'', ws_plus, RGroup 1 word_plus, ws_plus, RLit ''As'', ws_plus,
         RGroup 2 word_plus, ws_plus, RLit ''='', ws_plus, RGroup 3 dot_plus_lazy, ws_plus,
         RLit ''To'', ws_plus, RGroup 4 dot_plus_lazy,
         ROpt True (rseq [ws_plus, RLit ''Step'', ws_plus, RGroup 5 dot_plus_lazy]),
         ws_star, RLit [LF], RGroup 6 any_lazy, RLit (LF # ''Next'')])
     (Func for_callback) None"

definition vb_try_catch :: MigrationRule where
  "vb_try_catch = mk_rule ''vb-try-catch'' ''Try-Catch Block''
     ''Convert VB Try-Catch blocks'' Patterns 9
     (mk_regex 4 True
        [RLit ''Try'', ws_star, RLit [LF], RGroup 1 any_lazy, RLit (LF # ''Catch''), ws_plus,
         RGroup 2 word_plus, ws_plus, RLit ''As'', ws_plus, RGroup 3 word_plus, ws_star,
         RLit [LF], RGroup 4 any_lazy, RLit (LF # ''End Try'')])
     (Func try_callback) None"

definition vb_property_complete :: MigrationRule where
  "vb_property_complete = mk_rule ''vb-property-complete'' ''Complete Property''
     ''Convert VB properties with getter/setter logic'' Patterns 9
     (mk_regex 6 True
        [RGroup 1 (ralt [''Private'', ''Public'', ''Protected'']), ws_plus, RLit ''Property'',
         ws_plus, RGroup 2 word_plus, ws_star, RLit ''()'', ws_plus, RLit ''As'', ws_plus,
         RGroup 3 word_plus, ws_star, RLit [LF], ws_star, RLit ''Get'', ws_star, RLit [LF],
         RGroup 4 any_lazy, RLit [LF], ws_star, RLit ''End Get'', ws_star, RLit [LF], ws_star,
         RLit ''Set'', ws_star, RLit ''('', RGroup 5 (RPlus True (RSet True [CChr CHR '')''])),
         RLit '')'', ws_star, RLit [LF], RGroup 6 any_lazy, RLit [LF], ws_star,
         RLit ''End Set'', ws_star, RLit (LF # ''End Property'')])
     (Func property_callback) None"

definition vb_sql_command :: MigrationRule where
  "vb_sql_command = mk_rule ''vb-sql-command'' ''SQL Command Execution''
     ''Convert VB SQL command patterns to C#'' Framework 8
     (mk_regex 3 True
        [RLit ''Dim'', ws_plus, RGroup 1 word_plus, ws_plus, RLit ''As'', ws_plus, RLit ''New'',
         ws_plus, RLit ''SqlCommand'', ws_star, RLit ''('', ws_star, RLit ''\"'',
         RGroup 2 (RPlus True (RSet True [CChr CHR ''\"''])), RLit ''\"'', ws_star, RLit '','',
         ws_star, RGroup 3 word_plus, ws_star, RLit '')''])
     (Template ''using var $1 = new SqlCommand(\"$2\", $3)'') None"

definition initializeRules :: "MigrationRule list" where
  "initializeRules =
     [vb_dim_declaration, vb_new_object, vb_if_then, vb_elseif, vb_end_if, vb_string_type,
      vb_integer_type, vb_boolean_type, vb_string_concat, vb_logical_and, vb_logical_or,
      vb_logical_not, vb_msgbox, vb_comments, vb_method_with_body, vb_event_handler_complete,
      vb_for_loop_complete, vb_try_catch, vb_property_complete, vb_sql_command]"

subsection \<open>The engine as state\<close>

text \<open>
  The engine object holds the rule list; \<open>applyRules\<close> sorts it in place, so a call
  returns its result together with the engine it leaves behind.
\<close>

record MigrationRulesEngine =
  rules :: "MigrationRule list"

definition applyRules ::
  "nat \<Rightarrow> MigrationRulesEngine \<Rightarrow> string \<Rightarrow> MigrationContext
   \<Rightarrow> (jserr + string) \<times> MigrationRulesEngine" where
  "applyRules d this content context =
     (applyRules_d d (rules this) content context,
      if d = 0 then this else this \<lparr> rules := sortedRules (rules this) \<rparr>)"

definition addCustomRule :: "MigrationRule \<Rightarrow> MigrationRulesEngine \<Rightarrow> MigrationRulesEngine" where
  "addCustomRule rule this = this \<lparr> rules := rules this @ [rule] \<rparr>"

definition new_MigrationRulesEngine :: MigrationRulesEngine where
  "new_MigrationRulesEngine = \<lparr> rules = initializeRules \<rparr>"

subsection \<open>The contract of \<open>applyRules\<close>, in the words of the specification\<close>

text \<open>
  A condition holds against the context: the file path ends with the extension, the
  project kind is equal, the whole file content has (or lacks) the substring.
\<close>

definition spec_condition :: "MigrationContext \<Rightarrow> MigrationCondition \<Rightarrow> bool" where
  "spec_condition context c =
     (case ctype c of
        contains \<Rightarrow> sublist (cvalue c) (fileContent context)
      | not_contains \<Rightarrow> \<not> sublist (cvalue c) (fileContent context)
      | file_extension \<Rightarrow> suffix (cvalue c) (filePath context)
      | project_type \<Rightarrow> projectType context = cvalue c)"

definition spec_conditions_hold :: "MigrationRule \<Rightarrow> MigrationContext \<Rightarrow> bool" where
  "spec_conditions_hold rule context =
     (case conditions rule of None \<Rightarrow> True | Some cs \<Rightarrow> list_all (spec_condition context) cs)"

text \<open>
  A match of the pattern at a position of the text (\<open>rp\<close> is the text before the
  position, reversed): the first way the backtracking search succeeds there, given by
  its length and its captured groups.
\<close>

definition match_here :: "regex \<Rightarrow> string \<Rightarrow> string \<Rightarrow> (nat \<times> string option list) option" where
  "match_here rx rp text =
     (case rmatch (re_src rx) (rp, text, replicate (re_groups rx) None) of
        [] \<Rightarrow> None
      | st # others \<Rightarrow> Some (length text - length (fst (snd st)), snd (snd st)))"

text \<open>
  The text that replaces one match: the literal template with its \<open>$\<close> references
  filled in, or the result of the replacement function, called with the matched text,
  the captured groups (\<open>undefined\<close> for a group that took no part in the match), the
  offset of the match and the whole text.
\<close>

definition replacement_text ::
  "(jsval \<Rightarrow> jserr + string) \<Rightarrow> MigrationRule \<Rightarrow> string \<Rightarrow> string option list \<Rightarrow> string \<Rightarrow> string
   \<Rightarrow> jserr + string" where
  "replacement_text conv rule m caps pre post =
     (case replacement rule of
        Template t \<Rightarrow> Inr (expand_template t m caps pre post)
      | Func f \<Rightarrow>
          f conv m (map (\<lambda>c. case c of None \<Rightarrow> JUndef | Some g \<Rightarrow> JStr g) caps
                    @ [JNum (length pre), JStr (pre @ m @ post)]))"

text \<open>
  Substitution from left to right: the leftmost match from the current position is
  replaced. With \<open>every\<close> the search goes on behind the match (one character further
  after an empty match), so that every non-overlapping match is replaced; without it
  the rest of the text is kept as it is, so that only the first match is replaced.
\<close>

function substitute ::
  "bool \<Rightarrow> regex \<Rightarrow> rfun \<Rightarrow> string \<Rightarrow> string \<Rightarrow> jserr + string" where
  "substitute every rx f rp text =
     (case match_here rx rp text of
        None \<Rightarrow>
          (case text of
             [] \<Rightarrow> Inr []
           | c # cs \<Rightarrow>
               (case substitute every rx f (c # rp) cs of
                  Inl e \<Rightarrow> Inl e
                | Inr out \<Rightarrow> Inr (c # out)))
      | Some (l, caps) \<Rightarrow>
          (case f (take l text) caps (rev rp) (drop l text) of
             Inl e \<Rightarrow> Inl e
           | Inr new \<Rightarrow>
               if \<not> every then Inr (new @ drop l text)
               else
                 (case (case text of
                          [] \<Rightarrow> Inr []
                        | c # cs \<Rightarrow>
                            if l = 0
                            then (case substitute every rx f (c # rp) cs of
                                    Inl e \<Rightarrow> Inl e
                                  | Inr out \<Rightarrow> Inr (c # out))
                            else substitute every rx f (rev (take l text) @ rp) (drop l text)) of
                    Inl e \<Rightarrow> Inl e
                  | Inr out \<Rightarrow> Inr (new @ out))))"
  by pat_completeness auto
termination
  by (relation "measure (\<lambda>(every, rx, f, rp, text). length text)") auto

definition substitution ::
  "bool \<Rightarrow> (jsval \<Rightarrow> jserr + string) \<Rightarrow> MigrationRule \<Rightarrow> string \<Rightarrow> jserr + string" where
  "substitution every conv rule text =
     substitute every (pattern rule) (replacement_text conv rule) [] text"

text \<open>
  One step of the fold: the text so far, or the exception that ended the run. A rule
  whose conditions hold substitutes; \<open>every\<close> tells for which rules every match is
  replaced.
\<close>

definition fold_step ::
  "(MigrationRule \<Rightarrow> bool) \<Rightarrow> (jsval \<Rightarrow> jserr + string) \<Rightarrow> MigrationContext \<Rightarrow> jserr + string
   \<Rightarrow> MigrationRule \<Rightarrow> jserr + string" where
  "fold_step every conv context acc rule =
     (case acc of
        Inl e \<Rightarrow> Inl e
      | Inr text \<Rightarrow>
          if spec_conditions_hold rule context then substitution (every rule) conv rule text
          else Inr text)"

text \<open>The fold in which every rule replaces every match of its pattern.\<close>

definition fold_of_global_substitutions ::
  "(jsval \<Rightarrow> jserr + string) \<Rightarrow> MigrationRule list \<Rightarrow> string \<Rightarrow> MigrationContext
   \<Rightarrow> jserr + string" where
  "fold_of_global_substitutions conv rs text context =
     foldl (fold_step (\<lambda>r. True) conv context) (Inr text) (sortedRules rs)"

text \<open>
  The fold in which a rule replaces every match if its pattern carries the \<open>g\<close> flag,
  and the first match only if it does not.
\<close>

definition fold_of_replacements ::
  "(jsval \<Rightarrow> jserr + string) \<Rightarrow> MigrationRule list \<Rightarrow> string \<Rightarrow> MigrationContext
   \<Rightarrow> jserr + string" where
  "fold_of_replacements conv rs text context =
     foldl (fold_step (\<lambda>r. re_global (pattern r)) conv context) (Inr text) (sortedRules rs)"

subsection \<open>Fixtures\<close>

text \<open>The inputs of the examples that the built-in rules document.\<close>

definition rule_examples :: "string list" where
  "rule_examples =
     concat (map (\<lambda>r. case examples r of None \<Rightarrow> [] | Some es \<Rightarrow> map ex_before es)
                 initializeRules)"

text \<open>The inputs of the scenarios of the specification and of the unit tests.\<close>

definition scenario_inputs :: "string list" where
  "scenario_inputs =
     [''Dim nombre As String'', ''If x > 5 Then'',
      ''If x > 5 Then'' @ [LF] @ ''    y = 1'' @ [LF] @ ''End If'',
      ''MsgBox(\"Hello World\")'', ''resultado = \"Hola\" & \" Mundo\"'']"

definition fixture_corpus :: "string list" where
  "fixture_corpus = rule_examples @ scenario_inputs"

text \<open>The built-in rules as the in-place sort leaves them, and with the custom rule added.\<close>

definition sorted_builtin_rules :: "MigrationRule list" where
  "sorted_builtin_rules =
     [vb_dim_declaration, vb_new_object, vb_method_with_body, vb_event_handler_complete,
      vb_if_then, vb_elseif, vb_string_type, vb_integer_type, vb_boolean_type,
      vb_for_loop_complete, vb_try_catch, vb_property_complete, vb_end_if, vb_string_concat,
      vb_logical_and, vb_logical_or, vb_logical_not, vb_sql_command, vb_msgbox, vb_comments]"

text \<open>
  A second run of the built-in rules on the output of a first run changes nothing
  (any call depths, any contexts).
\<close>

definition idempotent_on ::
  "nat \<Rightarrow> nat \<Rightarrow> MigrationContext \<Rightarrow> MigrationContext \<Rightarrow> string \<Rightarrow> bool" where
  "idempotent_on d d' context context' t =
     (case applyRules_d (Suc d) initializeRules t context of
        Inl e \<Rightarrow> False
      | Inr t1 \<Rightarrow> applyRules_d (Suc d') initializeRules t1 context' = Inr t1)"

definition loop_idempotent_on ::
  "(jsval \<Rightarrow> jserr + string) \<Rightarrow> (jsval \<Rightarrow> jserr + string) \<Rightarrow> MigrationContext
   \<Rightarrow> MigrationContext \<Rightarrow> string \<Rightarrow> bool" where
  "loop_idempotent_on conv conv' context context' t =
     (case rules_loop conv context sorted_builtin_rules t of
        Inl e \<Rightarrow> False
      | Inr t1 \<Rightarrow> rules_loop conv' context' sorted_builtin_rules t1 = Inr t1)"

text \<open>A custom rule as the unit tests add one, here with conditions.\<close>

definition custom_test_rule :: MigrationRule where
  "custom_test_rule =
     \<lparr> rid = ''custom-test'', rname = ''Custom Test Rule'', description = ''Test custom rule'',
       category = Syntax, priority = 5,
       pattern = mk_regex 0 True [RLit ''test''],
       replacement = Template ''TEST'',
       conditions = Some [\<lparr> ctype = file_extension, cvalue = ''.vb'' \<rparr>,
                          \<lparr> ctype = contains, cvalue = ''Dim'' \<rparr>],
       examples = Some [] \<rparr>"

definition test_context :: "string \<Rightarrow> string \<Rightarrow> MigrationContext" where
  "test_context path content =
     \<lparr> filePath = path, fileContent = content, projectType = ''WinForms'',
       targetFramework = ''net8.0'', usings = [], variableTypes = [], functionTypes = [] \<rparr>"

text \<open>
  Custom rules as \<open>addCustomRule\<close> accepts them: one whose pattern \<open>/a/\<close> has no \<open>g\<close>
  flag, and two with overlapping patterns and unequal priorities.
\<close>

definition first_match_rule :: MigrationRule where
  "first_match_rule =
     \<lparr> rid = ''custom-first'', rname = ''First a'', description = ''a to b, no g flag'',
       category = Syntax, priority = 5,
       pattern = mk_regex 0 False [RLit ''a''],
       replacement = Template ''b'', conditions = None, examples = None \<rparr>"

definition rule_a_to_b :: MigrationRule where
  "rule_a_to_b =
     \<lparr> rid = ''custom-a'', rname = ''a to b'', description = ''a to b'',
       category = Syntax, priority = 2,
       pattern = mk_regex 0 True [RLit ''a''],
       replacement = Template ''b'', conditions = None, examples = None \<rparr>"

definition rule_b_to_c :: MigrationRule where
  "rule_b_to_c =
     \<lparr> rid = ''custom-b'', rname = ''b to c'', description = ''b to c'',
       category = Syntax, priority = 1,
       pattern = mk_regex 0 True [RLit ''b''],
       replacement = Template ''c'', conditions = None, examples = None \<rparr>"

section \<open>The enhanced engine (\<open>migration/enhanced-rules-engine.ts\<close>)\<close>

datatype enhanced_category =
  ESyntax | EDataTypes | EControls | EFunctions | EPatterns | EFramework | EBusinessLogic

text \<open>
  The callbacks of the enhanced rules are closures over the enhanced engine, whose helpers
  never call back into a rule run; a callback receives the match and the array of the
  remaining arguments (captures, offset, whole text).
\<close>

datatype enhanced_replacement =
    ETemplate string
  | EFunc "string \<Rightarrow> jsval list \<Rightarrow> jserr + string"

record EnhancedMigrationRule =
  eid :: string
  ename :: string
  edescription :: string
  ecategory :: enhanced_category
  epriority :: int
  epattern :: regex
  ereplacement :: enhanced_replacement
  preProcess :: "(string \<Rightarrow> jserr + string) option"
  postProcess :: "(string \<Rightarrow> jserr + string) option"

definition ereplacer :: "enhanced_replacement \<Rightarrow> rfun" where
  "ereplacer r m caps pre post =
     (case r of
        ETemplate t \<Rightarrow> Inr (expand_template t m caps pre post)
      | EFunc f \<Rightarrow> f m (map cap_val caps @ [JNum (length pre), JStr (pre @ m @ post)]))"

definition template_fun :: "string \<Rightarrow> rfun" where
  "template_fun t m caps pre post = Inr (expand_template t m caps pre post)"

text \<open>\<open>s.replace(rx, 'template')\<close>: a template raises nothing.\<close>

definition replace_template :: "regex \<Rightarrow> string \<Rightarrow> string \<Rightarrow> string" where
  "replace_template rx t s = (case js_replace rx (template_fun t) s of Inr out \<Rightarrow> out | Inl e \<Rightarrow> s)"

definition hook :: "(string \<Rightarrow> jserr + string) option \<Rightarrow> string \<Rightarrow> jserr + string" where
  "hook h s = (case h of None \<Rightarrow> Inr s | Some f \<Rightarrow> f s)"

text \<open>Phase 2 of \<open>migrateVBtoCSharp\<close>: the loop over the sorted rules.\<close>

fun enhanced_loop :: "EnhancedMigrationRule list \<Rightarrow> string \<Rightarrow> jserr + string" where
  "enhanced_loop [] result = Inr result"
| "enhanced_loop (rule # rest) result =
     (case hook (preProcess rule) result of
        Inl e \<Rightarrow> Inl e
      | Inr r1 \<Rightarrow>
          (case js_replace (epattern rule) (ereplacer (ereplacement rule)) r1 of
             Inl e \<Rightarrow> Inl e
           | Inr r2 \<Rightarrow>
               (case hook (postProcess rule) r2 of
                  Inl e \<Rightarrow> Inl e
                | Inr r3 \<Rightarrow> enhanced_loop rest r3)))"

definition sortedEnhancedRules :: "EnhancedMigrationRule list \<Rightarrow> EnhancedMigrationRule list" where
  "sortedEnhancedRules rs = sort_key (\<lambda>r. - epriority r) rs"

definition preprocessContent :: "string \<Rightarrow> string" where
  "preprocessContent content =
     (let result = replace_template
                     (mk_regex 0 True [RLit [LF], ws_star, RLit [LF], ws_star, RLit [LF]])
                     [LF, LF] content
      in replace_template (mk_regex 0 True [RBol True, ws_plus, REol True]) [] result)"

definition needs_semicolon :: "string \<Rightarrow> bool" where
  "needs_semicolon line =
     ((has_match (mk_regex 1 False
                    [RBol False, ws_star, RGroup 1 (ralt [''string'', ''int'', ''bool'', ''var'']),
                     ws_plus, word_plus, ws_star, RLit ''='']) line
       \<and> \<not> endsWith line '';'')
      \<or> (has_match (mk_regex 0 False [RBol False, ws_star, word_plus, ws_star, RLit ''='']) line
          \<and> \<not> endsWith line '';'' \<and> \<not> includes_str line ''{'' \<and> \<not> includes_str line ''}'')
      \<or> (has_match (mk_regex 1 False
                       [RBol False, ws_star, RGroup 1 (ralt [''return'', ''MessageBox.Show''])]) line
          \<and> \<not> endsWith line '';''))"

definition postProcessContent :: "string \<Rightarrow> string" where
  "postProcessContent content =
     (let r1 = replace_template (mk_regex 0 True [RLit ''End if'']) [] content;
          r2 = replace_template (mk_regex 0 True [RLit ''End If'']) [] r1;
          r3 = replace_template (mk_regex 0 True [RLit ''End Sub'']) [] r2;
          r4 = replace_template (mk_regex 0 True [RLit ''End Function'']) [] r3;
          cleanLines = map (\<lambda>line. if needs_semicolon line then line @ '';'' else line)
                         (filter (\<lambda>line. 0 < length line) (map trim (split_on LF r4)))
      in join [LF] cleanLines)"

definition migrateVBtoCSharp ::
  "EnhancedMigrationRule list \<Rightarrow> string \<Rightarrow> string \<Rightarrow> jserr + string" where
  "migrateVBtoCSharp rs vbContent path =
     (case enhanced_loop (sortedEnhancedRules rs) (preprocessContent vbContent) of
        Inl e \<Rightarrow> Inl e
      | Inr result \<Rightarrow> Inr (postProcessContent result))"

subsection \<open>Helpers of the enhanced rules\<close>

definition emapDataType :: "jsval \<Rightarrow> jsval" where
  "emapDataType vbType =
     js_or (obj_lookup [(''String'', ''string''), (''Integer'', ''int''), (''Boolean'', ''bool''),
                        (''Double'', ''double''), (''Single'', ''float''), (''Long'', ''long''),
                        (''Date'', ''DateTime''), (''Object'', ''object'')]
              (js_to_string vbType))
           vbType"

definition econvertParameter :: "string \<Rightarrow> string" where
  "econvertParameter param =
     (let trimmed = trim param in
      case js_match param_regex trimmed of
        Some (m, caps) \<Rightarrow>
          js_to_string (emapDataType (cap_val (caps ! 1))) @ '' ''
          @ js_to_string (cap_val (caps ! 0))
      | None \<Rightarrow> trimmed)"

definition econvertParameters :: "jsval \<Rightarrow> jserr + string" where
  "econvertParameters vbParams =
     (if \<not> truthy vbParams then Inr []
      else
        (case vbParams of
           JStr s \<Rightarrow>
             (if trim s = [] then Inr []
              else Inr (join '', '' (map econvertParameter (split_on CHR '','' s))))
         | _ \<Rightarrow> Inl (TypeError ''vbParams.trim is not a function'')))"

definition getDefaultValue :: "jsval \<Rightarrow> jsval" where
  "getDefaultValue csType =
     obj_lookup [(''string'', ''\"\"''), (''int'', ''0''), (''bool'', ''false''),
                 (''double'', ''0.0''), (''float'', ''0.0f'')]
       (js_to_string csType)"

definition mapMessageBoxIcon :: "jsval \<Rightarrow> jsval" where
  "mapMessageBoxIcon vbIcon =
     js_or (obj_lookup [(''vbInformation'', ''Information''), (''vbExclamation'', ''Warning''),
                        (''vbCritical'', ''Error''), (''vbQuestion'', ''Question'')]
              (js_to_string vbIcon))
           (JStr ''Information'')"

text \<open>\<open>toLowerCase\<close> on the letters A to Z; its argument here matches \<open>Form\d+\<close>.\<close>

definition lower_char :: "char \<Rightarrow> char" where
  "lower_char c = (if in_range CHR ''A'' CHR ''Z'' c then char_of (of_char c + (32::nat)) else c)"

definition toLowerCase :: "string \<Rightarrow> string" where
  "toLowerCase s = map lower_char s"

subsection \<open>The callbacks of the enhanced rules\<close>

definition emethod_callback :: "string \<Rightarrow> jsval list \<Rightarrow> jserr + string" where
  "emethod_callback m args =
     (let accessibility = js_index args 0;
          methodType = js_index args 1;
          methodName = js_index args 2;
          parameters = js_index args 3;
          returnType = js_index args 5;
          csAccessibility = mapAccessibility (js_or accessibility (JStr ''Private''));
          csReturnType = (if methodType = JStr ''Function''
                          then emapDataType (js_or returnType (JStr ''object''))
                          else JStr ''void'')
      in case econvertParameters parameters of
           Inl e \<Rightarrow> Inl e
         | Inr csParameters \<Rightarrow>
             (case methodName of
                JStr n \<Rightarrow>
                  if includes_str n ''_''
                     \<and> (includes_str n ''Click'' \<or> includes_str n ''Load''
                          \<or> includes_str n ''Change'')
                  then Inr (js_to_string csAccessibility @ '' '' @ js_to_string csReturnType
                            @ '' '' @ n @ ''(object sender, EventArgs e)'')
                  else Inr (js_to_string csAccessibility @ '' '' @ js_to_string csReturnType
                            @ '' '' @ n @ ''('' @ csParameters @ '')'')
              | _ \<Rightarrow> Inl (TypeError ''methodName.includes is not a function'')))"

definition edim_callback :: "string \<Rightarrow> jsval list \<Rightarrow> jserr + string" where
  "edim_callback m args =
     (let varName = js_index args 0;
          varType = js_index args 1;
          initValue = js_index args 3;
          csType = emapDataType varType
      in if truthy initValue
         then Inr (js_to_string csType @ '' '' @ js_to_string varName @ '' = ''
                   @ js_to_string initValue)
         else
           (let defaultValue = getDefaultValue csType
            in Inr (js_to_string csType @ '' '' @ js_to_string varName
                    @ (if truthy defaultValue then '' = '' @ js_to_string defaultValue else []))))"

definition emsgbox_callback :: "string \<Rightarrow> jsval list \<Rightarrow> jserr + string" where
  "emsgbox_callback m args =
     (let message = js_index args 0;
          vbIcon = js_index args 1;
          icon = mapMessageBoxIcon vbIcon
      in Inr (''MessageBox.Show(\"'' @ js_to_string message
              @ ''\", \"Mensaje\", MessageBoxButtons.OK, MessageBoxIcon.'' @ js_to_string icon
              @ '')''))"

definition elogical_callback :: "string \<Rightarrow> jsval list \<Rightarrow> jserr + string" where
  "elogical_callback m args =
     (let operator = js_index args 0
      in Inr (js_to_string
                (js_or (obj_lookup [(''And'', ''&&''), (''Or'', ''||''), (''Not'', ''!'')]
                          (js_to_string operator))
                       operator)))"

definition edatatype_callback :: "string \<Rightarrow> jsval list \<Rightarrow> jserr + string" where
  "edatatype_callback m args = Inr (js_to_string (emapDataType (js_index args 0)))"

definition eform_callback :: "string \<Rightarrow> jsval list \<Rightarrow> jserr + string" where
  "eform_callback m args =
     (case js_index args 0 of
        JStr formName \<Rightarrow>
          Inr (''var '' @ toLowerCase formName @ '' = new '' @ formName @ ''(); ''
               @ toLowerCase formName @ ''.Show()'')
      | _ \<Rightarrow> Inl (TypeError ''formName.toLowerCase is not a function''))"

subsection \<open>\<open>initializeEnhancedRules\<close>\<close>

definition mk_erule ::
  "string \<Rightarrow> string \<Rightarrow> string \<Rightarrow> enhanced_category \<Rightarrow> int \<Rightarrow> regex \<Rightarrow> enhanced_replacement
   \<Rightarrow> EnhancedMigrationRule" where
  "mk_erule i n d c p rx r =
     \<lparr> eid = i, ename = n, edescription = d, ecategory = c, epriority = p, epattern = rx,
       ereplacement = r, preProcess = None, postProcess = None \<rparr>"

definition block_end :: "string list \<Rightarrow> re" where
  "block_end ks = RLook (rseq [RLit [LF], ws_star, ralt ks])"

definition quoted :: re where
  "quoted = rseq [RLit ''\"'', RStar True (RSet True [CChr CHR ''\"'']), RLit ''\"'']"

definition enhanced_method_declaration :: EnhancedMigrationRule where
  "enhanced_method_declaration = mk_erule ''enhanced-method-declaration''
     ''Enhanced Method Declaration'' ''Convert VB method declarations with proper C# syntax''
     EBusinessLogic 100
     (mk_regex 6 True
        [ROpt True (RGroup 1 (ralt [''Private'', ''Public'', ''Protected'', ''Friend''])), ws_star,
         RGroup 2 (ralt [''Sub'', ''Function'']), ws_plus, RGroup 3 word_plus, ws_star, RLit ''('',
         RGroup 4 (RStar True (RSet True [CChr CHR '')''])), RLit '')'',
         ROpt True (RGroup 5 (rseq [ws_plus, RLit ''As'', ws_plus, RGroup 6 word_plus])),
         ws_star])
     (EFunc emethod_callback)"

definition enhanced_dim_declaration :: EnhancedMigrationRule where
  "enhanced_dim_declaration = mk_erule ''enhanced-dim-declaration'' ''Enhanced Dim Declaration''
     ''Convert VB Dim statements with proper initialization'' ESyntax 95
     (mk_regex 4 True
        [RLit ''Dim'', ws_plus, RGroup 1 word_plus, ws_plus, RLit ''As'', ws_plus,
         RGroup 2 word_plus,
         ROpt True (RGroup 3 (rseq [ws_star, RLit ''='', ws_star, RGroup 4 dot_plus_lazy])),
         RLook (RAlt (RSeq ws_star (REol True)) (RSeq ws_star (RLit [LF])))])
     (EFunc edim_callback)"

definition if_then_else_post :: "string \<Rightarrow> jserr + string" where
  "if_then_else_post content =
     (let c1 = replace_template
                 (mk_regex 2 True
                    [RLit ''ElseIf'', ws_plus, RGroup 1 dot_plus_lazy, ws_plus, RLit ''Then'',
                     ws_star, RLit [LF], RGroup 2 any_lazy,
                     block_end [''ElseIf'', ''Else'', ''End If'']])
                 (''else if ($1)'' @ [LF] @ ''{'' @ [LF] @ ''$2'' @ [LF] @ ''}'') content;
          c2 = replace_template
                 (mk_regex 1 True
                    [RLit ''Else'', ws_star, RLit [LF], RGroup 1 any_lazy, block_end [''End If'']])
                 (''else'' @ [LF] @ ''{'' @ [LF] @ ''$1'' @ [LF] @ ''}'') c1
      in Inr (replace_template (mk_regex 0 True [RLit ''End If'']) [] c2))"

definition enhanced_if_then_else :: EnhancedMigrationRule where
  "enhanced_if_then_else =
     (mk_erule ''enhanced-if-then-else'' ''Enhanced If-Then-Else''
        ''Convert VB If-Then-Else blocks with proper braces'' ESyntax 90
        (mk_regex 2 True
           [RLit ''If'', ws_plus, RGroup 1 dot_plus_lazy, ws_plus, RLit ''Then'', ws_star,
            RLit [LF], RGroup 2 any_lazy, block_end [''ElseIf'', ''Else'', ''End If'']])
        (ETemplate (''if ($1)'' @ [LF] @ ''{'' @ [LF] @ ''$2'' @ [LF] @ ''}'')))
     \<lparr> postProcess := Some if_then_else_post \<rparr>"

definition enhanced_msgbox :: EnhancedMigrationRule where
  "enhanced_msgbox = mk_erule ''enhanced-msgbox'' ''Enhanced MsgBox''
     ''Convert VB MsgBox with proper MessageBox.Show syntax'' EFunctions 85
     (mk_regex 2 True
        [RLit ''MsgBox'', ws_plus, RLit ''\"'', RGroup 1 (RPlus True (RSet True [CChr CHR ''\"''])),
         RLit ''\"'', ws_star, RLit '','', ws_star, RGroup 2 (RSeq (RLit ''vb'') word_plus)])
     (EFunc emsgbox_callback)"

definition enhanced_string_concat :: EnhancedMigrationRule where
  "enhanced_string_concat = mk_erule ''enhanced-string-concat'' ''Enhanced String Concatenation''
     ''Convert VB string concatenation with proper C# syntax'' ESyntax 80
     (mk_regex 2 True
        [RGroup 1 (RAlt word_plus quoted), ws_plus, RLit ''&'', ws_plus,
         RGroup 2 (RAlt word_plus quoted)])
     (ETemplate ''$1 + $2'')"

definition enhanced_logical_operators :: EnhancedMigrationRule where
  "enhanced_logical_operators = mk_erule ''enhanced-logical-operators''
     ''Enhanced Logical Operators'' ''Convert VB logical operators to C#'' ESyntax 80
     (mk_regex 1 True [RWordB, RGroup 1 (ralt [''And'', ''Or'', ''Not'']), RWordB])
     (EFunc elogical_callback)"

definition enhanced_data_types :: EnhancedMigrationRule where
  "enhanced_data_types = mk_erule ''enhanced-data-types'' ''Enhanced Data Types''
     ''Convert VB data types to C# with proper mapping'' EDataTypes 75
     (mk_regex 1 True
        [RWordB, RGroup 1 (ralt [''String'', ''Integer'', ''Boolean'', ''Double'', ''Single'',
                                 ''Long'', ''Date'', ''Object'']), RWordB])
     (EFunc edatatype_callback)"

definition enhanced_database_ops :: EnhancedMigrationRule where
  "enhanced_database_ops = mk_erule ''enhanced-database-ops'' ''Enhanced Database Operations''
     ''Convert VB database operations to modern C# with proper disposal'' EFramework 70
     (mk_regex 2 True
        [RLit ''Set'', ws_plus, RGroup 1 word_plus, ws_plus, RLit ''='', ws_plus,
         RLit ''OpenDatabase'', ws_star, RLit ''('', ws_star, RLit ''\"'',
         RGroup 2 (RPlus True (RSet True [CChr CHR ''\"''])), RLit ''\"'', ws_star, RLit '')''])
     (ETemplate
        ''using var $1 = new OleDbConnection(\"Provider=Microsoft.ACE.OLEDB.12.0;Data Source=$2\")'')"

definition enhanced_exit_statements :: EnhancedMigrationRule where
  "enhanced_exit_statements = mk_erule ''enhanced-exit-statements'' ''Enhanced Exit Statements''
     ''Convert VB Exit Sub/Function to C# return'' ESyntax 65
     (mk_regex 1 True [RLit ''Exit'', ws_plus, RGroup 1 (ralt [''Sub'', ''Function''])])
     (ETemplate ''return'')"

definition enhanced_form_operations :: EnhancedMigrationRule where
  "enhanced_form_operations = mk_erule ''enhanced-form-operations'' ''Enhanced Form Operations''
     ''Convert VB form operations to C#'' EControls 60
     (mk_regex 1 True
        [RGroup 1 (RSeq (RLit ''Form'') (RPlus True (RSet False [CDigit]))), RLit ''.Show''])
     (EFunc eform_callback)"

definition enhanced_me_reference :: EnhancedMigrationRule where
  "enhanced_me_reference = mk_erule ''enhanced-me-reference'' ''Enhanced Me Reference''
     ''Convert VB Me to C# this'' ESyntax 55
     (mk_regex 0 True [RWordB, RLit ''Me.''])
     (ETemplate ''this.'')"

definition enhanced_comments :: EnhancedMigrationRule where
  "enhanced_comments = mk_erule ''enhanced-comments'' ''Enhanced Comments''
     ''Convert VB comments to C#'' ESyntax 20
     (mk_regex 1 True [RBol True, RGroup 1 ws_star, RLit [CHR 0x27]])
     (ETemplate ''$1//'')"

definition initializeEnhancedRules :: "EnhancedMigrationRule list" where
  "initializeEnhancedRules =
     [enhanced_method_declaration, enhanced_dim_declaration, enhanced_if_then_else,
      enhanced_msgbox, enhanced_string_concat, enhanced_logical_operators, enhanced_data_types,
      enhanced_database_ops, enhanced_exit_statements, enhanced_form_operations,
      enhanced_me_reference, enhanced_comments]"

section \<open>The emitter of methods (\<open>generators/csharp-generator.ts\<close>)\<close>

record VBParameter =
  p_name :: string
  p_type :: string
  p_isOptional :: "bool option"
  p_defaultValue :: "string option"
  p_byRef :: "bool option"

record VBEvent =
  ev_name :: string
  ev_handler :: string
  ev_parameters :: "VBParameter list"
  ev_body :: "string option"

record VBMethod =
  m_name :: string
  m_returnType :: string
  m_parameters :: "VBParameter list"
  m_isPublic :: bool
  m_isStatic :: bool
  m_body :: string
  m_isOverridable :: "bool option"
  m_isOverrides :: "bool option"

record CSharpParameter =
  cp_name :: string
  cp_type :: jsval
  cp_isOptional :: bool
  cp_defaultValue :: "string option"
  cp_isOut :: "bool option"
  cp_isRef :: "bool option"

record CSharpMethod =
  cm_name :: string
  cm_returnType :: jsval
  cm_parameters :: "CSharpParameter list"
  cm_accessModifier :: string
  cm_isStatic :: bool
  cm_isAsync :: bool
  cm_isVirtual :: bool
  cm_isOverride :: bool
  cm_body :: string

text \<open>The generator object: the project name and its two engines.\<close>

record CSharpGenerator =
  vbProjectName :: string
  migrationEngine :: "MigrationRule list"
  enhancedMigrationEngine :: "EnhancedMigrationRule list"

definition new_CSharpGenerator :: "string \<Rightarrow> CSharpGenerator" where
  "new_CSharpGenerator n =
     \<lparr> vbProjectName = n, migrationEngine = initializeRules,
       enhancedMigrationEngine = initializeEnhancedRules \<rparr>"

definition gmapVBTypeToCSharp :: "string option \<Rightarrow> jsval" where
  "gmapVBTypeToCSharp vbType =
     (case vbType of
        None \<Rightarrow> JStr ''object''
      | Some t \<Rightarrow>
          if t = [] then JStr ''object''
          else js_or (obj_lookup
                        [(''String'', ''string''), (''Integer'', ''int''), (''Long'', ''long''),
                         (''Single'', ''float''), (''Double'', ''double''), (''Boolean'', ''bool''),
                         (''Date'', ''DateTime''), (''Object'', ''object''),
                         (''Variant'', ''object''), (''Currency'', ''decimal''),
                         (''Byte'', ''byte''), (''Short'', ''short''), (''Nothing'', ''null''),
                         (''System.Windows.Forms.Form'', ''Form''),
                         (''System.Data.DataSet'', ''DataSet''),
                         (''System.Data.DataTable'', ''DataTable'')] t)
                     (JStr t))"

definition convertVBParameterToCSharp :: "VBParameter \<Rightarrow> CSharpParameter" where
  "convertVBParameterToCSharp vbParam =
     \<lparr> cp_name = p_name vbParam, cp_type = gmapVBTypeToCSharp (Some (p_type vbParam)),
       cp_isOptional = (case p_isOptional vbParam of None \<Rightarrow> False | Some b \<Rightarrow> b),
       cp_defaultValue = p_defaultValue vbParam, cp_isOut = Some False,
       cp_isRef = p_byRef vbParam \<rparr>"

definition detectAsyncPattern :: "string \<Rightarrow> bool" where
  "detectAsyncPattern vbCode =
     (includes_str vbCode ''Await'' \<or> includes_str vbCode ''Task'' \<or> includes_str vbCode ''Async'')"

definition dot_plus :: re where
  "dot_plus = RPlus True RAny"

definition no_comma :: re where
  "no_comma = RPlus True (RSet True [CChr CHR '',''])"

definition digits :: re where
  "digits = RPlus True (RSet False [CDigit])"

text \<open>The table of \<open>applyBasicConversions\<close>, in its order.\<close>

definition basic_conversions :: "(regex \<times> string) list" where
  "basic_conversions =
     [(mk_regex 1 True [RLit ''Dim'', ws_plus, RGroup 1 word_plus, ws_star, REol True], ''var $1''),
      (mk_regex 0 True [RLit ''vbCrLf''], ''Environment.NewLine''),
      (mk_regex 0 True [RLit ''vbTab''], [CHR 0x22, CHR 0x5C, CHR ''t'', CHR 0x22]),
      (mk_regex 0 True [RLit ''vbNullString''], ''string.Empty''),
      (mk_regex 0 True [ws_star, RLit ''='', ws_star, RLit ''Nothing''], '' == null''),
      (mk_regex 0 True [ws_star, RLit ''<>'', ws_star], '' != ''),
      (mk_regex 0 True [RLit ''Len'', ws_star, RLit ''(''], ''.Length(''),
      (mk_regex 0 True [RLit ''UCase'', ws_star, RLit ''(''], ''.ToUpper(''),
      (mk_regex 0 True [RLit ''LCase'', ws_star, RLit ''(''], ''.ToLower(''),
      (mk_regex 0 True [RLit ''Trim'', ws_star, RLit ''(''], ''.Trim(''),
      (mk_regex 2 True [RLit ''Left'', ws_star, RLit ''('', RGroup 1 no_comma, RLit '','', ws_star,
                        RGroup 2 digits, RLit '')''], ''$1.Substring(0, $2)''),
      (mk_regex 2 True [RLit ''Right'', ws_star, RLit ''('', RGroup 1 no_comma, RLit '','', ws_star,
                        RGroup 2 digits, RLit '')''], ''$1.Substring($1.Length - $2)''),
      (mk_regex 2 True [RLit ''Mid'', ws_star, RLit ''('', RGroup 1 no_comma, RLit '','', ws_star,
                        RGroup 2 digits, RLit '')''], ''$1.Substring($2 - 1)''),
      (mk_regex 3 True [RLit ''Mid'', ws_star, RLit ''('', RGroup 1 no_comma, RLit '','', ws_star,
                        RGroup 2 digits, RLit '','', ws_star, RGroup 3 digits, RLit '')''],
       ''$1.Substring($2 - 1, $3)''),
      (mk_regex 1 True [RLit ''Select'', ws_plus, RLit ''Case'', ws_plus, RGroup 1 dot_plus],
       ''switch ($1)''),
      (mk_regex 1 True [RLit ''Case'', ws_plus, RGroup 1 dot_plus], ''case $1:''),
      (mk_regex 0 True [RLit ''Case'', ws_plus, RLit ''Else''], ''default:''),
      (mk_regex 0 True [RLit ''End Select''], ''}''),
      (mk_regex 0 True [RLit ''Exit'', ws_plus, RLit ''Sub''], ''return;''),
      (mk_regex 0 True [RLit ''Exit'', ws_plus, RLit ''Function''], ''return;''),
      (mk_regex 0 True [RLit ''Exit'', ws_plus, RLit ''For''], ''break;''),
      (mk_regex 0 True [RLit ''.Text''], ''.Text''),
      (mk_regex 0 True [RLit ''.Caption''], ''.Text''),
      (mk_regex 0 True [RLit ''.Value''], ''.Value''),
      (mk_regex 0 True [RLit ''On'', ws_plus, RLit ''Error'', ws_plus, RLit ''Resume'', ws_plus,
                        RLit ''Next''], ''// TODO: Handle errors appropriately''),
      (mk_regex 0 True [RLit ''On'', ws_plus, RLit ''Error'', ws_plus, RLit ''GoTo'', ws_plus,
                        RLit ''0''], ''// TODO: Reset error handling'')]"

definition applyBasicConversions :: "string \<Rightarrow> string" where
  "applyBasicConversions vbCode =
     foldl (\<lambda>csharpCode conv. replace_template (fst conv) (snd conv) csharpCode) vbCode
       basic_conversions"

definition generator_context :: "string \<Rightarrow> string \<Rightarrow> MigrationContext" where
  "generator_context path vbCode =
     \<lparr> filePath = path, fileContent = vbCode, projectType = ''WinForms'',
       targetFramework = ''net8.0'', usings = [''System'', ''System.Windows.Forms''],
       variableTypes = [], functionTypes = [] \<rparr>"

text \<open>
  \<open>migrateVBCodeWithEnhancedEngine\<close> and \<open>convertVBCodeToCSharp\<close> call each other; the first
  argument is the call depth left. The body of the \<open>try\<close> is \<open>migrate_try\<close>; the \<open>catch\<close>
  calls \<open>convertVBCodeToCSharp\<close> again.
\<close>

fun migrateVBCodeWithEnhancedEngine ::
      "nat \<Rightarrow> CSharpGenerator \<Rightarrow> string \<Rightarrow> string \<Rightarrow> jserr + string"
  and convertVBCodeToCSharp :: "nat \<Rightarrow> CSharpGenerator \<Rightarrow> string \<Rightarrow> jserr + string" where
  "migrateVBCodeWithEnhancedEngine 0 this vbCode path =
     Inl (RangeError ''Maximum call stack size exceeded'')"
| "migrateVBCodeWithEnhancedEngine (Suc d) this vbCode path =
     (if vbCode = [] \<or> trim vbCode = [] then Inr ''// TODO: Implement method logic''
      else
        (case (case migrateVBtoCSharp (enhancedMigrationEngine this) vbCode path of
                 Inl e \<Rightarrow> Inl e
               | Inr enhancedResult \<Rightarrow>
                   if enhancedResult \<noteq> [] \<and> 10 < length enhancedResult
                      \<and> enhancedResult \<noteq> vbCode
                   then Inr enhancedResult
                   else
                     (case applyRules_d d (migrationEngine this) vbCode
                             (generator_context path vbCode) of
                        Inl e \<Rightarrow> Inl e
                      | Inr originalResult \<Rightarrow>
                          if originalResult = vbCode then convertVBCodeToCSharp d this vbCode
                          else Inr originalResult)) of
           Inr result \<Rightarrow> Inr result
         | Inl error \<Rightarrow> convertVBCodeToCSharp d this vbCode))"
| "convertVBCodeToCSharp 0 this vbCode = Inl (RangeError ''Maximum call stack size exceeded'')"
| "convertVBCodeToCSharp (Suc d) this vbCode =
     (if vbCode = [] then Inr ''// TODO: Implement method body''
      else
        (case migrateVBCodeWithEnhancedEngine d this vbCode ''general.vb'' of
           Inl e \<Rightarrow> Inl e
         | Inr csharpCode \<Rightarrow>
             Inr (''// Migrated from VB.NET'' @ [LF]
                  @ (if length csharpCode < 10 then applyBasicConversions vbCode
                     else csharpCode))))"

definition convertVBMethodToCSharp ::
  "nat \<Rightarrow> CSharpGenerator \<Rightarrow> VBMethod \<Rightarrow> jserr + CSharpMethod" where
  "convertVBMethodToCSharp d this vbMethod =
     (case (if m_body vbMethod \<noteq> [] \<and> trim (m_body vbMethod) \<noteq> []
            then migrateVBCodeWithEnhancedEngine d this (m_body vbMethod)
                   (m_name vbMethod @ ''.vb'')
            else Inr ''// TODO: Implement method body'') of
        Inl e \<Rightarrow> Inl e
      | Inr methodBody \<Rightarrow>
          Inr \<lparr> cm_name = m_name vbMethod,
                cm_returnType = gmapVBTypeToCSharp (Some (m_returnType vbMethod)),
                cm_parameters = map convertVBParameterToCSharp (m_parameters vbMethod),
                cm_accessModifier = (if m_isPublic vbMethod then ''public'' else ''private''),
                cm_isStatic = m_isStatic vbMethod,
                cm_isAsync = detectAsyncPattern (m_body vbMethod),
                cm_isVirtual = (case m_isOverridable vbMethod of None \<Rightarrow> False | Some b \<Rightarrow> b),
                cm_isOverride = (case m_isOverrides vbMethod of None \<Rightarrow> False | Some b \<Rightarrow> b),
                cm_body = methodBody \<rparr>)"

definition event_parameters :: "CSharpParameter list" where
  "event_parameters =
     [\<lparr> cp_name = ''sender'', cp_type = JStr ''object'', cp_isOptional = False,
        cp_defaultValue = None, cp_isOut = None, cp_isRef = None \<rparr>,
      \<lparr> cp_name = ''e'', cp_type = JStr ''EventArgs'', cp_isOptional = False,
        cp_defaultValue = None, cp_isOut = None, cp_isRef = None \<rparr>]"

definition convertVBEventToCSharpMethod ::
  "nat \<Rightarrow> CSharpGenerator \<Rightarrow> VBEvent \<Rightarrow> jserr + CSharpMethod" where
  "convertVBEventToCSharpMethod d this vbEvent =
     (case (case ev_body vbEvent of
              None \<Rightarrow> Inr ''// TODO: Implement event handler logic''
            | Some b \<Rightarrow>
                if b \<noteq> [] \<and> trim b \<noteq> []
                then migrateVBCodeWithEnhancedEngine d this b (ev_handler vbEvent @ ''.vb'')
                else Inr ''// TODO: Implement event handler logic'') of
        Inl e \<Rightarrow> Inl e
      | Inr methodBody \<Rightarrow>
          Inr \<lparr> cm_name = ev_handler vbEvent, cm_returnType = JStr ''void'',
                cm_parameters = event_parameters, cm_accessModifier = ''private'',
                cm_isStatic = False, cm_isAsync = False, cm_isVirtual = False,
                cm_isOverride = False, cm_body = methodBody \<rparr>)"

section \<open>The structural extractor (\<open>parsers/vb-parser.ts\<close>)\<close>

text \<open>
  What the extractor reads from outside the program: the results of its two globs, the
  file system, and the descriptor reader (the XML library followed by
  \<open>extractTargetFramework\<close>, \<open>extractReferences\<close> and \<open>determineProjectType\<close>, each of
  which catches its own exceptions, so that only the XML parse can raise). The three
  extractors of source units (\<open>extractFormFromCode\<close>, \<open>extractModuleFromCode\<close>,
  \<open>extractClassFromCode\<close>) only match patterns on the content and build a value; they
  are parameters, and the project is generic in what they build.
\<close>

datatype project_kind = WinForms | Console | Library | WebForms

datatype reference_kind = Assembly | COM | Project

record VBReference =
  ref_name :: string
  ref_type :: reference_kind
  ref_version :: "string option"

record descriptor =
  d_targetFramework :: string
  d_references :: "VBReference list"
  d_projectType :: project_kind

record ('f, 'm, 'c) VBProject =
  vb_name :: string
  vb_path :: string
  vb_targetFramework :: string
  vb_forms :: "'f list"
  vb_modules :: "'m list"
  vb_classes :: "'c list"
  vb_references :: "VBReference list"
  vb_projectType :: project_kind

record ('f, 'm, 'c) parser_env =
  projectPath :: string
  projectFilesGlob :: "jserr + string list"
  vbFilesGlob :: "jserr + string list"
  readFile :: "string \<Rightarrow> jserr + string"
  pathExists :: "string \<Rightarrow> bool"
  readDescriptor :: "string \<Rightarrow> jserr + descriptor"
  extractFormFromCode :: "string \<Rightarrow> string \<Rightarrow> 'f"
  extractModuleFromCode :: "string \<Rightarrow> string \<Rightarrow> 'm"
  extractClassFromCode :: "string \<Rightarrow> string \<Rightarrow> 'c"

text \<open>The state of a run: the project under construction and the console.\<close>

record ('f, 'm, 'c) parse_state =
  project :: "('f, 'm, 'c) VBProject"
  console :: "string list"

text \<open>
  \<open>path.join\<close> of two segments, as on a POSIX system: the non-empty segments are joined
  with \<open>/\<close> and the result is normalised (empty and \<open>.\<close> segments are dropped, a \<open>..\<close>
  segment takes away the segment before it, a trailing \<open>/\<close> is kept).
\<close>

fun normalize_step :: "bool \<Rightarrow> string list \<Rightarrow> string \<Rightarrow> string list" where
  "normalize_step allowAboveRoot res seg =
     (if seg = [] \<or> seg = ''.'' then res
      else if seg = ''..'' then
        (case res of
           [] \<Rightarrow> if allowAboveRoot then [''..''] else []
         | l # ls \<Rightarrow> if l = ''..'' then (if allowAboveRoot then ''..'' # res else res) else ls)
      else seg # res)"

definition normalize :: "string \<Rightarrow> string" where
  "normalize p =
     (if p = [] then ''.''
      else
        (let isAbsolute = (hd p = CHR ''/'');
             trailingSeparator = (last p = CHR ''/'');
             res = join ''/'' (rev (foldl (normalize_step (\<not> isAbsolute)) []
                                       (split_on CHR ''/'' p)))
         in if res = [] then (if isAbsolute then ''/'' else if trailingSeparator then ''./''
                              else ''.'')
            else (if isAbsolute then ''/'' else []) @ res
                 @ (if trailingSeparator then ''/'' else [])))"

definition path_join :: "string \<Rightarrow> string \<Rightarrow> string" where
  "path_join a b =
     (let joined = join ''/'' (filter (\<lambda>arg. arg \<noteq> []) [a, b])
      in if joined = [] then ''.'' else normalize joined)"

text \<open>\<open>path.basename\<close> and \<open>path.extname\<close>: trailing separators do not count.\<close>

definition basename :: "string \<Rightarrow> string" where
  "basename p = last (split_on CHR ''/'' (rev (dropWhile (\<lambda>c. c = CHR ''/'') (rev p))))"

definition extname :: "string \<Rightarrow> string" where
  "extname p =
     (let b = basename p; parts = split_on CHR ''.'' b
      in if length parts < 2 \<or> (length parts = 2 \<and> hd parts = []) \<or> b = ''..'' then []
         else CHR ''.'' # last parts)"

definition basename_ext :: "string \<Rightarrow> string \<Rightarrow> string" where
  "basename_ext p ext =
     (let b = basename p
      in if ext \<noteq> [] \<and> endsWith b ext \<and> b \<noteq> ext then take (length b - length ext) b else b)"

definition push_form :: "'f \<Rightarrow> ('f, 'm, 'c) parse_state \<Rightarrow> ('f, 'm, 'c) parse_state" where
  "push_form x st = st \<lparr> project := (project st) \<lparr> vb_forms := vb_forms (project st) @ [x] \<rparr> \<rparr>"

definition push_module :: "'m \<Rightarrow> ('f, 'm, 'c) parse_state \<Rightarrow> ('f, 'm, 'c) parse_state" where
  "push_module x st =
     st \<lparr> project := (project st) \<lparr> vb_modules := vb_modules (project st) @ [x] \<rparr> \<rparr>"

definition push_class :: "'c \<Rightarrow> ('f, 'm, 'c) parse_state \<Rightarrow> ('f, 'm, 'c) parse_state" where
  "push_class x st =
     st \<lparr> project := (project st) \<lparr> vb_classes := vb_classes (project st) @ [x] \<rparr> \<rparr>"

definition warn :: "string \<Rightarrow> ('f, 'm, 'c) parse_state \<Rightarrow> ('f, 'm, 'c) parse_state" where
  "warn msg st = st \<lparr> console := console st @ [msg] \<rparr>"

definition parseVBCodeFile ::
  "('f, 'm, 'c) parser_env \<Rightarrow> string \<Rightarrow> string \<Rightarrow> ('f, 'm, 'c) parse_state
   \<Rightarrow> ('f, 'm, 'c) parse_state" where
  "parseVBCodeFile env content path st =
     (if includes_str content ''Public Class''
         \<and> includes_str content ''Inherits System.Windows.Forms.Form''
      then push_form (extractFormFromCode env content path) st
      else if includes_str content ''Public Class''
              \<or> includes_str content ''Public MustInherit Class''
      then push_class (extractClassFromCode env content path) st
      else if includes_str content ''Module ''
      then push_module (extractModuleFromCode env content path) st
      else st)"

definition parseVBForm ::
  "('f, 'm, 'c) parser_env \<Rightarrow> string \<Rightarrow> ('f, 'm, 'c) parse_state
   \<Rightarrow> jserr + ('f, 'm, 'c) parse_state" where
  "parseVBForm env formPath st =
     (let fullPath = path_join (projectPath env) formPath
      in if \<not> pathExists env fullPath then Inr (warn (''Form file not found: '' @ fullPath) st)
         else (case readFile env fullPath of
                 Inl e \<Rightarrow> Inl e
               | Inr content \<Rightarrow> Inr (push_form (extractFormFromCode env content formPath) st)))"

definition parseVBModule ::
  "('f, 'm, 'c) parser_env \<Rightarrow> string \<Rightarrow> ('f, 'm, 'c) parse_state
   \<Rightarrow> jserr + ('f, 'm, 'c) parse_state" where
  "parseVBModule env modulePath st =
     (let fullPath = path_join (projectPath env) modulePath
      in if \<not> pathExists env fullPath then Inr (warn (''Module file not found: '' @ fullPath) st)
         else (case readFile env fullPath of
                 Inl e \<Rightarrow> Inl e
               | Inr content \<Rightarrow>
                   Inr (push_module (extractModuleFromCode env content modulePath) st)))"

definition parseVBClass ::
  "('f, 'm, 'c) parser_env \<Rightarrow> string \<Rightarrow> ('f, 'm, 'c) parse_state
   \<Rightarrow> jserr + ('f, 'm, 'c) parse_state" where
  "parseVBClass env classPath st =
     (let fullPath = path_join (projectPath env) classPath
      in if \<not> pathExists env fullPath then Inr (warn (''Class file not found: '' @ fullPath) st)
         else (case readFile env fullPath of
                 Inl e \<Rightarrow> Inl e
               | Inr content \<Rightarrow> Inr (push_class (extractClassFromCode env content classPath) st)))"

text \<open>\<open>parseVBFile\<close>: the file is read first; the \<open>switch\<close> has no default.\<close>

definition parseVBFile ::
  "('f, 'm, 'c) parser_env \<Rightarrow> string \<Rightarrow> ('f, 'm, 'c) parse_state
   \<Rightarrow> jserr + ('f, 'm, 'c) parse_state" where
  "parseVBFile env path st =
     (case readFile env (path_join (projectPath env) path) of
        Inl e \<Rightarrow> Inl e
      | Inr content \<Rightarrow>
          (let ext = toLowerCase (extname path)
           in if ext = ''.vb'' then Inr (parseVBCodeFile env content path st)
              else if ext = ''.frm'' then parseVBForm env path st
              else if ext = ''.bas'' then parseVBModule env path st
              else if ext = ''.cls'' then parseVBClass env path st
              else Inr st))"

text \<open>The loop \<open>for (const vbFile of vbFiles) await this.parseVBFile(vbFile, project)\<close>.\<close>

fun parse_files ::
  "('f, 'm, 'c) parser_env \<Rightarrow> string list \<Rightarrow> ('f, 'm, 'c) parse_state
   \<Rightarrow> jserr + ('f, 'm, 'c) parse_state" where
  "parse_files env [] st = Inr st"
| "parse_files env (f # fs) st =
     (case parseVBFile env f st of Inl e \<Rightarrow> Inl e | Inr st' \<Rightarrow> parse_files env fs st')"

definition parseVBProjFile ::
  "('f, 'm, 'c) parser_env \<Rightarrow> string \<Rightarrow> string \<Rightarrow> jserr + ('f, 'm, 'c) parse_state" where
  "parseVBProjFile env content projectFile =
     (case readDescriptor env content of
        Inl e \<Rightarrow> Inl e
      | Inr d \<Rightarrow>
          (case vbFilesGlob env of
             Inl e \<Rightarrow> Inl e
           | Inr vbFiles \<Rightarrow>
               parse_files env vbFiles
                 \<lparr> project = \<lparr> vb_name = basename_ext projectFile ''.vbproj'',
                               vb_path = projectFile,
                               vb_targetFramework = d_targetFramework d,
                               vb_forms = [], vb_modules = [], vb_classes = [],
                               vb_references = d_references d,
                               vb_projectType = d_projectType d \<rparr>,
                   console = [] \<rparr>))"

text \<open>The legacy manifest: \<open>line.split('=')[1].split(';')[0]\<close>.\<close>

definition manifest_path :: "string \<Rightarrow> string" where
  "manifest_path line = hd (split_on CHR '';'' (split_on CHR ''='' line ! 1))"

fun parse_lines ::
  "('f, 'm, 'c) parser_env \<Rightarrow> string list \<Rightarrow> ('f, 'm, 'c) parse_state
   \<Rightarrow> jserr + ('f, 'm, 'c) parse_state" where
  "parse_lines env [] st = Inr st"
| "parse_lines env (line # ls) st =
     (case (if startsWith line ''Form='' then parseVBForm env (manifest_path line) st
            else if startsWith line ''Module='' then parseVBModule env (manifest_path line) st
            else if startsWith line ''Class='' then parseVBClass env (manifest_path line) st
            else Inr st) of
        Inl e \<Rightarrow> Inl e
      | Inr st' \<Rightarrow> parse_lines env ls st')"

definition parseVBPFile ::
  "('f, 'm, 'c) parser_env \<Rightarrow> string \<Rightarrow> string \<Rightarrow> jserr + ('f, 'm, 'c) parse_state" where
  "parseVBPFile env content projectFile =
     parse_lines env (split_on LF content)
       \<lparr> project = \<lparr> vb_name = basename_ext projectFile ''.vbp'', vb_path = projectFile,
                     vb_targetFramework = ''VB6'', vb_forms = [], vb_modules = [],
                     vb_classes = [], vb_references = [], vb_projectType = WinForms \<rparr>,
         console = [] \<rparr>"

definition parseProjectFile ::
  "('f, 'm, 'c) parser_env \<Rightarrow> string \<Rightarrow> jserr + ('f, 'm, 'c) parse_state" where
  "parseProjectFile env projectFile =
     (case readFile env (path_join (projectPath env) projectFile) of
        Inl e \<Rightarrow> Inl e
      | Inr content \<Rightarrow>
          if endsWith projectFile ''.vbproj'' then parseVBProjFile env content projectFile
          else parseVBPFile env content projectFile)"

definition no_project_files :: jserr where
  "no_project_files = Error ''No VB.NET project files found in the specified directory''"

text \<open>\<open>parseVBProject\<close> with the console it leaves, and as the caller sees it.\<close>

definition parseVBProject_run ::
  "('f, 'm, 'c) parser_env \<Rightarrow> jserr + ('f, 'm, 'c) parse_state" where
  "parseVBProject_run env =
     (case projectFilesGlob env of
        Inl e \<Rightarrow> Inl e
      | Inr projectFiles \<Rightarrow>
          (case projectFiles of
             [] \<Rightarrow> Inl no_project_files
           | projectFile # others \<Rightarrow> parseProjectFile env projectFile))"

definition parseVBProject ::
  "('f, 'm, 'c) parser_env \<Rightarrow> jserr + ('f, 'm, 'c) VBProject" where
  "parseVBProject env =
     (case parseVBProject_run env of Inl e \<Rightarrow> Inl e | Inr st \<Rightarrow> Inr (project st))"

definition source_units :: "('f, 'm, 'c) VBProject \<Rightarrow> nat" where
  "source_units p = length (vb_forms p) + length (vb_modules p) + length (vb_classes p)"

subsection \<open>What makes the extraction fail\<close>

text \<open>The error of reading a file of the project, if reading it raises.\<close>

definition read_error :: "('f, 'm, 'c) parser_env \<Rightarrow> string \<Rightarrow> jserr option" where
  "read_error env f =
     (case readFile env (path_join (projectPath env) f) of Inl e \<Rightarrow> Some e | Inr c \<Rightarrow> None)"

text \<open>The first error in a list of files.\<close>

fun first_error :: "('a \<Rightarrow> jserr option) \<Rightarrow> 'a list \<Rightarrow> jserr option" where
  "first_error g [] = None"
| "first_error g (x # xs) = (case g x of Some e \<Rightarrow> Some e | None \<Rightarrow> first_error g xs)"

text \<open>The files that the \<open>Form=\<close>, \<open>Module=\<close> and \<open>Class=\<close> lines of a legacy manifest name.\<close>

definition manifest_entries :: "string \<Rightarrow> string list" where
  "manifest_entries content =
     map manifest_path
       (filter (\<lambda>line. startsWith line ''Form='' \<or> startsWith line ''Module=''
                        \<or> startsWith line ''Class='')
          (split_on LF content))"

text \<open>
  The error of an extraction, if there is one: the glob for descriptors raises; it finds
  none; the first descriptor found cannot be read; for a \<open>.vbproj\<close> descriptor, its XML
  cannot be parsed, the glob for source files raises, or a source file that the glob
  lists cannot be read; for a legacy manifest, a file that it names and that exists
  cannot be read. The first of these, in this order, is the error.
\<close>

definition extraction_failure :: "('f, 'm, 'c) parser_env \<Rightarrow> jserr option" where
  "extraction_failure env =
     (case projectFilesGlob env of
        Inl e \<Rightarrow> Some e
      | Inr [] \<Rightarrow> Some no_project_files
      | Inr (projectFile # others) \<Rightarrow>
          (case readFile env (path_join (projectPath env) projectFile) of
             Inl e \<Rightarrow> Some e
           | Inr content \<Rightarrow>
               if endsWith projectFile ''.vbproj''
               then (case readDescriptor env content of
                       Inl e \<Rightarrow> Some e
                     | Inr d \<Rightarrow>
                         (case vbFilesGlob env of
                            Inl e \<Rightarrow> Some e
                          | Inr vbFiles \<Rightarrow> first_error (read_error env) vbFiles))
               else first_error (read_error env)
                      (filter (\<lambda>p. pathExists env (path_join (projectPath env) p))
                         (manifest_entries content))))"

subsection \<open>Two project directories\<close>

text \<open>
  A directory with a descriptor and two source files, one of which cannot be read, and a
  directory with a descriptor only. The extractors keep the path of the unit.
\<close>

definition sample_descriptor :: descriptor where
  "sample_descriptor =
     \<lparr> d_targetFramework = ''net48'', d_references = [], d_projectType = WinForms \<rparr>"

definition class_source :: string where
  "class_source = ''Public Class Customer'' @ [LF] @ ''End Class''"

definition env_one_unreadable :: "(string, string, string) parser_env" where
  "env_one_unreadable =
     \<lparr> projectPath = ''/proj'',
       projectFilesGlob = Inr [''App.vbproj''],
       vbFilesGlob = Inr [''Customer.vb'', ''Locked.vb''],
       readFile = (\<lambda>p. if p = ''/proj/App.vbproj'' then Inr ''<Project/>''
                        else if p = ''/proj/Customer.vb'' then Inr class_source
                        else Inl (Error ''EACCES: permission denied'')),
       pathExists = (\<lambda>p. True),
       readDescriptor = (\<lambda>c. Inr sample_descriptor),
       extractFormFromCode = (\<lambda>c p. p),
       extractModuleFromCode = (\<lambda>c p. p),
       extractClassFromCode = (\<lambda>c p. p) \<rparr>"

definition env_descriptor_only :: "(string, string, string) parser_env" where
  "env_descriptor_only =
     env_one_unreadable \<lparr> vbFilesGlob := Inr [] \<rparr>"

definition env_all_readable :: "(string, string, string) parser_env" where
  "env_all_readable =
     env_one_unreadable \<lparr> vbFilesGlob := Inr [''Customer.vb''] \<rparr>"

text \<open>
  A directory with a legacy manifest that names a form that cannot be read, a module in
  a file that does not exist, and a class.
\<close>

definition env_legacy :: "(string, string, string) parser_env" where
  "env_legacy =
     \<lparr> projectPath = ''/old'',
       projectFilesGlob = Inr [''App.vbp''],
       vbFilesGlob = Inr [],
       readFile = (\<lambda>p. if p = ''/old/App.vbp''
                        then Inr (''Type=Exe'' @ [LF] @ ''Module=Util; Util.bas'' @ [LF]
                                  @ ''Class=Customer.cls'' @ [LF] @ ''Form=Main.frm'')
                        else if p = ''/old/Customer.cls'' then Inr class_source
                        else Inl (Error ''EACCES: permission denied'')),
       pathExists = (\<lambda>p. p \<noteq> ''/old/Util''),
       readDescriptor = (\<lambda>c. Inr sample_descriptor),
       extractFormFromCode = (\<lambda>c p. p),
       extractModuleFromCode = (\<lambda>c p. p),
       extractClassFromCode = (\<lambda>c p. p) \<rparr>"

section \<open>Routing of a module to artifacts (\<open>analyzers/module-migrator.ts\<close>)\<close>

datatype module_type = Form | Module | Class

datatype db_operation_type = Select | Insert | Update | Delete | Connection

record AnalyzedMethod =
  am_name :: string
  am_returnType :: string
  am_visibility :: string
  am_isFunction :: bool
  am_body :: string

record AnalyzedVariable =
  av_name :: string
  av_type :: string
  av_scope :: string
  av_visibility :: string

record AnalyzedEvent =
  ae_name :: string
  ae_controlName :: string
  ae_eventType :: string
  ae_body :: string

record DatabaseOperation =
  op_type :: db_operation_type
  op_query :: string
  op_method :: string

record Calculation =
  calc_description :: string
  calc_formula :: string

record Validation =
  val_field :: string
  val_condition :: string

record BusinessLogic =
  databaseOperations :: "DatabaseOperation list"
  fileOperations :: "string list"
  calculations :: "Calculation list"
  validations :: "Validation list"

record VBModuleAnalysis =
  fileName :: string
  analysisPath :: string
  moduleType :: module_type
  analysisVariables :: "AnalyzedVariable list"
  methods :: "AnalyzedMethod list"
  events :: "AnalyzedEvent list"
  businessLogic :: BusinessLogic

datatype file_type = Model | Service | Controller | View | ViewModel | Repository | Test

record GeneratedFile =
  gf_path :: string
  gf_type :: file_type
  gf_purpose :: string
  gf_content :: string
  gf_sourceModule :: string

datatype architecture = Clean | Layered | MVC | MVVM

record migrate_options =
  generateTests :: bool
  modernizePatterns :: bool
  optTargetFramework :: string

text \<open>
  The builders of file contents. Those that convert method bodies, event bodies or
  queries call the enhanced engine and may raise; \<open>render_code\<close> stands for them, by
  name, as a function of the analysis, the content of the source file and the options.
  Those that only assemble text from the analysis are \<open>render_text\<close>. The builders of
  the Layered, MVC and MVVM styles return a fixed comment and are written out.
\<close>

record renderers =
  render_code :: "string \<Rightarrow> VBModuleAnalysis \<Rightarrow> string \<Rightarrow> migrate_options \<Rightarrow> jserr + string"
  render_text :: "string \<Rightarrow> VBModuleAnalysis \<Rightarrow> string"

text \<open>The file system as \<open>migrateModule\<close> uses it.\<close>

record migrate_env =
  ensureDir :: "string \<Rightarrow> jserr + unit"
  readSource :: "string \<Rightarrow> jserr + string"
  writeGeneratedFiles :: "GeneratedFile list \<Rightarrow> string \<Rightarrow> jserr + unit"

record MigrationResult =
  success :: bool
  generatedFiles :: "GeneratedFile list"
  errors :: "string list"

definition message :: "jserr \<Rightarrow> string" where
  "message e = (case e of TypeError m \<Rightarrow> m | RangeError m \<Rightarrow> m | Error m \<Rightarrow> m)"

definition isBusinessLogicMethod :: "AnalyzedMethod \<Rightarrow> bool" where
  "isBusinessLogicMethod method =
     (includes_str (am_body method) ''Calculate'' \<or> includes_str (am_body method) ''Validate''
      \<or> includes_str (am_body method) ''Process'' \<or> includes_str (am_body method) ''If''
      \<or> includes_str (am_body method) ''Select'')"

definition hasBusinessLogic :: "VBModuleAnalysis \<Rightarrow> bool" where
  "hasBusinessLogic analysis =
     (0 < length (calculations (businessLogic analysis))
      \<or> 0 < length (validations (businessLogic analysis))
      \<or> 0 < length (databaseOperations (businessLogic analysis))
      \<or> list_ex isBusinessLogicMethod (methods analysis))"

definition baseName_of :: "VBModuleAnalysis \<Rightarrow> string" where
  "baseName_of analysis = basename_ext (fileName analysis) (extname (fileName analysis))"

definition mk_file ::
  "string \<Rightarrow> file_type \<Rightarrow> string \<Rightarrow> string \<Rightarrow> VBModuleAnalysis \<Rightarrow> GeneratedFile" where
  "mk_file p t purpose content analysis =
     \<lparr> gf_path = p, gf_type = t, gf_purpose = purpose, gf_content = content,
       gf_sourceModule = fileName analysis \<rparr>"

text \<open>
  A generation step takes the files pushed to \<open>result.generatedFiles\<close> so far and
  returns them with those it pushes, and the exception if one is raised: the files
  pushed before an exception stay in the result.
\<close>

type_synonym generation = "GeneratedFile list \<Rightarrow> GeneratedFile list \<times> jserr option"

text \<open>A content is built and, unless building it raises, files with it are pushed.\<close>

definition emit :: "(jserr + string) \<Rightarrow> (string \<Rightarrow> GeneratedFile list) \<Rightarrow> generation" where
  "emit content files_of files =
     (case content of
        Inl e \<Rightarrow> (files, Some e)
      | Inr c \<Rightarrow> (files @ files_of c, None))"

definition and_then :: "generation \<Rightarrow> generation \<Rightarrow> generation" where
  "and_then g h files =
     (case g files of
        (files', Some e) \<Rightarrow> (files', Some e)
      | (files', None) \<Rightarrow> h files')"

definition when_true :: "bool \<Rightarrow> generation \<Rightarrow> generation" where
  "when_true b g files = (if b then g files else (files, None))"

definition generateCleanArchitectureFiles ::
  "renderers \<Rightarrow> VBModuleAnalysis \<Rightarrow> string \<Rightarrow> migrate_options \<Rightarrow> generation" where
  "generateCleanArchitectureFiles r analysis originalContent options =
     (let baseName = baseName_of analysis
      in and_then
           (when_true (hasBusinessLogic analysis)
              (emit (render_code r ''generateDomainEntity'' analysis originalContent options)
                 (\<lambda>entity. [mk_file (''Domain/Entities/'' @ baseName @ ''Entity.cs'') Model
                               ''Domain entity with business rules'' entity analysis])))
        (and_then
           (emit (render_code r ''generateApplicationService'' analysis originalContent options)
              (\<lambda>service. [mk_file (''Application/Services/'' @ baseName @ ''Service.cs'') Service
                              ''Application service with use cases'' service analysis]))
        (and_then
           (when_true (0 < length (databaseOperations (businessLogic analysis)))
              (emit (render_code r ''generateRepositoryImplementation'' analysis originalContent
                       options)
                 (\<lambda>repositoryImplementation.
                    [mk_file (''Application/Interfaces/I'' @ baseName @ ''Repository.cs'')
                       Repository ''Repository interface for data access''
                       (render_text r ''generateRepositoryInterface'' analysis) analysis,
                     mk_file (''Infrastructure/Repositories/'' @ baseName @ ''Repository.cs'')
                       Repository ''Repository implementation with EF Core''
                       repositoryImplementation analysis])))
           (when_true (moduleType analysis = Form)
              (emit (render_code r ''generateController'' analysis originalContent options)
                 (\<lambda>controller.
                    [mk_file (''Presentation/Controllers/'' @ baseName @ ''Controller.cs'')
                       Controller ''MVC controller for UI logic'' controller analysis,
                     mk_file (''Presentation/ViewModels/'' @ baseName @ ''ViewModel.cs'')
                       ViewModel ''View model for data binding''
                       (render_text r ''generateViewModel'' analysis) analysis]))))))"

definition generateLayeredArchitectureFiles :: "VBModuleAnalysis \<Rightarrow> generation" where
  "generateLayeredArchitectureFiles analysis files =
     (let baseName = baseName_of analysis
      in (files
          @ [mk_file (''Business/'' @ baseName @ ''BusinessLogic.cs'') Service
               ''Business logic implementation''
               (''// Business logic class for '' @ fileName analysis) analysis]
          @ (if 0 < length (databaseOperations (businessLogic analysis))
             then [mk_file (''Data/'' @ baseName @ ''DataAccess.cs'') Repository
                     ''Data access implementation''
                     (''// Data access class for '' @ fileName analysis) analysis]
             else [])
          @ (if moduleType analysis = Form
             then [mk_file (''Presentation/'' @ baseName @ ''Presenter.cs'') Controller
                     ''Presentation logic'' (''// Presenter class for '' @ fileName analysis)
                     analysis]
             else []),
          None))"

definition generateMVCFiles :: "VBModuleAnalysis \<Rightarrow> generation" where
  "generateMVCFiles analysis files =
     (let baseName = baseName_of analysis
      in (files
          @ [mk_file (''Models/'' @ baseName @ ''Model.cs'') Model ''Data model''
               (''// Model class for '' @ fileName analysis) analysis,
             mk_file (''Controllers/'' @ baseName @ ''Controller.cs'') Controller
               ''MVC controller'' (''// MVC controller for '' @ fileName analysis) analysis]
          @ (if moduleType analysis = Form
             then [mk_file (''Views/'' @ baseName @ ''/Index.cshtml'') View ''Main view''
                     (''<!-- Main view for '' @ baseName @ '' -->'') analysis]
             else []),
          None))"

definition generateMVVMFiles :: "VBModuleAnalysis \<Rightarrow> generation" where
  "generateMVVMFiles analysis files =
     (let baseName = baseName_of analysis
      in (files
          @ [mk_file (''Models/'' @ baseName @ ''Model.cs'') Model ''Data model''
               (''// Model class for '' @ fileName analysis) analysis,
             mk_file (''ViewModels/'' @ baseName @ ''ViewModel.cs'') ViewModel
               ''MVVM view model with commands and properties''
               (''// MVVM view model for '' @ fileName analysis) analysis]
          @ (if hasBusinessLogic analysis
             then [mk_file (''Services/'' @ baseName @ ''Service.cs'') Service
                     ''Business service for view model''
                     (''// MVVM service for '' @ fileName analysis) analysis]
             else [])
          @ (if moduleType analysis = Form
             then [mk_file (''Views/'' @ baseName @ ''View.xaml'') View ''WPF/UWP view''
                     (''<!-- XAML view for '' @ baseName @ '' -->'') analysis]
             else []),
          None))"

text \<open>The method \<open>generateTests\<close>.\<close>

definition generateTestFiles :: "renderers \<Rightarrow> VBModuleAnalysis \<Rightarrow> generation" where
  "generateTestFiles r analysis files =
     (if hasBusinessLogic analysis
      then (files @ [mk_file (''Tests/'' @ baseName_of analysis @ ''Tests.cs'') Test
                       ''Unit tests for business logic''
                       (render_text r ''generateUnitTests'' analysis) analysis],
            None)
      else (files, None))"

text \<open>
  The generation inside \<open>migrateModule\<close>, from no file: the \<open>switch\<close> on the
  architecture, then the tests if requested.
\<close>

definition generate_files ::
  "renderers \<Rightarrow> VBModuleAnalysis \<Rightarrow> architecture \<Rightarrow> string \<Rightarrow> migrate_options
   \<Rightarrow> GeneratedFile list \<times> jserr option" where
  "generate_files r analysis targetArchitecture originalContent options =
     and_then
       (case targetArchitecture of
          Clean \<Rightarrow> generateCleanArchitectureFiles r analysis originalContent options
        | Layered \<Rightarrow> generateLayeredArchitectureFiles analysis
        | MVC \<Rightarrow> generateMVCFiles analysis
        | MVVM \<Rightarrow> generateMVVMFiles analysis)
       (when_true (generateTests options) (generateTestFiles r analysis)) []"

text \<open>
  \<open>migrateModule\<close>: inside the \<open>try\<close> the output directory is ensured, the source file is
  read, the files are generated, and they are written; an exception at any point is
  caught, recorded in \<open>errors\<close>, and leaves \<open>success\<close> false. Of the result, the
  warnings (never filled) and the summary (line and method counts) are left out.
\<close>

definition failed :: "GeneratedFile list \<Rightarrow> jserr \<Rightarrow> MigrationResult" where
  "failed files e = \<lparr> success = False, generatedFiles = files, errors = [message e] \<rparr>"

definition migrateModule ::
  "migrate_env \<Rightarrow> renderers \<Rightarrow> VBModuleAnalysis \<Rightarrow> architecture \<Rightarrow> string \<Rightarrow> migrate_options
   \<Rightarrow> MigrationResult" where
  "migrateModule env r analysis targetArchitecture outputDirectory options =
     (case ensureDir env outputDirectory of
        Inl e \<Rightarrow> failed [] e
      | Inr u \<Rightarrow>
          (case readSource env (analysisPath analysis) of
             Inl e \<Rightarrow> failed [] e
           | Inr originalContent \<Rightarrow>
               (case generate_files r analysis targetArchitecture originalContent options of
                  (files, Some e) \<Rightarrow> failed files e
                | (files, None) \<Rightarrow>
                    (case writeGeneratedFiles env files outputDirectory of
                       Inl e \<Rightarrow> failed files e
                     | Inr u \<Rightarrow> \<lparr> success = True, generatedFiles = files, errors = [] \<rparr>))))"

text \<open>The files generated for a set of entities, each migrated by a call of its own.\<close>

definition migrate_all ::
  "migrate_env \<Rightarrow> renderers \<Rightarrow> architecture \<Rightarrow> string \<Rightarrow> migrate_options \<Rightarrow> VBModuleAnalysis list
   \<Rightarrow> GeneratedFile list" where
  "migrate_all env r targetArchitecture outputDirectory options entities =
     concat (map (\<lambda>analysis. generatedFiles (migrateModule env r analysis targetArchitecture
                                                outputDirectory options))
               entities)"

definition count_of :: "file_type \<Rightarrow> GeneratedFile list \<Rightarrow> nat" where
  "count_of t files = length (filter (\<lambda>f. gf_type f = t) files)"

definition data_access_bearing :: "VBModuleAnalysis \<Rightarrow> bool" where
  "data_access_bearing analysis = (0 < length (databaseOperations (businessLogic analysis)))"

definition repositories_per_entity :: "architecture \<Rightarrow> nat" where
  "repositories_per_entity a = (case a of Clean \<Rightarrow> 2 | Layered \<Rightarrow> 1 | MVC \<Rightarrow> 0 | MVVM \<Rightarrow> 0)"

definition unconditional_service :: "architecture \<Rightarrow> bool" where
  "unconditional_service a = (a = Clean \<or> a = Layered)"

subsection \<open>Two modules\<close>

definition default_options :: migrate_options where
  "default_options =
     \<lparr> generateTests = True, modernizePatterns = True, optTargetFramework = ''net8.0'' \<rparr>"

definition no_logic :: BusinessLogic where
  "no_logic = \<lparr> databaseOperations = [], fileOperations = [], calculations = [],
                validations = [] \<rparr>"

definition plain_module :: VBModuleAnalysis where
  "plain_module =
     \<lparr> fileName = ''Constants.bas'', analysisPath = ''/proj/Constants.bas'', moduleType = Module,
       analysisVariables = [], methods = [], events = [], businessLogic = no_logic \<rparr>"

definition data_module :: VBModuleAnalysis where
  "data_module =
     \<lparr> fileName = ''Orders.bas'', analysisPath = ''/proj/Orders.bas'', moduleType = Module,
       analysisVariables = [], methods = [], events = [],
       businessLogic = no_logic \<lparr> databaseOperations :=
         [\<lparr> op_type = Select, op_query = ''SELECT * FROM Orders'', op_method = ''Load'' \<rparr>] \<rparr> \<rparr>"

text \<open>
  Builders that return a comment, a file system on which one source file cannot be
  read, and a module in that file.
\<close>

definition plain_renderers :: renderers where
  "plain_renderers =
     \<lparr> render_code = (\<lambda>g analysis originalContent options. Inr (''// '' @ g)),
       render_text = (\<lambda>g analysis. ''// '' @ g) \<rparr>"

definition sample_disk :: migrate_env where
  "sample_disk =
     \<lparr> ensureDir = (\<lambda>d. Inr ()),
       readSource = (\<lambda>p. if p = ''/proj/Locked.bas'' then Inl (Error ''EACCES: permission denied'')
                          else Inr ''Option Explicit''),
       writeGeneratedFiles = (\<lambda>files d. Inr ()) \<rparr>"

definition locked_module :: VBModuleAnalysis where
  "locked_module = plain_module \<lparr> analysisPath := ''/proj/Locked.bas'' \<rparr>"

section \<open>The project graph (\<open>analyzers/architecture-generator.ts\<close>)\<close>

datatype proposal_type = PConsole | PWeb | PDesktop | PAPI | PLibrary | PService

record ProjectProposal =
  pp_name :: string
  pp_type :: proposal_type
  pp_targetFramework :: string
  pp_purpose :: string
  pp_dependencies :: "string list"
  pp_sourceModules :: "string list"

record SharedLibrary =
  sl_name :: string
  sl_purpose :: string
  sl_types :: "string list"

record architecture_options =
  includeDatabase :: bool
  modernPatterns :: bool
  webBased :: bool

datatype target_architecture = TClean | TLayered | TMVC | TMVVM | TMicroservices

definition getBusinessLogicModules :: "VBModuleAnalysis list \<Rightarrow> string list" where
  "getBusinessLogicModules moduleAnalyses =
     map fileName
       (filter (\<lambda>m. moduleType m = Module \<or> moduleType m = Class
                     \<or> (0 < length (calculations (businessLogic m))
                         \<or> 0 < length (validations (businessLogic m))))
          moduleAnalyses)"

definition getApplicationModules :: "VBModuleAnalysis list \<Rightarrow> string list" where
  "getApplicationModules moduleAnalyses =
     map fileName (filter (\<lambda>m. 0 < length (methods m) \<and> moduleType m \<noteq> Form) moduleAnalyses)"

definition getDataAccessModules :: "VBModuleAnalysis list \<Rightarrow> string list" where
  "getDataAccessModules moduleAnalyses =
     map fileName
       (filter (\<lambda>m. 0 < length (databaseOperations (businessLogic m))) moduleAnalyses)"

definition getUIModules :: "VBModuleAnalysis list \<Rightarrow> string list" where
  "getUIModules moduleAnalyses = map fileName (filter (\<lambda>m. moduleType m = Form) moduleAnalyses)"

definition getUILogicModules :: "VBModuleAnalysis list \<Rightarrow> string list" where
  "getUILogicModules moduleAnalyses =
     map fileName (filter (\<lambda>m. moduleType m = Form \<and> 0 < length (events m)) moduleAnalyses)"

definition getDataModules :: "VBModuleAnalysis list \<Rightarrow> string list" where
  "getDataModules moduleAnalyses =
     map fileName
       (filter (\<lambda>m. list_ex (\<lambda>v. includes_str (av_type v) ''String''
                                  \<or> includes_str (av_type v) ''Integer''
                                  \<or> includes_str (av_type v) ''Date'') (analysisVariables m)
                     \<or> 0 < length (databaseOperations (businessLogic m)))
          moduleAnalyses)"

definition hasDataAccess :: "VBModuleAnalysis list \<Rightarrow> bool" where
  "hasDataAccess moduleAnalyses =
     list_ex (\<lambda>m. 0 < length (databaseOperations (businessLogic m))) moduleAnalyses"

definition library :: "string \<Rightarrow> string \<Rightarrow> string list \<Rightarrow> string list \<Rightarrow> ProjectProposal" where
  "library n purpose deps srcs =
     \<lparr> pp_name = n, pp_type = PLibrary, pp_targetFramework = ''net8.0'', pp_purpose = purpose,
       pp_dependencies = deps, pp_sourceModules = srcs \<rparr>"

definition type_name :: "proposal_type \<Rightarrow> string" where
  "type_name t =
     (case t of PConsole \<Rightarrow> ''Console'' | PWeb \<Rightarrow> ''Web'' | PDesktop \<Rightarrow> ''Desktop''
      | PAPI \<Rightarrow> ''API'' | PLibrary \<Rightarrow> ''Library'' | PService \<Rightarrow> ''Service'')"

text \<open>\<open>vbProject\<close> enters only through its name \<open>n\<close>.\<close>

definition generateCleanArchitecture ::
  "string \<Rightarrow> VBModuleAnalysis list \<Rightarrow> architecture_options
   \<Rightarrow> ProjectProposal list \<times> SharedLibrary list" where
  "generateCleanArchitecture n moduleAnalyses options =
     (let uiType = (if webBased options then PWeb else PDesktop)
      in ([library (n @ ''.Domain'') ''Domain entities, value objects, and business rules'' []
             (getBusinessLogicModules moduleAnalyses),
           library (n @ ''.Application'') ''Use cases, services, and application logic''
             [n @ ''.Domain''] (getApplicationModules moduleAnalyses)]
          @ (if includeDatabase options \<or> hasDataAccess moduleAnalyses
             then [library (n @ ''.Infrastructure'')
                     ''Data access, external services, and infrastructure concerns''
                     [n @ ''.Domain'', n @ ''.Application''] (getDataAccessModules moduleAnalyses)]
             else [])
          @ [\<lparr> pp_name = n @ ''.'' @ type_name uiType, pp_type = uiType,
                pp_targetFramework = ''net8.0'',
                pp_purpose = type_name uiType @ '' user interface and controllers'',
                pp_dependencies =
                  filter (\<lambda>d. d \<noteq> [])
                    [n @ ''.Application'',
                     if includeDatabase options then n @ ''.Infrastructure'' else []],
                pp_sourceModules = getUIModules moduleAnalyses \<rparr>]
          @ (if webBased options
             then [\<lparr> pp_name = n @ ''.Api'', pp_type = PAPI, pp_targetFramework = ''net8.0'',
                      pp_purpose = ''REST API endpoints and controllers'',
                      pp_dependencies = [n @ ''.Application'', n @ ''.Infrastructure''],
                      pp_sourceModules = [] \<rparr>]
             else [])
          @ [library (n @ ''.Tests.Unit'') ''Unit tests for business logic''
               [n @ ''.Domain'', n @ ''.Application''] []],
          [\<lparr> sl_name = n @ ''.Shared'',
             sl_purpose = ''Common utilities, extensions, and shared types'',
             sl_types = [''DTOs'', ''Extensions'', ''Constants'', ''Utilities''] \<rparr>]))"

definition generateLayeredArchitecture ::
  "string \<Rightarrow> VBModuleAnalysis list \<Rightarrow> architecture_options
   \<Rightarrow> ProjectProposal list \<times> SharedLibrary list" where
  "generateLayeredArchitecture n moduleAnalyses options =
     ([\<lparr> pp_name = n @ ''.Presentation'',
          pp_type = (if webBased options then PWeb else PDesktop),
          pp_targetFramework = ''net8.0'',
          pp_purpose = ''User interface and presentation logic'',
          pp_dependencies = [n @ ''.Business''],
          pp_sourceModules = getUIModules moduleAnalyses \<rparr>,
       library (n @ ''.Business'') ''Business logic and rules'' [n @ ''.Data'']
         (getBusinessLogicModules moduleAnalyses),
       library (n @ ''.Data'') ''Data access and persistence'' []
         (getDataAccessModules moduleAnalyses)],
      [])"

definition generateMVCArchitecture ::
  "string \<Rightarrow> VBModuleAnalysis list \<Rightarrow> architecture_options
   \<Rightarrow> ProjectProposal list \<times> SharedLibrary list" where
  "generateMVCArchitecture n moduleAnalyses options =
     ([\<lparr> pp_name = n @ ''.Web'', pp_type = PWeb, pp_targetFramework = ''net8.0'',
          pp_purpose = ''ASP.NET Core MVC web application'',
          pp_dependencies = [n @ ''.Models'', n @ ''.Services''],
          pp_sourceModules = getUIModules moduleAnalyses \<rparr>,
       library (n @ ''.Models'') ''Data models and view models'' []
         (getDataModules moduleAnalyses),
       library (n @ ''.Services'') ''Business services and data access'' [n @ ''.Models'']
         (getBusinessLogicModules moduleAnalyses)],
      [])"

definition generateMVVMArchitecture ::
  "string \<Rightarrow> VBModuleAnalysis list \<Rightarrow> architecture_options
   \<Rightarrow> ProjectProposal list \<times> SharedLibrary list" where
  "generateMVVMArchitecture n moduleAnalyses options =
     ([\<lparr> pp_name = n @ ''.Desktop'', pp_type = PDesktop, pp_targetFramework = ''net8.0-windows'',
          pp_purpose = ''WPF/WinUI MVVM desktop application'',
          pp_dependencies = [n @ ''.ViewModels'', n @ ''.Services''],
          pp_sourceModules = getUIModules moduleAnalyses \<rparr>,
       library (n @ ''.ViewModels'') ''View models and UI logic''
         [n @ ''.Models'', n @ ''.Services''] (getUILogicModules moduleAnalyses),
       library (n @ ''.Models'') ''Data models and business entities'' []
         (getDataModules moduleAnalyses),
       library (n @ ''.Services'') ''Business services and data access'' [n @ ''.Models'']
         (getBusinessLogicModules moduleAnalyses)],
      [])"

text \<open>
  \<open>identifyBusinessDomains\<close>: the file names grouped, in first-seen order, by the name
  without a numeric suffix and without the first \<open>Form\<close> or \<open>Module\<close>.
\<close>

definition domain_key :: "string \<Rightarrow> string" where
  "domain_key fileName' =
     replace_template (mk_regex 0 False [RAlt (RLit ''Form'') (RLit ''Module'')]) []
       (replace_template (mk_regex 0 False [RPlus True (RSet False [CDigit]), REol False]) []
          fileName')"

fun group_add :: "string \<Rightarrow> string \<Rightarrow> (string \<times> string list) list \<Rightarrow> (string \<times> string list) list" where
  "group_add k v [] = [(k, [v])]"
| "group_add k v ((k', vs) # gs) =
     (if k = k' then (k', vs @ [v]) # gs else (k', vs) # group_add k v gs)"

definition identifyBusinessDomains :: "VBModuleAnalysis list \<Rightarrow> (string \<times> string list) list" where
  "identifyBusinessDomains moduleAnalyses =
     (let groups = foldl (\<lambda>gs m. group_add (domain_key (fileName m)) (fileName m) gs) []
                     moduleAnalyses;
          domains = map (\<lambda>(k, ms). (if k = [] then ''Core'' else k, ms))
                      (filter (\<lambda>(k, ms). 1 < length ms) groups)
      in if domains = [] then [(''Core'', map fileName moduleAnalyses)] else domains)"

definition generateMicroservicesArchitecture ::
  "string \<Rightarrow> VBModuleAnalysis list \<Rightarrow> architecture_options
   \<Rightarrow> ProjectProposal list \<times> SharedLibrary list" where
  "generateMicroservicesArchitecture n moduleAnalyses options =
     (map (\<lambda>(domain, ms).
             \<lparr> pp_name = n @ ''.'' @ domain @ ''Service'', pp_type = PAPI,
               pp_targetFramework = ''net8.0'',
               pp_purpose = ''Microservice for '' @ domain @ '' domain'',
               pp_dependencies = [n @ ''.Shared''], pp_sourceModules = ms \<rparr>)
          (identifyBusinessDomains moduleAnalyses)
      @ [\<lparr> pp_name = n @ ''.Gateway'', pp_type = PAPI, pp_targetFramework = ''net8.0'',
            pp_purpose = ''API Gateway for routing and cross-cutting concerns'',
            pp_dependencies = [], pp_sourceModules = [] \<rparr>,
         \<lparr> pp_name = n @ ''.Web'', pp_type = PWeb, pp_targetFramework = ''net8.0'',
            pp_purpose = ''Web frontend consuming microservices'',
            pp_dependencies = [], pp_sourceModules = getUIModules moduleAnalyses \<rparr>],
      [])"

definition generateStructure ::
  "string \<Rightarrow> VBModuleAnalysis list \<Rightarrow> target_architecture \<Rightarrow> architecture_options
   \<Rightarrow> ProjectProposal list \<times> SharedLibrary list" where
  "generateStructure n moduleAnalyses targetArchitecture options =
     (case targetArchitecture of
        TClean \<Rightarrow> generateCleanArchitecture n moduleAnalyses options
      | TLayered \<Rightarrow> generateLayeredArchitecture n moduleAnalyses options
      | TMVC \<Rightarrow> generateMVCArchitecture n moduleAnalyses options
      | TMVVM \<Rightarrow> generateMVVMArchitecture n moduleAnalyses options
      | TMicroservices \<Rightarrow> generateMicroservicesArchitecture n moduleAnalyses options)"

definition structure_default_options :: architecture_options where
  "structure_default_options = \<lparr> includeDatabase = True, modernPatterns = True, webBased = False \<rparr>"

subsection \<open>The project manifests of \<open>CSharpGenerator\<close>\<close>

text \<open>
  The four project manifests, in the order of the solution file, each with the projects
  its \<open>ProjectReference\<close> elements include.
\<close>

definition solution_projects :: "string \<Rightarrow> ProjectProposal list" where
  "solution_projects n =
     [library (n @ ''.Core'') ''generateCoreProjectFile'' [] [],
      library (n @ ''.Data'') ''generateDataProjectFile'' [n @ ''.Core''] [],
      \<lparr> pp_name = n @ ''.WinForms'', pp_type = PDesktop, pp_targetFramework = ''net8.0-windows'',
        pp_purpose = ''generateMainProjectFile'',
        pp_dependencies = [n @ ''.Core'', n @ ''.Data''], pp_sourceModules = [] \<rparr>,
      library (n @ ''.Tests'') ''generateTestProjectFile''
        [n @ ''.Core'', n @ ''.Data'', n @ ''.WinForms''] []]"

subsection \<open>Direction of the references\<close>

text \<open>The position of a name in a list (its length if absent).\<close>

fun index_of :: "string \<Rightarrow> string list \<Rightarrow> nat" where
  "index_of x [] = 0"
| "index_of x (y # ys) = (if x = y then 0 else Suc (index_of x ys))"

text \<open>
  Every reference that names an emitted project names one that stands before the
  referring project in \<open>order\<close>.
\<close>

definition refs_before :: "string list \<Rightarrow> ProjectProposal list \<Rightarrow> bool" where
  "refs_before order ps =
     list_all (\<lambda>p. list_all (\<lambda>d. d \<in> set (map pp_name ps)
                                   \<longrightarrow> index_of d order < index_of (pp_name p) order)
                       (pp_dependencies p)) ps"

text \<open>The references point to projects earlier in the emitted list.\<close>

definition refs_earlier :: "ProjectProposal list \<Rightarrow> bool" where
  "refs_earlier ps = refs_before (map pp_name ps) ps"

text \<open>A dependency order for each style: dependencies first.\<close>

definition dependency_order ::
  "string \<Rightarrow> VBModuleAnalysis list \<Rightarrow> target_architecture \<Rightarrow> architecture_options \<Rightarrow> string list" where
  "dependency_order n moduleAnalyses targetArchitecture options =
     (case targetArchitecture of
        TClean \<Rightarrow> map pp_name (fst (generateCleanArchitecture n moduleAnalyses options))
      | TLayered \<Rightarrow> [n @ ''.Data'', n @ ''.Business'', n @ ''.Presentation'']
      | TMVC \<Rightarrow> [n @ ''.Models'', n @ ''.Services'', n @ ''.Web'']
      | TMVVM \<Rightarrow> [n @ ''.Models'', n @ ''.Services'', n @ ''.ViewModels'', n @ ''.Desktop'']
      | TMicroservices \<Rightarrow>
          map pp_name (fst (generateMicroservicesArchitecture n moduleAnalyses options)))"

definition clean_names :: "string \<Rightarrow> VBModuleAnalysis list \<Rightarrow> architecture_options \<Rightarrow> string list" where
  "clean_names n moduleAnalyses options =
     [n @ ''.Domain'', n @ ''.Application'']
     @ (if includeDatabase options \<or> hasDataAccess moduleAnalyses then [n @ ''.Infrastructure'']
        else [])
     @ [if webBased options then n @ ''.Web'' else n @ ''.Desktop'']
     @ (if webBased options then [n @ ''.Api''] else [])
     @ [n @ ''.Tests.Unit'']"

section \<open>Properties of the rule-rewrite engine\<close>

subsection \<open>Character classes by bits, for evaluation\<close>

lemma of_char_bits:
  "(of_char (Char b0 b1 b2 b3 b4 b5 b6 b7) :: nat) =
     of_bool b0 + 2 * of_bool b1 + 4 * of_bool b2 + 8 * of_bool b3 + 16 * of_bool b4
     + 32 * of_bool b5 + 64 * of_bool b6 + 128 * of_bool b7"
  by simp

lemma is_digit_code [code]:
  "is_digit (Char b0 b1 b2 b3 b4 b5 b6 b7) =
     (\<not> b7 \<and> \<not> b6 \<and> b5 \<and> b4 \<and> (\<not> b3 \<or> (\<not> b2 \<and> \<not> b1)))"
  unfolding is_digit_def in_range_def of_char_bits
  by (cases b0; cases b1; cases b2; cases b3; cases b4; cases b5; cases b6; cases b7; simp)

lemma is_word_code [code]:
  "is_word (Char b0 b1 b2 b3 b4 b5 b6 b7) =
     (\<not> b7 \<and> ((b6 \<and> (b4 \<or> b3 \<or> b2 \<or> b1 \<or> b0) \<and> \<not> (b4 \<and> b3 \<and> (b2 \<or> (b1 \<and> b0))))
             \<or> (\<not> b6 \<and> b5 \<and> b4 \<and> (\<not> b3 \<or> (\<not> b2 \<and> \<not> b1)))
             \<or> (b6 \<and> \<not> b5 \<and> b4 \<and> b3 \<and> b2 \<and> b1 \<and> b0)))"
  unfolding is_word_def is_digit_def in_range_def of_char_bits
  by (cases b0; cases b1; cases b2; cases b3; cases b4; cases b5; cases b6; cases b7; simp)

subsection \<open>String primitives\<close>

lemma startsWith_prefix: "startsWith s p = prefix p s"
  unfolding startsWith_def
  by (induction p s rule: strip_prefix.induct) auto

lemma endsWith_suffix: "endsWith s p = suffix p s"
  by (simp add: endsWith_def startsWith_prefix suffix_to_prefix)

lemma includes_sublist: "includes_str s p = sublist p s"
  by (induction s) (auto simp: startsWith_prefix sublist_Cons_right)

lemma condition_holds_spec: "condition_holds context c = spec_condition context c"
  by (cases "ctype c") (simp_all add: spec_condition_def includes_sublist endsWith_suffix)

lemma conditions_loop_all: "conditions_loop context cs = list_all (spec_condition context) cs"
  by (induction cs) (simp_all del: condition_holds.simps add: condition_holds_spec)

lemma shouldApplyRule_spec: "shouldApplyRule rule context = spec_conditions_hold rule context"
  by (simp add: shouldApplyRule_def spec_conditions_hold_def conditions_loop_all
           split: option.splits)

subsection \<open>Replacing\<close>

lemma exec_at_le: "exec_at rx rp rest = Some (l, caps) \<Longrightarrow> l \<le> length rest"
  by (auto simp: exec_at_def split: list.splits)

lemma replace_scan_skip:
  "length xs = n \<Longrightarrow>
   replace_scan rx f a n rp (xs @ ys) = replace_scan rx f a 0 (rev xs @ rp) ys"
  by (induction xs arbitrary: n rp) auto

lemma replace_scan_skip_drop:
  assumes "n \<le> length cs"
  shows "replace_scan rx f a n rp cs = replace_scan rx f a 0 (rev (take n cs) @ rp) (drop n cs)"
proof -
  have "replace_scan rx f a n rp (take n cs @ drop n cs)
        = replace_scan rx f a 0 (rev (take n cs) @ rp) (drop n cs)"
    by (rule replace_scan_skip) (simp add: assms)
  then show ?thesis by simp
qed

lemma exec_at_match_here: "exec_at rx rp rest = match_here rx rp rest"
  by (simp add: exec_at_def match_here_def split: list.splits prod.splits)

lemma replace_scan_inactive: "replace_scan rx f False n rp cs = Inr (drop n cs)"
proof (induction cs arbitrary: n rp)
  case Nil
  then show ?case by simp
next
  case (Cons c cs)
  then show ?case by (cases n) simp_all
qed

lemma replace_scan_substitute:
  "replace_scan rx f True 0 rp s = substitute (re_global rx) rx f rp s"
proof (induction s arbitrary: rp rule: length_induct)
  case (1 s)
  have IH: "replace_scan rx f True 0 rp' t = substitute (re_global rx) rx f rp' t"
    if "length t < length s" for t rp'
    using 1 that by blast
  show ?case
  proof (cases s)
    case Nil
    then show ?thesis
      by (simp add: substitute.simps[of "re_global rx" rx f rp "[]"] exec_at_match_here
            split: option.splits sum.splits)
  next
    case (Cons c cs)
    have ih_cs: "replace_scan rx f True 0 (c # rp) cs = substitute (re_global rx) rx f (c # rp) cs"
      using IH[of cs "c # rp"] Cons by simp
    show ?thesis
    proof (cases "match_here rx rp s")
      case None
      with Cons ih_cs show ?thesis
        by (simp add: substitute.simps[of "re_global rx" rx f rp "c # cs"] exec_at_match_here)
    next
      case (Some m)
      obtain l caps where m: "m = (l, caps)" by (cases m)
      have ex: "exec_at rx rp (c # cs) = Some (l, caps)"
        using Some m Cons by (simp add: exec_at_match_here)
      show ?thesis
      proof (cases "f (take l s) caps (rev rp) (drop l s)")
        case (Inl e)
        with Some m Cons ex show ?thesis
          by (simp add: substitute.simps[of "re_global rx" rx f rp "c # cs"])
      next
        case (Inr new)
        show ?thesis
        proof (cases "re_global rx")
          case False
          have "replace_scan rx f True 0 rp (c # cs) = Inr (new @ drop l (c # cs))"
          proof (cases "l = 0")
            case True
            with ex Inr Cons False show ?thesis
              by (simp add: replace_scan_inactive)
          next
            case nz: False
            have "drop (l - 1) cs = drop l (c # cs)"
              using nz by (cases l) simp_all
            with ex Inr Cons False nz show ?thesis
              by (simp add: replace_scan_inactive)
          qed
          moreover have "substitute (re_global rx) rx f rp (c # cs) = Inr (new @ drop l (c # cs))"
            using Some m Cons Inr False
            by (simp add: substitute.simps[of "re_global rx" rx f rp "c # cs"])
          ultimately show ?thesis using Cons by simp
        next
          case True
          show ?thesis
          proof (cases "l = 0")
            case z: True
            have "replace_scan rx f True 0 rp (c # cs)
                  = (case replace_scan rx f True 0 (c # rp) cs of
                       Inl e \<Rightarrow> Inl e | Inr out \<Rightarrow> Inr (new @ c # out))"
              using ex Inr Cons True z by (simp split: sum.splits)
            moreover have "substitute (re_global rx) rx f rp (c # cs)
                  = (case substitute (re_global rx) rx f (c # rp) cs of
                       Inl e \<Rightarrow> Inl e | Inr out \<Rightarrow> Inr (new @ c # out))"
              using Some m Cons Inr True z
              by (simp add: substitute.simps[of "re_global rx" rx f rp "c # cs"]
                    split: sum.splits)
            ultimately show ?thesis using ih_cs Cons by simp
          next
            case nz: False
            have le: "l - 1 \<le> length cs"
              using exec_at_le[OF ex] by simp
            have tk: "rev (take (l - 1) cs) @ c # rp = rev (take l (c # cs)) @ rp"
              using nz by (cases l) simp_all
            have dr: "drop (l - 1) cs = drop l (c # cs)"
              using nz by (cases l) simp_all
            have shorter: "length (drop l (c # cs)) < length s"
              using nz Cons by simp
            have ih: "replace_scan rx f True 0 (rev (take l (c # cs)) @ rp) (drop l (c # cs))
                      = substitute (re_global rx) rx f (rev (take l (c # cs)) @ rp)
                          (drop l (c # cs))"
              by (rule IH[OF shorter])
            have "replace_scan rx f True (l - 1) (c # rp) cs
                  = replace_scan rx f True 0 (rev (take (l - 1) cs) @ c # rp) (drop (l - 1) cs)"
              by (rule replace_scan_skip_drop[OF le])
            also have "\<dots> = replace_scan rx f True 0 (rev (take l (c # cs)) @ rp)
                               (drop l (c # cs))"
              by (simp only: tk dr)
            finally have sk: "replace_scan rx f True (l - 1) (c # rp) cs
                  = substitute (re_global rx) rx f (rev (take l (c # cs)) @ rp)
                      (drop l (c # cs))"
              using ih by simp
            have "replace_scan rx f True 0 rp (c # cs)
                  = (case replace_scan rx f True (l - 1) (c # rp) cs of
                       Inl e \<Rightarrow> Inl e | Inr out \<Rightarrow> Inr (new @ out))"
              using ex Inr Cons True nz by simp
            moreover have "substitute (re_global rx) rx f rp (c # cs)
                  = (case substitute (re_global rx) rx f (rev (take l (c # cs)) @ rp)
                            (drop l (c # cs)) of
                       Inl e \<Rightarrow> Inl e | Inr out \<Rightarrow> Inr (new @ out))"
              using Some m Cons Inr True nz
              by (simp add: substitute.simps[of "re_global rx" rx f rp "c # cs"])
            ultimately show ?thesis using sk Cons by simp
          qed
        qed
      qed
    qed
  qed
qed

lemma search_none_replace:
  "search_from rx rp s = None \<Longrightarrow> replace_scan rx f a 0 rp s = Inr s"
  by (induction s arbitrary: rp) (auto split: option.splits)

subsection \<open>The order of the rules\<close>

lemma sortedRules_idem: "sortedRules (sortedRules rs) = sortedRules rs"
  unfolding sortedRules_def by (simp add: sort_key_id_if_sorted)

lemma sortedRules_desc:
  assumes "i < j" "j < length (sortedRules rs)"
  shows "priority (sortedRules rs ! j) \<le> priority (sortedRules rs ! i)"
proof -
  have "sorted (map (\<lambda>r. - priority r) (sortedRules rs))"
    unfolding sortedRules_def by simp
  then have "map (\<lambda>r. - priority r) (sortedRules rs) ! i
             \<le> map (\<lambda>r. - priority r) (sortedRules rs) ! j"
    using assms by (auto simp: sorted_iff_nth_mono_less)
  then show ?thesis using assms by simp
qed

lemma sortedRules_stable:
  "filter (\<lambda>r. priority r = p) (sortedRules rs) = filter (\<lambda>r. priority r = p) rs"
proof -
  have "filter (\<lambda>r. - priority r = - p) (sort_key (\<lambda>r. - priority r) rs)
        = filter (\<lambda>r. - priority r = - p) rs"
    by (rule sort_key_stable)
  then show ?thesis by (simp add: sortedRules_def)
qed

lemma sortedRules_two:
  "priority b \<le> priority a \<Longrightarrow> sortedRules [a, b] = [a, b]"
  "priority b < priority a \<Longrightarrow> sortedRules [b, a] = [a, b]"
  by (simp_all add: sortedRules_def)

subsection \<open>The loop over the rules\<close>

lemma foldl_raised:
  "foldl (\<lambda>acc r. case acc of Inl e \<Rightarrow> Inl e | Inr t \<Rightarrow> g r t) (Inl e) rs = Inl e"
  by (induction rs) simp_all

lemma rules_loop_foldl:
  "rules_loop conv context rs s
   = foldl (\<lambda>acc r. case acc of
                       Inl e \<Rightarrow> Inl e
                     | Inr t \<Rightarrow> if shouldApplyRule r context then applyRule conv r t context
                                else Inr t)
       (Inr s) rs"
proof (induction rs arbitrary: s)
  case Nil
  then show ?case by simp
next
  case (Cons r rs)
  show ?case
  proof (cases "shouldApplyRule r context")
    case False
    then show ?thesis using Cons.IH by simp
  next
    case True
    show ?thesis
    proof (cases "applyRule conv r s context")
      case (Inl e)
      with True show ?thesis by (simp add: foldl_raised)
    next
      case (Inr t)
      with True Cons.IH show ?thesis by simp
    qed
  qed
qed

lemma replacer_text: "replacer conv (replacement r) = replacement_text conv r"
proof -
  have "cap_val = (\<lambda>c. case c of None \<Rightarrow> JUndef | Some g \<Rightarrow> JStr g)"
    by (rule ext) (simp add: cap_val_def)
  then show ?thesis
    by (intro ext) (simp add: replacer_def replacement_text_def split: replacement.splits)
qed

lemma applyRule_substitution:
  "applyRule conv r s context = substitution (re_global (pattern r)) conv r s"
  by (simp add: applyRule_def substitution_def js_replace_def replace_scan_substitute
        replacer_text)

lemma fold_step_code:
  "fold_step (\<lambda>r. re_global (pattern r)) conv context
   = (\<lambda>acc r. case acc of
                 Inl e \<Rightarrow> Inl e
               | Inr t \<Rightarrow> if shouldApplyRule r context then applyRule conv r t context
                          else Inr t)"
  by (intro ext)
     (simp add: fold_step_def shouldApplyRule_spec applyRule_substitution split: sum.splits)

lemma rules_loop_fold:
  "rules_loop conv context rs s
   = foldl (fold_step (\<lambda>r. re_global (pattern r)) conv context) (Inr s) rs"
  by (simp only: fold_step_code rules_loop_foldl)

lemma fold_step_global:
  assumes "\<forall>r \<in> set rs. re_global (pattern r)"
  shows "foldl (fold_step (\<lambda>r. re_global (pattern r)) conv context) acc rs
         = foldl (fold_step (\<lambda>r. True) conv context) acc rs"
  using assms
proof (induction rs arbitrary: acc)
  case Nil
  then show ?case by simp
next
  case (Cons r rs)
  have g: "re_global (pattern r) = True"
    using Cons.prems by simp
  have "fold_step (\<lambda>r. re_global (pattern r)) conv context acc r
        = fold_step (\<lambda>r. True) conv context acc r"
    unfolding fold_step_def g by (rule refl)
  with Cons show ?case by simp
qed

lemma builtin_priorities:
  "priority vb_dim_declaration = 10" "priority vb_new_object = 10"
  "priority vb_method_with_body = 10" "priority vb_event_handler_complete = 10"
  "priority vb_if_then = 9" "priority vb_elseif = 9" "priority vb_string_type = 9"
  "priority vb_integer_type = 9" "priority vb_boolean_type = 9"
  "priority vb_for_loop_complete = 9" "priority vb_try_catch = 9"
  "priority vb_property_complete = 9" "priority vb_end_if = 8" "priority vb_string_concat = 8"
  "priority vb_logical_and = 8" "priority vb_logical_or = 8" "priority vb_logical_not = 8"
  "priority vb_sql_command = 8" "priority vb_msgbox = 7" "priority vb_comments = 5"
  "priority custom_test_rule = 5"
  by (simp_all add: mk_rule_def vb_dim_declaration_def vb_new_object_def
        vb_method_with_body_def vb_event_handler_complete_def vb_if_then_def vb_elseif_def
        vb_string_type_def vb_integer_type_def vb_boolean_type_def vb_for_loop_complete_def
        vb_try_catch_def vb_property_complete_def vb_end_if_def vb_string_concat_def
        vb_logical_and_def vb_logical_or_def vb_logical_not_def vb_sql_command_def
        vb_msgbox_def vb_comments_def custom_test_rule_def)

lemma sorted_builtin: "sortedRules initializeRules = sorted_builtin_rules"
  by (simp add: sortedRules_def initializeRules_def sorted_builtin_rules_def
        builtin_priorities)

lemma sorted_custom:
  "sortedRules (initializeRules @ [custom_test_rule]) = sorted_builtin_rules @ [custom_test_rule]"
  by (simp add: sortedRules_def initializeRules_def sorted_builtin_rules_def
        builtin_priorities)

lemma applyRules_builtin:
  "applyRules_d (Suc d) initializeRules content context
   = rules_loop (convertMethodBody (applyRules_d d sorted_builtin_rules)) context
       sorted_builtin_rules content"
  by (simp add: sorted_builtin)

subsection \<open>The contract of \<open>applyRules\<close>\<close>

lemma first_match_run:
  "applyRules_d (Suc 0) [first_match_rule] ''aa'' (test_context ''a.vb'' ''aa'') = Inr ''ba''"
  by code_simp

lemma first_match_global_fold:
  "fold_of_global_substitutions
     (convertMethodBody (applyRules_d 0 (sortedRules [first_match_rule]))) [first_match_rule]
     ''aa'' (test_context ''a.vb'' ''aa'') = Inr ''bb''"
  by code_simp

text \<open>
  Claim C1 as stated fails for a rule whose pattern does not carry the \<open>g\<close> flag, which
  \<open>addCustomRule\<close> accepts: \<open>String.prototype.replace\<close> then replaces the first match
  only. The rule \<open>/a/\<close> to \<open>b\<close> turns \<open>aa\<close> into \<open>ba\<close>, where the fold of global
  substitutions gives \<open>bb\<close>.
\<close>

theorem global_fold_counterexample:
  "applyRules_d (Suc 0) [first_match_rule] ''aa'' (test_context ''a.vb'' ''aa'') = Inr ''ba''
   \<and> fold_of_global_substitutions
        (convertMethodBody (applyRules_d 0 (sortedRules [first_match_rule]))) [first_match_rule]
        ''aa'' (test_context ''a.vb'' ''aa'') = Inr ''bb''"
  using first_match_run first_match_global_fold by (rule conjI)

text \<open>
  Claim C1, amended. For every text and context, \<open>applyRules\<close> is the left-to-right fold
  over the rules in applied order: a rule whose conditions all hold against the context
  (suffix of the file path, equality of the project kind, substring of the whole file
  content) replaces, in the current text, every non-overlapping match of its pattern if
  the pattern carries the \<open>g\<close> flag and the first match only if it does not, by its
  template or by its replacement function called with the match, the captured groups,
  the offset and the whole text; the output of a rule is the input of the next; a rule
  with a failing condition leaves the text as it is; an exception of a replacement
  function ends the run. For a rule set whose patterns all carry the \<open>g\<close> flag, as
  those of the built-in rules do, this is the fold of global substitutions.
\<close>

theorem applyRules_is_fold_of_replacements:
  "applyRules_d (Suc d) rs content context
     = fold_of_replacements (convertMethodBody (applyRules_d d (sortedRules rs))) rs content
         context
   \<and> ((\<forall>r \<in> set rs. re_global (pattern r)) \<longrightarrow>
        applyRules_d (Suc d) rs content context
        = fold_of_global_substitutions (convertMethodBody (applyRules_d d (sortedRules rs))) rs
            content context)"
proof (intro conjI impI)
  show eq: "applyRules_d (Suc d) rs content context
            = fold_of_replacements (convertMethodBody (applyRules_d d (sortedRules rs))) rs
                content context"
    by (simp add: fold_of_replacements_def rules_loop_fold)
  assume "\<forall>r \<in> set rs. re_global (pattern r)"
  then have "\<forall>r \<in> set (sortedRules rs). re_global (pattern r)"
    by (simp add: sortedRules_def)
  then have "fold_of_replacements (convertMethodBody (applyRules_d d (sortedRules rs))) rs
               content context
             = fold_of_global_substitutions (convertMethodBody (applyRules_d d (sortedRules rs)))
                 rs content context"
    unfolding fold_of_replacements_def fold_of_global_substitutions_def
    by (rule fold_step_global)
  with eq show "applyRules_d (Suc d) rs content context
        = fold_of_global_substitutions (convertMethodBody (applyRules_d d (sortedRules rs))) rs
            content context"
    by simp
qed

lemma builtin_global: "\<forall>r \<in> set (initializeRules @ [custom_test_rule]). re_global (pattern r)"
  by code_simp

lemma custom_loop:
  "rules_loop conv (test_context ''Form1.vb'' ''Dim nombre As String'')
     (sorted_builtin_rules @ [custom_test_rule]) ''test Dim nombre As String''
   = Inr ''TEST string nombre''"
  by code_simp

lemma custom_run:
  "applyRules_d (Suc 0) (initializeRules @ [custom_test_rule]) ''test Dim nombre As String''
     (test_context ''Form1.vb'' ''Dim nombre As String'') = Inr ''TEST string nombre''"
  by (simp add: sorted_custom custom_loop)

theorem applyRules_is_fold_of_replacements_witness:
  "list_all (\<lambda>r. re_global (pattern r)) (initializeRules @ [custom_test_rule])
   \<and> fold_of_global_substitutions
        (convertMethodBody (applyRules_d 0 (sortedRules (initializeRules @ [custom_test_rule]))))
        (initializeRules @ [custom_test_rule]) ''test Dim nombre As String''
        (test_context ''Form1.vb'' ''Dim nombre As String'') = Inr ''TEST string nombre''
   \<and> fold_of_replacements
        (convertMethodBody (applyRules_d 0 (sortedRules [first_match_rule]))) [first_match_rule]
        ''aa'' (test_context ''a.vb'' ''aa'') = Inr ''ba''"
proof (intro conjI)
  show "list_all (\<lambda>r. re_global (pattern r)) (initializeRules @ [custom_test_rule])"
    unfolding list_all_iff by (rule builtin_global)
  show "fold_of_global_substitutions
          (convertMethodBody (applyRules_d 0 (sortedRules (initializeRules @ [custom_test_rule]))))
          (initializeRules @ [custom_test_rule]) ''test Dim nombre As String''
          (test_context ''Form1.vb'' ''Dim nombre As String'') = Inr ''TEST string nombre''"
  proof -
    have "applyRules_d (Suc 0) (initializeRules @ [custom_test_rule])
            ''test Dim nombre As String'' (test_context ''Form1.vb'' ''Dim nombre As String'')
          = fold_of_global_substitutions
              (convertMethodBody
                 (applyRules_d 0 (sortedRules (initializeRules @ [custom_test_rule]))))
              (initializeRules @ [custom_test_rule]) ''test Dim nombre As String''
              (test_context ''Form1.vb'' ''Dim nombre As String'')"
      using applyRules_is_fold_of_replacements[of 0 "initializeRules @ [custom_test_rule]"
          "''test Dim nombre As String''" "test_context ''Form1.vb'' ''Dim nombre As String''"]
        builtin_global
      by blast
    then show ?thesis
      by (rule trans[OF sym custom_run])
  qed
  show "fold_of_replacements
          (convertMethodBody (applyRules_d 0 (sortedRules [first_match_rule]))) [first_match_rule]
          ''aa'' (test_context ''a.vb'' ''aa'') = Inr ''ba''"
  proof -
    have "applyRules_d (Suc 0) [first_match_rule] ''aa'' (test_context ''a.vb'' ''aa'')
          = fold_of_replacements
              (convertMethodBody (applyRules_d 0 (sortedRules [first_match_rule])))
              [first_match_rule] ''aa'' (test_context ''a.vb'' ''aa'')"
      using applyRules_is_fold_of_replacements[of 0 "[first_match_rule]" "''aa''"
          "test_context ''a.vb'' ''aa''"]
      by blast
    then show ?thesis
      by (rule trans[OF sym first_match_run])
  qed
qed

subsection \<open>Priority order\<close>

text \<open>
  Claim C2. \<open>applyRules\<close> applies the rules one after the other in the order of the
  sorted list, each to the output of the one before. That list holds the same rules; of
  two rules with unequal priority the one with the higher priority comes first; rules
  of equal priority keep their declaration order; these three properties determine the
  list. So, of two rules, the one with the higher priority is applied first whatever
  the declaration order, and with equal priorities the one declared first.
\<close>

theorem applied_order:
  "applyRules_d (Suc d) rs content context
     = foldl (\<lambda>acc r. case acc of
                         Inl e \<Rightarrow> Inl e
                       | Inr t \<Rightarrow>
                           if shouldApplyRule r context
                           then applyRule (convertMethodBody (applyRules_d d (sortedRules rs))) r t
                                  context
                           else Inr t)
         (Inr content) (sortedRules rs)
   \<and> (\<forall>i j. i < length (sortedRules rs) \<and> j < length (sortedRules rs)
             \<and> priority (sortedRules rs ! j) < priority (sortedRules rs ! i) \<longrightarrow> i < j)
   \<and> (\<forall>p. filter (\<lambda>r. priority r = p) (sortedRules rs) = filter (\<lambda>r. priority r = p) rs)
   \<and> (\<forall>ys. ys = sortedRules rs \<longleftrightarrow>
          mset ys = mset rs
          \<and> sorted (map (\<lambda>r. - priority r) ys)
          \<and> (\<forall>p. filter (\<lambda>r. priority r = p) ys = filter (\<lambda>r. priority r = p) rs))
   \<and> (priority b < priority a \<longrightarrow>
        applyRules_d (Suc d) [b, a] content context = applyRules_d (Suc d) [a, b] content context)
   \<and> (priority b \<le> priority a \<and> shouldApplyRule a context \<and> shouldApplyRule b context \<longrightarrow>
        applyRules_d (Suc d) [a, b] content context
        = (case applyRule (convertMethodBody (applyRules_d d [a, b])) a content context of
             Inl e \<Rightarrow> Inl e
           | Inr t \<Rightarrow> applyRule (convertMethodBody (applyRules_d d [a, b])) b t context))"
proof (intro conjI allI impI)
  show "applyRules_d (Suc d) rs content context
        = foldl (\<lambda>acc r. case acc of
                            Inl e \<Rightarrow> Inl e
                          | Inr t \<Rightarrow>
                              if shouldApplyRule r context
                              then applyRule (convertMethodBody (applyRules_d d (sortedRules rs)))
                                     r t context
                              else Inr t)
            (Inr content) (sortedRules rs)"
    by (simp add: rules_loop_foldl)
next
  fix i j
  assume a: "i < length (sortedRules rs) \<and> j < length (sortedRules rs)
             \<and> priority (sortedRules rs ! j) < priority (sortedRules rs ! i)"
  show "i < j"
  proof (rule ccontr)
    assume "\<not> i < j"
    then have "j < i \<or> j = i" by arith
    then show False
    proof
      assume "j < i"
      with a sortedRules_desc[of j i rs] show False by simp
    next
      assume "j = i"
      with a show False by simp
    qed
  qed
next
  fix p
  show "filter (\<lambda>r. priority r = p) (sortedRules rs) = filter (\<lambda>r. priority r = p) rs"
    by (rule sortedRules_stable)
next
  fix ys
  show "ys = sortedRules rs \<longleftrightarrow>
          mset ys = mset rs
          \<and> sorted (map (\<lambda>r. - priority r) ys)
          \<and> (\<forall>p. filter (\<lambda>r. priority r = p) ys = filter (\<lambda>r. priority r = p) rs)"
  proof
    assume "ys = sortedRules rs"
    then show "mset ys = mset rs \<and> sorted (map (\<lambda>r. - priority r) ys)
               \<and> (\<forall>p. filter (\<lambda>r. priority r = p) ys = filter (\<lambda>r. priority r = p) rs)"
      using sortedRules_stable by (simp add: sortedRules_def)
  next
    assume a: "mset ys = mset rs \<and> sorted (map (\<lambda>r. - priority r) ys)
               \<and> (\<forall>p. filter (\<lambda>r. priority r = p) ys = filter (\<lambda>r. priority r = p) rs)"
    have "sort_key (\<lambda>r. - priority r) rs = ys"
    proof (rule properties_for_sort_key)
      show "mset ys = mset rs" using a by simp
      show "sorted (map (\<lambda>r. - priority r) ys)" using a by simp
      fix k
      assume "k \<in> set ys"
      have f: "filter (\<lambda>r. priority r = priority k) ys
               = filter (\<lambda>r. priority r = priority k) rs"
        using a by simp
      have eq: "(\<lambda>x. - priority k = - priority x) = (\<lambda>r. priority r = priority k)"
        by auto
      show "filter (\<lambda>x. - priority k = - priority x) ys
            = filter (\<lambda>x. - priority k = - priority x) rs"
        unfolding eq by (rule f)
    qed
    then show "ys = sortedRules rs" by (simp add: sortedRules_def)
  qed
next
  assume "priority b < priority a"
  then show "applyRules_d (Suc d) [b, a] content context
             = applyRules_d (Suc d) [a, b] content context"
    by (simp add: sortedRules_two)
next
  assume "priority b \<le> priority a \<and> shouldApplyRule a context \<and> shouldApplyRule b context"
  then show "applyRules_d (Suc d) [a, b] content context
        = (case applyRule (convertMethodBody (applyRules_d d [a, b])) a content context of
             Inl e \<Rightarrow> Inl e
           | Inr t \<Rightarrow> applyRule (convertMethodBody (applyRules_d d [a, b])) b t context)"
    by (simp add: sortedRules_two split: sum.splits)
qed

lemma overlap_priorities: "priority rule_b_to_c < priority rule_a_to_b"
  by (simp add: rule_a_to_b_def rule_b_to_c_def)

lemma overlap_run:
  "applyRules_d (Suc 0) [rule_a_to_b, rule_b_to_c] ''a'' (test_context ''a.vb'' ''a'')
   = Inr ''c''"
  by code_simp

theorem applied_order_witness:
  "priority rule_b_to_c < priority rule_a_to_b
   \<and> applyRules_d (Suc 0) [rule_b_to_c, rule_a_to_b] ''a'' (test_context ''a.vb'' ''a'')
       = Inr ''c''
   \<and> (4 < length (sortedRules initializeRules) \<and> 12 < length (sortedRules initializeRules)
       \<and> priority (sortedRules initializeRules ! 12) < priority (sortedRules initializeRules ! 4))
   \<and> (4::nat) < 12
   \<and> sortedRules initializeRules ! 4 = vb_if_then
   \<and> sortedRules initializeRules ! 12 = vb_end_if"
proof -
  have a: "sortedRules initializeRules ! 4 = vb_if_then"
    by (simp add: sorted_builtin sorted_builtin_rules_def)
  have b: "sortedRules initializeRules ! 12 = vb_end_if"
    by (simp add: sorted_builtin sorted_builtin_rules_def)
  have h: "4 < length (sortedRules initializeRules) \<and> 12 < length (sortedRules initializeRules)
           \<and> priority (sortedRules initializeRules ! 12) < priority (sortedRules initializeRules ! 4)"
    unfolding a b by (simp add: sorted_builtin sorted_builtin_rules_def builtin_priorities)
  have o: "\<forall>i j. i < length (sortedRules initializeRules) \<and> j < length (sortedRules initializeRules)
             \<and> priority (sortedRules initializeRules ! j) < priority (sortedRules initializeRules ! i)
             \<longrightarrow> i < j"
    using applied_order[of 0 initializeRules "[]" "test_context [] []"] by blast
  have lt: "(4::nat) < 12"
    using o h by blast
  have "priority rule_b_to_c < priority rule_a_to_b \<longrightarrow>
          applyRules_d (Suc 0) [rule_b_to_c, rule_a_to_b] ''a'' (test_context ''a.vb'' ''a'')
          = applyRules_d (Suc 0) [rule_a_to_b, rule_b_to_c] ''a'' (test_context ''a.vb'' ''a'')"
    using applied_order[of 0 "[]" "''a''" "test_context ''a.vb'' ''a''" rule_b_to_c rule_a_to_b]
    by blast
  then have "applyRules_d (Suc 0) [rule_b_to_c, rule_a_to_b] ''a'' (test_context ''a.vb'' ''a'')
             = applyRules_d (Suc 0) [rule_a_to_b, rule_b_to_c] ''a'' (test_context ''a.vb'' ''a'')"
    using overlap_priorities by blast
  then have run: "applyRules_d (Suc 0) [rule_b_to_c, rule_a_to_b] ''a''
                    (test_context ''a.vb'' ''a'') = Inr ''c''"
    by (rule trans[OF _ overlap_run])
  show ?thesis using overlap_priorities run h lt a b by blast
qed

text \<open>The enhanced engine sorts its rules in the same way.\<close>

lemma enhanced_order:
  "sorted (map (\<lambda>r. - epriority r) (sortedEnhancedRules rs))
   \<and> mset (sortedEnhancedRules rs) = mset rs
   \<and> filter (\<lambda>r. epriority r = p) (sortedEnhancedRules rs) = filter (\<lambda>r. epriority r = p) rs"
proof -
  have "filter (\<lambda>r. - epriority r = - p) (sort_key (\<lambda>r. - epriority r) rs)
        = filter (\<lambda>r. - epriority r = - p) rs"
    by (rule sort_key_stable)
  then show ?thesis by (simp add: sortedEnhancedRules_def)
qed

subsection \<open>Determinism\<close>

lemma applyRules_d_sorted:
  "applyRules_d d (sortedRules rs) content context = applyRules_d d rs content context"
  by (cases d) (simp_all add: sortedRules_idem)

text \<open>
  Claim C7. For a fixed rule set \<open>applyRules\<close> is a function of the text and the context:
  a second invocation, on the engine that the first one leaves behind (its rule array
  sorted in place), returns the same result for the same text and context.
\<close>

theorem applyRules_deterministic:
  "fst (applyRules d (snd (applyRules d this content context)) content context)
   = fst (applyRules d this content context)"
  by (simp add: applyRules_def applyRules_d_sorted)

lemma loop_declaration:
  "rules_loop conv context sorted_builtin_rules ''Dim nombre As String'' = Inr ''string nombre''"
  by code_simp

lemma scenario_declaration:
  "applyRules_d (Suc d) initializeRules ''Dim nombre As String'' context = Inr ''string nombre''"
  by (simp only: applyRules_builtin loop_declaration)

lemma engine_run:
  "fst (applyRules 2 new_MigrationRulesEngine ''Dim nombre As String''
          (test_context ''test.vb'' ''Dim nombre As String'')) = Inr ''string nombre''"
proof -
  have "applyRules_d (Suc 1) initializeRules ''Dim nombre As String''
          (test_context ''test.vb'' ''Dim nombre As String'') = Inr ''string nombre''"
    by (rule scenario_declaration)
  then show ?thesis
    by (simp add: applyRules_def new_MigrationRulesEngine_def numeral_2_eq_2)
qed

theorem applyRules_deterministic_witness:
  "fst (applyRules 2
          (snd (applyRules 2 new_MigrationRulesEngine ''Dim nombre As String''
                  (test_context ''test.vb'' ''Dim nombre As String'')))
          ''Dim nombre As String'' (test_context ''test.vb'' ''Dim nombre As String''))
   = Inr ''string nombre''"
  by (rule trans[OF applyRules_deterministic engine_run])

subsection \<open>Scenarios\<close>








subsection \<open>Idempotence on the fixtures\<close>

lemma examples_loop_idempotent:
  "list_all (loop_idempotent_on conv conv' context context') rule_examples"
  by code_simp

lemma scenarios_loop_idempotent:
  "list_all (loop_idempotent_on conv conv' context context') scenario_inputs"
  by code_simp

lemma idempotent_on_loop:
  "idempotent_on d d' context context'
   = loop_idempotent_on (convertMethodBody (applyRules_d d sorted_builtin_rules))
       (convertMethodBody (applyRules_d d' sorted_builtin_rules)) context context'"
  by (rule ext) (simp only: idempotent_on_def loop_idempotent_on_def applyRules_builtin)

lemma corpus_idempotent: "list_all (idempotent_on d d' context context') fixture_corpus"
  unfolding idempotent_on_loop fixture_corpus_def list_all_append
  using examples_loop_idempotent scenarios_loop_idempotent by blast

text \<open>
  Claim C8. On every fixture (the inputs of the examples documented with the built-in
  rules and the scenario inputs) a first run of the built-in rules returns a text, and a
  second run on that text, in any context, returns it unchanged.
\<close>

theorem idempotent_on_fixtures:
  assumes "t \<in> set fixture_corpus"
  shows "\<exists>t1. applyRules_d (Suc d) initializeRules t context = Inr t1
              \<and> applyRules_d (Suc d') initializeRules t1 context' = Inr t1"
proof -
  have "idempotent_on d d' context context' t"
    using corpus_idempotent[of d d' "context" "context'"] assms by (simp add: list_all_iff)
  then show ?thesis
    by (auto simp: idempotent_on_def split: sum.splits)
qed

lemma corpus_member: "''If Not esValido Then'' \<in> set fixture_corpus"
  by code_simp

theorem idempotent_on_fixtures_witness:
  "''If Not esValido Then'' \<in> set fixture_corpus
   \<and> (\<exists>t1. applyRules_d (Suc 0) initializeRules ''If Not esValido Then''
               (test_context ''a.vb'' []) = Inr t1
            \<and> applyRules_d (Suc 0) initializeRules t1 (test_context ''b.vb'' ''x'') = Inr t1)"
  using corpus_member idempotent_on_fixtures[OF corpus_member] by blast

subsection \<open>Rules that do not match, and empty bodies\<close>

lemma applyRule_no_match:
  assumes "\<not> has_match (pattern rule) content"
  shows "applyRule conv rule content context = Inr content"
proof -
  have "search_from (pattern rule) [] content = None"
    using assms by (cases "search_from (pattern rule) [] content")
      (simp_all add: has_match_def js_match_def)
  then show ?thesis
    by (simp add: applyRule_def js_replace_def search_none_replace)
qed

lemma rules_loop_no_match:
  assumes "\<forall>r \<in> set rs. \<not> has_match (pattern r) content"
  shows "rules_loop conv context rs content = Inr content"
  using assms by (induction rs) (simp_all add: applyRule_no_match)

lemma convertMethodBody_blank:
  assumes "trim s = []"
  shows "convertMethodBody apply (JStr s) = Inr ''    // TODO: Implement method logic''"
  using assms by (simp add: convertMethodBody_def placeholder_def)

lemma migrate_blank:
  assumes "trim s = []"
  shows "migrateVBCodeWithEnhancedEngine (Suc d) this s path
         = Inr ''// TODO: Implement method logic''"
  using assms by simp

lemma convertVBMethodToCSharp_blank:
  assumes "trim (m_body vbMethod) = []"
  shows "map_sum id cm_body (convertVBMethodToCSharp d this vbMethod)
         = Inr ''// TODO: Implement method body''"
  using assms by (simp add: convertVBMethodToCSharp_def)

text \<open>On the empty text the built-in rules match nowhere: \<open>applyRules\<close> returns it.\<close>

lemma loop_empty_text: "rules_loop conv context sorted_builtin_rules [] = Inr []"
  by code_simp

lemma applyRules_empty_text: "applyRules_d (Suc d) initializeRules [] context = Inr []"
  by (simp only: applyRules_builtin loop_empty_text)

text \<open>
  The placeholder is what \<open>convertMethodBody\<close> returns for an empty or blank body. The
  rule \<open>vb-method-with-body\<close> calls it from its replacement function, with the body that
  the function takes from its arguments.
\<close>

lemma convertMethodBody_text:
  assumes "trim s \<noteq> []"
    and "apply s \<lparr> filePath = [], fileContent = s, projectType = ''WinForms'',
                    targetFramework = ''net8.0'', usings = [], variableTypes = [],
                    functionTypes = [] \<rparr> = Inr t"
  shows "convertMethodBody apply (JStr s) = Inr (join [LF] (map indent_line (split_on LF t)))"
proof -
  have "s \<noteq> []" using assms(1) by (auto simp: trim_def)
  then have "truthy (JStr s)" by simp
  with assms show ?thesis by (simp add: convertMethodBody_def)
qed

lemma loop_sub: "rules_loop conv context sorted_builtin_rules ''Sub'' = Inr ''Sub''"
  by code_simp

lemma sub_facts:
  "trim ''Sub'' \<noteq> []" "join [LF] (map indent_line (split_on LF ''Sub'')) = ''    Sub''"
  by code_simp+

lemma body_sub:
  "convertMethodBody (applyRules_d (Suc d) sorted_builtin_rules) (JStr ''Sub'') = Inr ''    Sub''"
proof -
  have "sortedRules sorted_builtin_rules = sorted_builtin_rules"
    using sortedRules_idem[of initializeRules] by (simp add: sorted_builtin)
  then have "applyRules_d (Suc d) sorted_builtin_rules ''Sub'' c = Inr ''Sub''" for c
    by (simp add: loop_sub)
  then show ?thesis
    using convertMethodBody_text[OF sub_facts(1), of "applyRules_d (Suc d) sorted_builtin_rules"
        "''Sub''"] sub_facts(2)
    by simp
qed

lemma loop_empty_method:
  "rules_loop (\<lambda>v. if v = JStr ''Sub'' then Inr ''    Sub'' else conv v) context
     sorted_builtin_rules (''Public Sub Save()'' @ [LF] @ [LF] @ ''End Sub'')
   = Inr (''private void ()'' @ [LF] @ ''{'' @ [LF] @ ''    Sub'' @ [LF] @ ''}'')"
  by code_simp

lemma loop_bodiless_method:
  "rules_loop conv context sorted_builtin_rules (''Public Sub Save()'' @ [LF] @ ''End Sub'')
   = Inr (''Public Sub Save()'' @ [LF] @ ''End Sub'')"
  by code_simp

text \<open>
  Claim C3, on the rule \<open>vb-method-with-body\<close> of the engine. Its replacement function
  takes its names from \<open>groups\<close> one position off, so that \<open>body\<close> receives the keyword
  captured behind \<open>End\<close> and \<open>methodName\<close> the parameter list: a method whose body is an
  empty line is emitted without its name and with the body \<open>Sub\<close>, not with the
  placeholder. A method with no line between its head and \<open>End Sub\<close> is not matched by
  any rule and stays as it is.
\<close>

theorem empty_method_rule_output:
  "applyRules_d (Suc (Suc d)) initializeRules
     (''Public Sub Save()'' @ [LF] @ [LF] @ ''End Sub'') context
   = Inr (''private void ()'' @ [LF] @ ''{'' @ [LF] @ ''    Sub'' @ [LF] @ ''}'')
   \<and> applyRules_d (Suc d) initializeRules (''Public Sub Save()'' @ [LF] @ ''End Sub'') context
     = Inr (''Public Sub Save()'' @ [LF] @ ''End Sub'')"
proof
  have "convertMethodBody (applyRules_d (Suc d) sorted_builtin_rules)
        = (\<lambda>v. if v = JStr ''Sub'' then Inr ''    Sub''
                else convertMethodBody (applyRules_d (Suc d) sorted_builtin_rules) v)"
    by (rule ext) (simp add: body_sub)
  then have "rules_loop (convertMethodBody (applyRules_d (Suc d) sorted_builtin_rules)) context
               sorted_builtin_rules (''Public Sub Save()'' @ [LF] @ [LF] @ ''End Sub'')
             = Inr (''private void ()'' @ [LF] @ ''{'' @ [LF] @ ''    Sub'' @ [LF] @ ''}'')"
    using loop_empty_method[of "convertMethodBody (applyRules_d (Suc d) sorted_builtin_rules)"
        "context"]
    by simp
  then show "applyRules_d (Suc (Suc d)) initializeRules
               (''Public Sub Save()'' @ [LF] @ [LF] @ ''End Sub'') context
             = Inr (''private void ()'' @ [LF] @ ''{'' @ [LF] @ ''    Sub'' @ [LF] @ ''}'')"
    by (simp only: applyRules_builtin)
  show "applyRules_d (Suc d) initializeRules (''Public Sub Save()'' @ [LF] @ ''End Sub'') context
        = Inr (''Public Sub Save()'' @ [LF] @ ''End Sub'')"
    by (simp only: applyRules_builtin loop_bodiless_method)
qed

subsection \<open>Event handlers\<close>

text \<open>
  The emitter of the structural model: whenever \<open>convertVBEventToCSharpMethod\<close> returns a
  method, it is private, returns \<open>void\<close>, bears the name of the handler and has the two
  parameters \<open>sender\<close> and \<open>e\<close>, whatever parameters the event declares.
\<close>

lemma convertVBEventToCSharpMethod_signature:
  assumes "convertVBEventToCSharpMethod d this vbEvent = Inr m"
  shows "cm_returnType m = JStr ''void'' \<and> cm_accessModifier m = ''private''
         \<and> cm_parameters m = event_parameters \<and> cm_name m = ev_handler vbEvent"
  using assms
  by (auto simp: convertVBEventToCSharpMethod_def split: sum.splits)

lemma convertVBEventToCSharpMethod_no_body:
  "\<exists>m. convertVBEventToCSharpMethod d this (vbEvent \<lparr> ev_body := None \<rparr>) = Inr m"
  by (simp add: convertVBEventToCSharpMethod_def)

lemma loop_event_handler:
  "rules_loop (convertMethodBody apply) context sorted_builtin_rules
     (''Private Sub btn_Click(ByVal s As Object) Handles btn.Click'' @ [LF] @ ''x = 1'' @ [LF]
      @ ''End Sub'')
   = Inr (''private void Click_ByVal s As Object(object sender, EventArgs e)'' @ [LF] @ ''{''
          @ [LF] @ ''    // TODO: Implement method logic'' @ [LF] @ ''}'')"
  by code_simp

lemma loop_event_handler_later:
  "rules_loop (convertMethodBody apply) context sorted_builtin_rules
     (CHR 0x27 # ''Save'' @ [LF] @ ''Private Sub btn_Click() Handles btn.Click'' @ [LF]
      @ ''x = 1'' @ [LF] @ ''End Sub'')
   = Inl (TypeError ''vbBody.trim is not a function'')"
  by code_simp

text \<open>
  Claim C10, on the rule \<open>vb-event-handler-complete\<close> of the engine. Its callback
  destructures \<open>groups\<close> one position off: \<open>eventName\<close> receives the declared parameter
  list and \<open>body\<close> receives the match offset. For a handler at the start of the text the
  declared parameter list \<open>ByVal s As Object\<close> appears in the generated signature, and the
  body is replaced by the placeholder; for a handler further down the run raises a
  \<open>TypeError\<close>.
\<close>

theorem event_handler_rule_output:
  "applyRules_d (Suc d) initializeRules
     (''Private Sub btn_Click(ByVal s As Object) Handles btn.Click'' @ [LF] @ ''x = 1'' @ [LF]
      @ ''End Sub'') context
   = Inr (''private void Click_ByVal s As Object(object sender, EventArgs e)'' @ [LF] @ ''{''
          @ [LF] @ ''    // TODO: Implement method logic'' @ [LF] @ ''}'')
   \<and> applyRules_d (Suc d) initializeRules
       (CHR 0x27 # ''Save'' @ [LF] @ ''Private Sub btn_Click() Handles btn.Click'' @ [LF]
        @ ''x = 1'' @ [LF] @ ''End Sub'') context
     = Inl (TypeError ''vbBody.trim is not a function'')"
  by (simp only: applyRules_builtin loop_event_handler loop_event_handler_later)

section \<open>Properties of the structural extractor\<close>

lemma parseVBFile_readable:
  assumes "readFile env (path_join (projectPath env) f) = Inr c"
  shows "\<exists>st'. parseVBFile env f st = Inr st'"
  using assms
  by (simp add: parseVBFile_def parseVBForm_def parseVBModule_def parseVBClass_def Let_def)

lemma parseVBFile_unreadable:
  assumes "readFile env (path_join (projectPath env) f) = Inl e"
  shows "parseVBFile env f st = Inl e"
  using assms by (simp add: parseVBFile_def)

lemma parseVBFile_failure:
  "(parseVBFile env f st = Inl e) = (read_error env f = Some e)"
proof (cases "readFile env (path_join (projectPath env) f)")
  case (Inl e')
  then show ?thesis
    by (simp add: parseVBFile_unreadable read_error_def)
next
  case (Inr c)
  then obtain st' where "parseVBFile env f st = Inr st'"
    using parseVBFile_readable by blast
  with Inr show ?thesis by (simp add: read_error_def)
qed

lemma parse_files_failure:
  "(parse_files env fs st = Inl e) = (first_error (read_error env) fs = Some e)"
proof (induction fs arbitrary: st)
  case Nil
  then show ?case by simp
next
  case (Cons f fs)
  show ?case
  proof (cases "parseVBFile env f st")
    case (Inl e')
    then have "read_error env f = Some e'"
      by (simp add: parseVBFile_failure)
    with Inl show ?thesis by simp
  next
    case (Inr st')
    have "read_error env f = None"
    proof (cases "read_error env f")
      case None
      then show ?thesis .
    next
      case (Some e')
      then have "parseVBFile env f st = Inl e'"
        by (simp add: parseVBFile_failure)
      with Inr show ?thesis by simp
    qed
    with Inr Cons.IH[of st'] show ?thesis by simp
  qed
qed

text \<open>A unit named by the legacy manifest: a file that does not exist is passed over.\<close>

lemma manifest_unit_failure:
  "(parseVBForm env p st = Inl e)
   = (pathExists env (path_join (projectPath env) p) \<and> read_error env p = Some e)"
  "(parseVBModule env p st = Inl e)
   = (pathExists env (path_join (projectPath env) p) \<and> read_error env p = Some e)"
  "(parseVBClass env p st = Inl e)
   = (pathExists env (path_join (projectPath env) p) \<and> read_error env p = Some e)"
  by (auto simp: parseVBForm_def parseVBModule_def parseVBClass_def read_error_def Let_def
        split: sum.splits)

lemma parse_lines_failure:
  "(parse_lines env ls st = Inl e)
   = (first_error (read_error env)
        (filter (\<lambda>p. pathExists env (path_join (projectPath env) p))
           (map manifest_path
              (filter (\<lambda>line. startsWith line ''Form='' \<or> startsWith line ''Module=''
                               \<or> startsWith line ''Class='') ls))) = Some e)"
proof (induction ls arbitrary: st)
  case Nil
  then show ?case by simp
next
  case (Cons l ls)
  let ?unit = "if startsWith l ''Form='' then parseVBForm env (manifest_path l) st
               else if startsWith l ''Module='' then parseVBModule env (manifest_path l) st
               else if startsWith l ''Class='' then parseVBClass env (manifest_path l) st
               else Inr st"
  let ?named = "startsWith l ''Form='' \<or> startsWith l ''Module='' \<or> startsWith l ''Class=''"
  let ?exists = "pathExists env (path_join (projectPath env) (manifest_path l))"
  have unit: "(?unit = Inl e') = (?named \<and> ?exists \<and> read_error env (manifest_path l) = Some e')"
    for e'
    by (simp add: manifest_unit_failure)
  show ?case
  proof (cases ?unit)
    case (Inl e')
    then have "?named \<and> ?exists \<and> read_error env (manifest_path l) = Some e'"
      using unit[of e'] by blast
    with Inl show ?thesis by simp
  next
    case (Inr st')
    have none: "?named \<and> ?exists \<longrightarrow> read_error env (manifest_path l) = None"
    proof (cases "read_error env (manifest_path l)")
      case None
      then show ?thesis by simp
    next
      case (Some e')
      show ?thesis
      proof
        assume "?named \<and> ?exists"
        then have "?unit = Inl e'" using unit[of e'] Some by blast
        with Inr show "read_error env (manifest_path l) = None" by simp
      qed
    qed
    have "parse_lines env (l # ls) st = parse_lines env ls st'"
      using Inr by simp
    with none Cons.IH[of st'] show ?thesis by auto
  qed
qed

lemma parseVBProject_failure:
  "(parseVBProject env = Inl e) = (extraction_failure env = Some e)"
proof -
  have run: "(parseVBProject env = Inl e) = (parseVBProject_run env = Inl e)"
    by (simp add: parseVBProject_def split: sum.splits)
  show ?thesis
    unfolding run
    by (simp add: parseVBProject_run_def extraction_failure_def parseProjectFile_def
          parseVBProjFile_def parseVBPFile_def parse_files_failure parse_lines_failure
          manifest_entries_def
          split: sum.splits list.splits)
qed

lemma parseVBFile_other_extension:
  assumes "readFile env (path_join (projectPath env) f) = Inr c"
    and "toLowerCase (extname f) \<notin> set [''.vb'', ''.frm'', ''.bas'', ''.cls'']"
  shows "parseVBFile env f st = Inr st"
  using assms by (simp add: parseVBFile_def Let_def)

text \<open>
  Claim C4 as stated fails: with a descriptor and two source files, one of which cannot
  be read, the whole call fails with that file's error although the other file is a
  class; and with a descriptor and no source file at all the call succeeds with zero
  source units.
\<close>

theorem extract_counterexample:
  "parseVBProject env_one_unreadable = Inl (Error ''EACCES: permission denied'')
   \<and> map_sum id vb_classes (parseVBProject env_all_readable) = Inr [''Customer.vb'']
   \<and> map_sum id source_units (parseVBProject env_descriptor_only) = Inr 0"
  by code_simp

text \<open>
  Claim C4, amended. \<open>parseVBProject\<close> returns an error exactly in these cases, and the
  first of them that occurs gives the error: the glob for project descriptors raises;
  it finds none (the \<open>Error\<close> \<open>No VB.NET project files found in the specified directory\<close>);
  the first descriptor found cannot be read; for a \<open>.vbproj\<close> descriptor, its XML cannot
  be parsed, the glob for source files raises, or a source file that the glob lists
  cannot be read; for a legacy manifest, a file named by a \<open>Form=\<close>, \<open>Module=\<close> or
  \<open>Class=\<close> line exists and cannot be read. No error of a single file is caught,
  recorded or skipped. In every other case the call succeeds: a file whose extension is
  none of \<open>.vb\<close>, \<open>.frm\<close>, \<open>.bas\<close>, \<open>.cls\<close> is read and then left out, without a warning
  and without an error, and a project from which no source unit is recovered is returned
  as a success.
\<close>

theorem extract_outcome:
  "(parseVBProject env = Inl e \<longleftrightarrow> extraction_failure env = Some e)
   \<and> (extraction_failure env = None \<longleftrightarrow> (\<exists>p. parseVBProject env = Inr p))
   \<and> (readFile env (path_join (projectPath env) f) = Inr c
       \<and> toLowerCase (extname f) \<notin> set [''.vb'', ''.frm'', ''.bas'', ''.cls'']
       \<longrightarrow> parseVBFile env f st = Inr st)
   \<and> (projectFilesGlob env = Inr (pf # others) \<and> endsWith pf ''.vbproj''
       \<and> readFile env (path_join (projectPath env) pf) = Inr content
       \<and> readDescriptor env content = Inr d
       \<and> vbFilesGlob env = Inr []
       \<longrightarrow> map_sum id source_units (parseVBProject env) = Inr 0)"
proof (intro conjI impI)
  show "parseVBProject env = Inl e \<longleftrightarrow> extraction_failure env = Some e"
    by (rule parseVBProject_failure)
  show "extraction_failure env = None \<longleftrightarrow> (\<exists>p. parseVBProject env = Inr p)"
  proof
    assume none: "extraction_failure env = None"
    show "\<exists>p. parseVBProject env = Inr p"
    proof (cases "parseVBProject env")
      case (Inl e')
      then have "extraction_failure env = Some e'"
        by (simp add: parseVBProject_failure)
      with none show ?thesis by simp
    next
      case (Inr p)
      then show ?thesis by blast
    qed
  next
    assume "\<exists>p. parseVBProject env = Inr p"
    then obtain p where p: "parseVBProject env = Inr p" by blast
    show "extraction_failure env = None"
    proof (cases "extraction_failure env")
      case None
      then show ?thesis .
    next
      case (Some e')
      then have "parseVBProject env = Inl e'"
        by (simp add: parseVBProject_failure)
      with p show ?thesis by simp
    qed
  qed
next
  assume "readFile env (path_join (projectPath env) f) = Inr c
          \<and> toLowerCase (extname f) \<notin> set [''.vb'', ''.frm'', ''.bas'', ''.cls'']"
  then show "parseVBFile env f st = Inr st"
    using parseVBFile_other_extension by blast
next
  assume a: "projectFilesGlob env = Inr (pf # others) \<and> endsWith pf ''.vbproj''
       \<and> readFile env (path_join (projectPath env) pf) = Inr content
       \<and> readDescriptor env content = Inr d
       \<and> vbFilesGlob env = Inr []"
  then show "map_sum id source_units (parseVBProject env) = Inr 0"
    by (simp add: parseVBProject_def parseVBProject_run_def parseProjectFile_def
          parseVBProjFile_def source_units_def)
qed

lemma sample_failures:
  "extraction_failure env_one_unreadable = Some (Error ''EACCES: permission denied'')"
  "extraction_failure env_legacy = Some (Error ''EACCES: permission denied'')"
  "extraction_failure env_all_readable = None"
  by code_simp+

lemma sample_other_extension:
  "readFile env_one_unreadable (path_join (projectPath env_one_unreadable) ''App.vbproj'')
   = Inr ''<Project/>''"
  "toLowerCase (extname ''App.vbproj'') \<notin> set [''.vb'', ''.frm'', ''.bas'', ''.cls'']"
  by code_simp+

lemma sample_descriptor_only:
  "projectFilesGlob env_descriptor_only = Inr (''App.vbproj'' # [])"
  "endsWith ''App.vbproj'' ''.vbproj''"
  "readFile env_descriptor_only (path_join (projectPath env_descriptor_only) ''App.vbproj'')
   = Inr ''<Project/>''"
  "readDescriptor env_descriptor_only ''<Project/>'' = Inr sample_descriptor"
  "vbFilesGlob env_descriptor_only = Inr []"
  by code_simp+

theorem extract_outcome_witness:
  "extraction_failure env_one_unreadable = Some (Error ''EACCES: permission denied'')
   \<and> parseVBProject env_one_unreadable = Inl (Error ''EACCES: permission denied'')
   \<and> extraction_failure env_legacy = Some (Error ''EACCES: permission denied'')
   \<and> parseVBProject env_legacy = Inl (Error ''EACCES: permission denied'')
   \<and> extraction_failure env_all_readable = None
   \<and> (\<exists>p. parseVBProject env_all_readable = Inr p)
   \<and> parseVBFile env_one_unreadable ''App.vbproj''
        \<lparr> project = \<lparr> vb_name = ''App'', vb_path = ''App.vbproj'', vb_targetFramework = ''net48'',
                      vb_forms = [], vb_modules = [], vb_classes = [], vb_references = [],
                      vb_projectType = WinForms \<rparr>,
          console = [] \<rparr>
       = Inr \<lparr> project = \<lparr> vb_name = ''App'', vb_path = ''App.vbproj'',
                             vb_targetFramework = ''net48'', vb_forms = [], vb_modules = [],
                             vb_classes = [], vb_references = [], vb_projectType = WinForms \<rparr>,
                 console = [] \<rparr>
   \<and> map_sum id source_units (parseVBProject env_descriptor_only) = Inr 0"
proof -
  let ?st = "\<lparr> project = \<lparr> vb_name = ''App'', vb_path = ''App.vbproj'',
                            vb_targetFramework = ''net48'', vb_forms = [], vb_modules = [],
                            vb_classes = [], vb_references = [], vb_projectType = WinForms \<rparr>,
                console = [] \<rparr> :: (string, string, string) parse_state"
  note one = extract_outcome[of env_one_unreadable "Error ''EACCES: permission denied''"
      "''App.vbproj''" "''<Project/>''" ?st "''App.vbproj''" "[]" "''<Project/>''"
      sample_descriptor]
  note legacy = extract_outcome[of env_legacy "Error ''EACCES: permission denied''"
      "''App.vbproj''" "''<Project/>''" ?st "''App.vbproj''" "[]" "''<Project/>''"
      sample_descriptor]
  note readable = extract_outcome[of env_all_readable "Error ''EACCES: permission denied''"
      "''App.vbproj''" "''<Project/>''" ?st "''App.vbproj''" "[]" "''<Project/>''"
      sample_descriptor]
  note only = extract_outcome[of env_descriptor_only "Error ''EACCES: permission denied''"
      "''App.vbproj''" "''<Project/>''" ?st "''App.vbproj''" "[]" "''<Project/>''"
      sample_descriptor]
  have a: "parseVBProject env_one_unreadable = Inl (Error ''EACCES: permission denied'')"
    using one sample_failures(1) by blast
  have b: "parseVBProject env_legacy = Inl (Error ''EACCES: permission denied'')"
    using legacy sample_failures(2) by blast
  have c: "\<exists>p. parseVBProject env_all_readable = Inr p"
    using readable sample_failures(3) by blast
  have d: "parseVBFile env_one_unreadable ''App.vbproj'' ?st = Inr ?st"
    using one sample_other_extension by blast
  have e: "map_sum id source_units (parseVBProject env_descriptor_only) = Inr 0"
    using only sample_descriptor_only by blast
  show ?thesis
    using sample_failures a b c d e by blast
qed

section \<open>Properties of the routing\<close>

lemma count_of_append: "count_of t (xs @ ys) = count_of t xs + count_of t ys"
  by (simp add: count_of_def)

lemma count_of_Nil: "count_of t [] = 0"
  by (simp add: count_of_def)

lemma count_of_Cons:
  "count_of t (mk_file p u purpose content analysis # fs)
   = (if u = t then 1 else 0) + count_of t fs"
  by (simp add: count_of_def mk_file_def)

text \<open>
  The generation inside \<open>migrateModule\<close>, from no file: the files it leaves and the
  exception, if any.
\<close>

lemma tests_outcome:
  assumes "t \<noteq> Test"
  shows "count_of t (fst (when_true b (generateTestFiles r e) files)) = count_of t files"
    and "snd (when_true b (generateTestFiles r e) files) = None"
  using assms
  by (simp_all add: when_true_def generateTestFiles_def count_of_append count_of_Cons
        count_of_Nil)

lemma and_then_tests:
  assumes "t \<noteq> Test"
  shows "count_of t (fst (and_then g (when_true b (generateTestFiles r e)) files))
         = count_of t (fst (g files))"
    and "snd (and_then g (when_true b (generateTestFiles r e)) files) = snd (g files)"
proof -
  obtain fs x where g: "g files = (fs, x)" by (cases "g files")
  show "count_of t (fst (and_then g (when_true b (generateTestFiles r e)) files))
        = count_of t (fst (g files))"
    using g tests_outcome(1)[OF assms, of b r e fs]
    by (cases x) (simp_all add: and_then_def)
  show "snd (and_then g (when_true b (generateTestFiles r e)) files) = snd (g files)"
    using g tests_outcome(2)[OF assms, of b r e fs]
    by (cases x) (simp_all add: and_then_def)
qed

lemma clean_repositories:
  "count_of Repository (fst (generateCleanArchitectureFiles r e c opts []))
   \<le> (if data_access_bearing e then 2 else 0)
   \<and> (snd (generateCleanArchitectureFiles r e c opts []) = None \<longrightarrow>
        count_of Repository (fst (generateCleanArchitectureFiles r e c opts []))
        = (if data_access_bearing e then 2 else 0))"
  by (simp add: generateCleanArchitectureFiles_def and_then_def when_true_def emit_def
        data_access_bearing_def count_of_append count_of_Cons count_of_Nil Let_def
        split: sum.splits)

lemma clean_services:
  "count_of Service (fst (generateCleanArchitectureFiles r e c opts [])) \<le> 1
   \<and> (snd (generateCleanArchitectureFiles r e c opts []) = None \<longrightarrow>
        count_of Service (fst (generateCleanArchitectureFiles r e c opts [])) = 1)"
  by (simp add: generateCleanArchitectureFiles_def and_then_def when_true_def emit_def
        count_of_append count_of_Cons count_of_Nil Let_def
        split: sum.splits)

lemma other_styles:
  "snd (generateLayeredArchitectureFiles e []) = None"
  "snd (generateMVCFiles e []) = None"
  "snd (generateMVVMFiles e []) = None"
  "count_of Repository (fst (generateLayeredArchitectureFiles e []))
   = (if data_access_bearing e then 1 else 0)"
  "count_of Repository (fst (generateMVCFiles e [])) = 0"
  "count_of Repository (fst (generateMVVMFiles e [])) = 0"
  "count_of Service (fst (generateLayeredArchitectureFiles e [])) = 1"
  "count_of Service (fst (generateMVCFiles e [])) = 0"
  "count_of Service (fst (generateMVVMFiles e [])) = (if hasBusinessLogic e then 1 else 0)"
  by (simp_all add: generateLayeredArchitectureFiles_def generateMVCFiles_def
        generateMVVMFiles_def data_access_bearing_def count_of_append count_of_Cons
        count_of_Nil Let_def)

lemma generate_files_style:
  assumes "t \<noteq> Test"
  shows "count_of t (fst (generate_files r e Clean c opts))
         = count_of t (fst (generateCleanArchitectureFiles r e c opts []))"
    and "count_of t (fst (generate_files r e Layered c opts))
         = count_of t (fst (generateLayeredArchitectureFiles e []))"
    and "count_of t (fst (generate_files r e MVC c opts))
         = count_of t (fst (generateMVCFiles e []))"
    and "count_of t (fst (generate_files r e MVVM c opts))
         = count_of t (fst (generateMVVMFiles e []))"
  using assms by (simp_all add: generate_files_def and_then_tests)

lemma generate_files_raised:
  "snd (generate_files r e Clean c opts) = snd (generateCleanArchitectureFiles r e c opts [])"
  using and_then_tests(2)[of Repository "generateCleanArchitectureFiles r e c opts"
      "generateTests opts" r e "[]"]
  by (simp add: generate_files_def)

lemma generate_repositories:
  "count_of Repository (fst (generate_files r e a c opts))
   \<le> (if data_access_bearing e then repositories_per_entity a else 0)"
  "snd (generate_files r e a c opts) = None \<Longrightarrow>
   count_of Repository (fst (generate_files r e a c opts))
   = (if data_access_bearing e then repositories_per_entity a else 0)"
proof -
  have clean: "count_of Repository (fst (generateCleanArchitectureFiles r e c opts []))
               \<le> (if data_access_bearing e then 2 else 0)"
    using clean_repositories[of r e c opts] by blast
  show "count_of Repository (fst (generate_files r e a c opts))
        \<le> (if data_access_bearing e then repositories_per_entity a else 0)"
  proof (cases a)
    case Clean
    then show ?thesis
      using clean by (simp add: generate_files_style repositories_per_entity_def split: if_splits)
  next
    case Layered
    then show ?thesis
      by (simp add: generate_files_style other_styles repositories_per_entity_def)
  next
    case MVC
    then show ?thesis
      by (simp add: generate_files_style other_styles repositories_per_entity_def)
  next
    case MVVM
    then show ?thesis
      by (simp add: generate_files_style other_styles repositories_per_entity_def)
  qed
  assume ok: "snd (generate_files r e a c opts) = None"
  show "count_of Repository (fst (generate_files r e a c opts))
        = (if data_access_bearing e then repositories_per_entity a else 0)"
  proof (cases a)
    case Clean
    then have "snd (generateCleanArchitectureFiles r e c opts []) = None"
      using ok by (simp add: generate_files_raised)
    then have "count_of Repository (fst (generateCleanArchitectureFiles r e c opts []))
               = (if data_access_bearing e then 2 else 0)"
      using clean_repositories[of r e c opts] by blast
    with Clean show ?thesis
      by (simp add: generate_files_style repositories_per_entity_def split: if_splits)
  next
    case Layered
    then show ?thesis
      by (simp add: generate_files_style other_styles repositories_per_entity_def)
  next
    case MVC
    then show ?thesis
      by (simp add: generate_files_style other_styles repositories_per_entity_def)
  next
    case MVVM
    then show ?thesis
      by (simp add: generate_files_style other_styles repositories_per_entity_def)
  qed
qed

lemma generate_services:
  assumes "\<not> hasBusinessLogic e"
  shows "count_of Service (fst (generate_files r e a c opts))
         \<le> (if unconditional_service a then 1 else 0)"
    and "snd (generate_files r e a c opts) = None \<Longrightarrow>
         count_of Service (fst (generate_files r e a c opts))
         = (if unconditional_service a then 1 else 0)"
proof -
  have clean: "count_of Service (fst (generateCleanArchitectureFiles r e c opts [])) \<le> 1"
    using clean_services[of r e c opts] by blast
  show "count_of Service (fst (generate_files r e a c opts))
        \<le> (if unconditional_service a then 1 else 0)"
  proof (cases a)
    case Clean
    then show ?thesis
      using clean by (simp add: generate_files_style unconditional_service_def)
  next
    case Layered
    then show ?thesis
      by (simp add: generate_files_style other_styles unconditional_service_def)
  next
    case MVC
    then show ?thesis
      by (simp add: generate_files_style other_styles unconditional_service_def)
  next
    case MVVM
    then show ?thesis
      using assms by (simp add: generate_files_style other_styles unconditional_service_def)
  qed
  assume ok: "snd (generate_files r e a c opts) = None"
  show "count_of Service (fst (generate_files r e a c opts))
        = (if unconditional_service a then 1 else 0)"
  proof (cases a)
    case Clean
    then have "snd (generateCleanArchitectureFiles r e c opts []) = None"
      using ok by (simp add: generate_files_raised)
    then have "count_of Service (fst (generateCleanArchitectureFiles r e c opts [])) = 1"
      using clean_services[of r e c opts] by blast
    with Clean show ?thesis
      by (simp add: generate_files_style unconditional_service_def)
  next
    case Layered
    then show ?thesis
      by (simp add: generate_files_style other_styles unconditional_service_def)
  next
    case MVC
    then show ?thesis
      by (simp add: generate_files_style other_styles unconditional_service_def)
  next
    case MVVM
    then show ?thesis
      using assms by (simp add: generate_files_style other_styles unconditional_service_def)
  qed
qed

text \<open>What \<open>migrateModule\<close> returns, in terms of the generation.\<close>

lemma migrateModule_unreadable:
  assumes "ensureDir env dir = Inl x \<or> readSource env (analysisPath e) = Inl x"
  shows "generatedFiles (migrateModule env r e a dir opts) = []"
    and "\<not> success (migrateModule env r e a dir opts)"
  using assms
  by (auto simp: migrateModule_def failed_def split: sum.splits)

lemma migrateModule_files:
  "generatedFiles (migrateModule env r e a dir opts) = []
   \<or> (\<exists>c. generatedFiles (migrateModule env r e a dir opts) = fst (generate_files r e a c opts)
          \<and> (success (migrateModule env r e a dir opts) \<longrightarrow>
               snd (generate_files r e a c opts) = None))"
proof (cases "ensureDir env dir")
  case (Inl x)
  then show ?thesis by (simp add: migrateModule_def failed_def)
next
  case dir: (Inr u)
  show ?thesis
  proof (cases "readSource env (analysisPath e)")
    case (Inl x)
    with dir show ?thesis by (simp add: migrateModule_def failed_def)
  next
    case (Inr c)
    obtain fs x where g: "generate_files r e a c opts = (fs, x)"
      by (cases "generate_files r e a c opts")
    have "generatedFiles (migrateModule env r e a dir opts) = fst (generate_files r e a c opts)
          \<and> (success (migrateModule env r e a dir opts) \<longrightarrow>
               snd (generate_files r e a c opts) = None)"
      using dir Inr g
      by (cases x; cases "writeGeneratedFiles env fs dir")
         (simp_all add: migrateModule_def failed_def)
    then show ?thesis by blast
  qed
qed

lemma success_files:
  assumes "success (migrateModule env r e a dir opts)"
  shows "\<exists>c. generatedFiles (migrateModule env r e a dir opts) = fst (generate_files r e a c opts)
            \<and> snd (generate_files r e a c opts) = None"
proof (cases "ensureDir env dir")
  case (Inl x)
  with assms show ?thesis by (simp add: migrateModule_def failed_def)
next
  case dir: (Inr u)
  show ?thesis
  proof (cases "readSource env (analysisPath e)")
    case (Inl x)
    with dir assms show ?thesis by (simp add: migrateModule_def failed_def)
  next
    case (Inr c)
    obtain fs x where g: "generate_files r e a c opts = (fs, x)"
      by (cases "generate_files r e a c opts")
    have "generatedFiles (migrateModule env r e a dir opts) = fst (generate_files r e a c opts)
          \<and> snd (generate_files r e a c opts) = None"
      using dir Inr g assms
      by (cases x; cases "writeGeneratedFiles env fs dir")
         (simp_all add: migrateModule_def failed_def)
    then show ?thesis by blast
  qed
qed

lemma repositories_bound:
  "count_of Repository (generatedFiles (migrateModule env r e a dir opts))
   \<le> (if data_access_bearing e then repositories_per_entity a else 0)"
proof -
  from migrateModule_files[of env r e a dir opts] show ?thesis
  proof
    assume "generatedFiles (migrateModule env r e a dir opts) = []"
    then show ?thesis by (simp add: count_of_Nil)
  next
    assume "\<exists>c. generatedFiles (migrateModule env r e a dir opts)
                 = fst (generate_files r e a c opts)
               \<and> (success (migrateModule env r e a dir opts) \<longrightarrow>
                    snd (generate_files r e a c opts) = None)"
    then obtain c where
      "generatedFiles (migrateModule env r e a dir opts) = fst (generate_files r e a c opts)"
      by blast
    then show ?thesis
      using generate_repositories(1)[of r e a c opts] by simp
  qed
qed

lemma repositories_success:
  assumes "success (migrateModule env r e a dir opts)"
  shows "count_of Repository (generatedFiles (migrateModule env r e a dir opts))
         = (if data_access_bearing e then repositories_per_entity a else 0)"
proof -
  obtain c where
    "generatedFiles (migrateModule env r e a dir opts) = fst (generate_files r e a c opts)"
    and "snd (generate_files r e a c opts) = None"
    using success_files[OF assms] by blast
  then show ?thesis
    using generate_repositories(2)[of r e a c opts] by simp
qed

lemma services_bound:
  assumes "\<not> hasBusinessLogic e"
  shows "count_of Service (generatedFiles (migrateModule env r e a dir opts))
         \<le> (if unconditional_service a then 1 else 0)"
proof -
  from migrateModule_files[of env r e a dir opts] show ?thesis
  proof
    assume "generatedFiles (migrateModule env r e a dir opts) = []"
    then show ?thesis by (simp add: count_of_Nil)
  next
    assume "\<exists>c. generatedFiles (migrateModule env r e a dir opts)
                 = fst (generate_files r e a c opts)
               \<and> (success (migrateModule env r e a dir opts) \<longrightarrow>
                    snd (generate_files r e a c opts) = None)"
    then obtain c where
      "generatedFiles (migrateModule env r e a dir opts) = fst (generate_files r e a c opts)"
      by blast
    then show ?thesis
      using generate_services(1)[OF assms, of r a c opts] by simp
  qed
qed

lemma services_success:
  assumes "\<not> hasBusinessLogic e" and "success (migrateModule env r e a dir opts)"
  shows "count_of Service (generatedFiles (migrateModule env r e a dir opts))
         = (if unconditional_service a then 1 else 0)"
proof -
  obtain c where
    "generatedFiles (migrateModule env r e a dir opts) = fst (generate_files r e a c opts)"
    and "snd (generate_files r e a c opts) = None"
    using success_files[OF assms(2)] by blast
  then show ?thesis
    using generate_services(2)[OF assms(1), of r a c opts] by simp
qed

lemma no_signal_no_data_access: "\<not> hasBusinessLogic e \<Longrightarrow> \<not> data_access_bearing e"
  by (simp add: hasBusinessLogic_def data_access_bearing_def)

lemma repositories_all:
  assumes "list_all (\<lambda>e. success (migrateModule env r e a dir opts)) entities"
  shows "count_of Repository (migrate_all env r a dir opts entities)
         = repositories_per_entity a * length (filter data_access_bearing entities)"
  using assms
proof (induction entities)
  case Nil
  then show ?case by (simp add: migrate_all_def count_of_Nil)
next
  case (Cons e es)
  have "count_of Repository (migrate_all env r a dir opts (e # es))
        = count_of Repository (generatedFiles (migrateModule env r e a dir opts))
          + count_of Repository (migrate_all env r a dir opts es)"
    by (simp add: migrate_all_def count_of_append)
  with Cons show ?case
    by (simp add: repositories_success)
qed

text \<open>
  Claim C5 as stated fails: a module with no business-logic and no data-access signal
  receives a Service artifact in the Clean style; a module with a database operation
  receives no Repository artifact in the MVC style and two in the Clean style. All three
  calls succeed.
\<close>

theorem routing_counterexample:
  "\<not> hasBusinessLogic plain_module
   \<and> success (migrateModule sample_disk plain_renderers plain_module Clean ''/out'' default_options)
   \<and> count_of Service
        (generatedFiles
           (migrateModule sample_disk plain_renderers plain_module Clean ''/out'' default_options))
      = 1
   \<and> data_access_bearing data_module
   \<and> success (migrateModule sample_disk plain_renderers data_module MVC ''/out'' default_options)
   \<and> count_of Repository
        (generatedFiles
           (migrateModule sample_disk plain_renderers data_module MVC ''/out'' default_options))
      = 0
   \<and> success (migrateModule sample_disk plain_renderers data_module Clean ''/out'' default_options)
   \<and> count_of Repository
        (generatedFiles
           (migrateModule sample_disk plain_renderers data_module Clean ''/out'' default_options))
      = 2"
  by code_simp

text \<open>
  Claim C5, amended. For a call of \<open>migrateModule\<close> that succeeds, the number of
  Repository artifacts is, for a data-access-bearing entity, two in Clean (interface and
  implementation), one in Layered and none in MVC and MVVM, and none for any other
  entity; so for a set of entities whose calls all succeed it is that number times the
  number of data-access-bearing entities. In a call that fails it is at most that number,
  and it is zero if the output directory cannot be ensured or the source file cannot be
  read, because then no file is generated. An entity with no business-logic and no
  data-access signal never receives a Repository artifact, and never a Service artifact
  in MVC and MVVM; in Clean and Layered, whose service file does not depend on the
  signals, it receives one Service artifact if the call succeeds and at most one if it
  fails.
\<close>

theorem routing_counts:
  "(list_all (\<lambda>e. success (migrateModule env r e a dir opts)) entities \<longrightarrow>
      count_of Repository (migrate_all env r a dir opts entities)
      = repositories_per_entity a * length (filter data_access_bearing entities))
   \<and> (success (migrateModule env r e a dir opts) \<longrightarrow>
        count_of Repository (generatedFiles (migrateModule env r e a dir opts))
        = (if data_access_bearing e then repositories_per_entity a else 0))
   \<and> count_of Repository (generatedFiles (migrateModule env r e a dir opts))
       \<le> (if data_access_bearing e then repositories_per_entity a else 0)
   \<and> (ensureDir env dir = Inl x \<or> readSource env (analysisPath e) = Inl x \<longrightarrow>
        generatedFiles (migrateModule env r e a dir opts) = []
        \<and> \<not> success (migrateModule env r e a dir opts))
   \<and> (\<not> hasBusinessLogic e \<longrightarrow>
        count_of Repository (generatedFiles (migrateModule env r e a dir opts)) = 0
        \<and> count_of Service (generatedFiles (migrateModule env r e a dir opts))
            \<le> (if unconditional_service a then 1 else 0)
        \<and> (success (migrateModule env r e a dir opts) \<longrightarrow>
             count_of Service (generatedFiles (migrateModule env r e a dir opts))
             = (if unconditional_service a then 1 else 0)))"
proof (intro conjI impI)
  assume "list_all (\<lambda>e. success (migrateModule env r e a dir opts)) entities"
  then show "count_of Repository (migrate_all env r a dir opts entities)
             = repositories_per_entity a * length (filter data_access_bearing entities)"
    by (rule repositories_all)
next
  assume "success (migrateModule env r e a dir opts)"
  then show "count_of Repository (generatedFiles (migrateModule env r e a dir opts))
             = (if data_access_bearing e then repositories_per_entity a else 0)"
    by (rule repositories_success)
next
  show "count_of Repository (generatedFiles (migrateModule env r e a dir opts))
        \<le> (if data_access_bearing e then repositories_per_entity a else 0)"
    by (rule repositories_bound)
next
  assume "ensureDir env dir = Inl x \<or> readSource env (analysisPath e) = Inl x"
  then show "generatedFiles (migrateModule env r e a dir opts) = []"
    by (rule migrateModule_unreadable(1))
next
  assume "ensureDir env dir = Inl x \<or> readSource env (analysisPath e) = Inl x"
  then show "\<not> success (migrateModule env r e a dir opts)"
    by (rule migrateModule_unreadable(2))
next
  assume "\<not> hasBusinessLogic e"
  then have "\<not> data_access_bearing e"
    by (rule no_signal_no_data_access)
  then show "count_of Repository (generatedFiles (migrateModule env r e a dir opts)) = 0"
    using repositories_bound[of env r e a dir opts] by simp
next
  assume "\<not> hasBusinessLogic e"
  then show "count_of Service (generatedFiles (migrateModule env r e a dir opts))
             \<le> (if unconditional_service a then 1 else 0)"
    by (rule services_bound)
next
  assume "\<not> hasBusinessLogic e" and "success (migrateModule env r e a dir opts)"
  then show "count_of Service (generatedFiles (migrateModule env r e a dir opts))
             = (if unconditional_service a then 1 else 0)"
    by (rule services_success)
qed

lemma sample_migrations:
  "list_all (\<lambda>e. success (migrateModule sample_disk plain_renderers e Layered ''/out''
                            default_options)) [plain_module, data_module]"
  "success (migrateModule sample_disk plain_renderers plain_module Layered ''/out''
              default_options)"
  "\<not> hasBusinessLogic plain_module"
  "\<not> hasBusinessLogic locked_module"
  "readSource sample_disk (analysisPath locked_module) = Inl (Error ''EACCES: permission denied'')"
  "repositories_per_entity Layered * length (filter data_access_bearing [plain_module, data_module])
   = 1"
  "unconditional_service Layered"
  by code_simp+

theorem routing_counts_witness:
  "list_all (\<lambda>e. success (migrateModule sample_disk plain_renderers e Layered ''/out''
                            default_options)) [plain_module, data_module]
   \<and> count_of Repository
        (migrate_all sample_disk plain_renderers Layered ''/out'' default_options
           [plain_module, data_module]) = 1
   \<and> \<not> hasBusinessLogic plain_module
   \<and> success (migrateModule sample_disk plain_renderers plain_module Layered ''/out''
                default_options)
   \<and> count_of Repository
        (generatedFiles (migrateModule sample_disk plain_renderers plain_module Layered ''/out''
                           default_options)) = 0
   \<and> count_of Service
        (generatedFiles (migrateModule sample_disk plain_renderers plain_module Layered ''/out''
                           default_options)) = 1
   \<and> readSource sample_disk (analysisPath locked_module) = Inl (Error ''EACCES: permission denied'')
   \<and> generatedFiles (migrateModule sample_disk plain_renderers locked_module Layered ''/out''
                       default_options) = []
   \<and> \<not> success (migrateModule sample_disk plain_renderers locked_module Layered ''/out''
                  default_options)"
proof -
  note plain = routing_counts[of sample_disk plain_renderers Layered "''/out''" default_options
      "[plain_module, data_module]" plain_module "Error ''EACCES: permission denied''"]
  note locked = routing_counts[of sample_disk plain_renderers Layered "''/out''" default_options
      "[plain_module, data_module]" locked_module "Error ''EACCES: permission denied''"]
  have a: "count_of Repository
             (migrate_all sample_disk plain_renderers Layered ''/out'' default_options
                [plain_module, data_module])
           = repositories_per_entity Layered
             * length (filter data_access_bearing [plain_module, data_module])"
    using plain sample_migrations(1) by blast
  have b: "count_of Repository
             (generatedFiles (migrateModule sample_disk plain_renderers plain_module Layered
                                ''/out'' default_options)) = 0"
    using plain sample_migrations(3) by blast
  have c: "count_of Service
             (generatedFiles (migrateModule sample_disk plain_renderers plain_module Layered
                                ''/out'' default_options))
           = (if unconditional_service Layered then 1 else 0)"
    using plain sample_migrations(2,3) by blast
  have d: "generatedFiles (migrateModule sample_disk plain_renderers locked_module Layered ''/out''
                             default_options) = []
           \<and> \<not> success (migrateModule sample_disk plain_renderers locked_module Layered ''/out''
                          default_options)"
    using locked sample_migrations(5) by blast
  show ?thesis
    using a b c d sample_migrations by simp
qed

section \<open>Properties of the project graph\<close>

lemma service_not_shared: "x @ ''Service'' \<noteq> ''Shared''"
proof
  assume "x @ ''Service'' = ''Shared''"
  then have "last (x @ ''Service'') = last ''Shared''" by simp
  then show False by simp
qed

lemma microservices_names:
  "map pp_name (fst (generateMicroservicesArchitecture n moduleAnalyses options))
   = map (\<lambda>(dom, ms). n @ ''.'' @ dom @ ''Service'') (identifyBusinessDomains moduleAnalyses)
     @ [n @ ''.Gateway'', n @ ''.Web'']"
  by (simp add: generateMicroservicesArchitecture_def split_def)

lemma shared_not_emitted:
  "n @ ''.Shared''
   \<notin> set (map pp_name (fst (generateMicroservicesArchitecture n moduleAnalyses options)))"
proof -
  have "n @ ''.Shared'' \<noteq> n @ ''.'' @ dom @ ''Service''" for dom
    using service_not_shared[of dom] by simp
  then show ?thesis
    unfolding microservices_names by (auto simp: split_def)
qed

lemma refs_beforeI:
  assumes "\<And>p d. p \<in> set ps \<Longrightarrow> d \<in> set (pp_dependencies p) \<Longrightarrow> d \<notin> set (map pp_name ps)"
  shows "refs_before order ps"
  unfolding refs_before_def list_all_iff using assms by blast

lemma microservices_dependencies:
  assumes "p \<in> set (fst (generateMicroservicesArchitecture n moduleAnalyses options))"
    and "d \<in> set (pp_dependencies p)"
  shows "d = n @ ''.Shared''"
proof -
  let ?f = "\<lambda>(dom, ms).
             \<lparr> pp_name = n @ ''.'' @ dom @ ''Service'', pp_type = PAPI,
               pp_targetFramework = ''net8.0'',
               pp_purpose = ''Microservice for '' @ dom @ '' domain'',
               pp_dependencies = [n @ ''.Shared''], pp_sourceModules = ms \<rparr>"
  from assms(1) consider
    (svc) "p \<in> set (map ?f (identifyBusinessDomains moduleAnalyses))"
    | (other) "pp_dependencies p = []"
    unfolding generateMicroservicesArchitecture_def by fastforce
  then show ?thesis
  proof cases
    case svc
    then obtain x where "p = ?f x" by auto
    then have "pp_dependencies p = [n @ ''.Shared'']"
      by (simp add: split_def)
    with assms(2) show ?thesis by simp
  next
    case other
    with assms(2) show ?thesis by simp
  qed
qed

lemma microservices_refs:
  "refs_before order (fst (generateMicroservicesArchitecture n moduleAnalyses options))"
proof (rule refs_beforeI)
  fix p d
  assume "p \<in> set (fst (generateMicroservicesArchitecture n moduleAnalyses options))"
    and "d \<in> set (pp_dependencies p)"
  then have "d = n @ ''.Shared''"
    by (rule microservices_dependencies)
  then show "d \<notin> set (map pp_name (fst (generateMicroservicesArchitecture n moduleAnalyses options)))"
    using shared_not_emitted[of n moduleAnalyses options] by simp
qed

lemma clean_names_list:
  "map pp_name (fst (generateCleanArchitecture n moduleAnalyses options))
   = clean_names n moduleAnalyses options"
  by (simp add: generateCleanArchitecture_def clean_names_def library_def type_name_def Let_def)

lemma clean_refs:
  "refs_earlier (fst (generateCleanArchitecture n moduleAnalyses options))"
  by (cases "includeDatabase options"; cases "webBased options";
      cases "hasDataAccess moduleAnalyses")
     (simp_all add: refs_earlier_def refs_before_def generateCleanArchitecture_def library_def
        type_name_def Let_def)

lemma layered_refs:
  "refs_before [n @ ''.Data'', n @ ''.Business'', n @ ''.Presentation'']
     (fst (generateLayeredArchitecture n moduleAnalyses options))"
  by (simp add: refs_before_def generateLayeredArchitecture_def library_def)

lemma mvc_refs:
  "refs_before [n @ ''.Models'', n @ ''.Services'', n @ ''.Web'']
     (fst (generateMVCArchitecture n moduleAnalyses options))"
  by (simp add: refs_before_def generateMVCArchitecture_def library_def)

lemma mvvm_refs:
  "refs_before [n @ ''.Models'', n @ ''.Services'', n @ ''.ViewModels'', n @ ''.Desktop'']
     (fst (generateMVVMArchitecture n moduleAnalyses options))"
  by (simp add: refs_before_def generateMVVMArchitecture_def library_def)

lemma solution_refs: "refs_earlier (solution_projects n)"
  by (simp add: refs_earlier_def refs_before_def solution_projects_def library_def)

text \<open>
  Claim C6 as stated fails: with the default options and no data-access-bearing entity
  the Clean graph holds the Infrastructure project; and in the Layered graph the first
  project, Presentation, references Business, which is emitted after it.
\<close>

theorem project_graph_counterexample:
  "\<not> hasDataAccess [plain_module]
   \<and> map pp_name (fst (generateStructure ''App'' [plain_module] TClean structure_default_options))
       = [''App.Domain'', ''App.Application'', ''App.Infrastructure'', ''App.Desktop'',
          ''App.Tests.Unit'']
   \<and> map (\<lambda>p. (pp_name p, pp_dependencies p))
        (fst (generateStructure ''App'' [plain_module] TLayered structure_default_options))
       = [(''App.Presentation'', [''App.Business'']), (''App.Business'', [''App.Data'']),
          (''App.Data'', [])]
   \<and> \<not> refs_earlier
         (fst (generateStructure ''App'' [plain_module] TLayered structure_default_options))"
  by code_simp

text \<open>
  Claim C6, amended. The Clean graph is Domain, Application, then Infrastructure if the
  option \<open>includeDatabase\<close> is set or some entity is data-access-bearing, then the
  Desktop or Web project, then the Api project if \<open>webBased\<close>, then the unit tests; every
  reference of it that names an emitted project names an earlier one. In every style the
  references respect a dependency order (the graph is acyclic): the emitted order in
  Clean and Microservices, the reverse of it in Layered, and Models, Services,
  (ViewModels,) user interface in MVC and MVVM. The four project manifests of
  \<open>CSharpGenerator\<close> reference only projects listed before them in the solution.
\<close>

theorem project_graph:
  "map pp_name (fst (generateStructure n moduleAnalyses TClean options))
     = clean_names n moduleAnalyses options
   \<and> refs_earlier (fst (generateStructure n moduleAnalyses TClean options))
   \<and> refs_before (dependency_order n moduleAnalyses a options)
        (fst (generateStructure n moduleAnalyses a options))
   \<and> refs_earlier (solution_projects n)"
proof (intro conjI)
  show "map pp_name (fst (generateStructure n moduleAnalyses TClean options))
        = clean_names n moduleAnalyses options"
    by (simp add: generateStructure_def clean_names_list)
  show "refs_earlier (fst (generateStructure n moduleAnalyses TClean options))"
    by (simp add: generateStructure_def clean_refs)
  show "refs_before (dependency_order n moduleAnalyses a options)
          (fst (generateStructure n moduleAnalyses a options))"
  proof (cases a)
    case TClean
    then show ?thesis
      using clean_refs[of n moduleAnalyses options]
      by (simp add: generateStructure_def dependency_order_def refs_earlier_def)
  next
    case TLayered
    then show ?thesis
      by (simp add: generateStructure_def dependency_order_def layered_refs)
  next
    case TMVC
    then show ?thesis
      by (simp add: generateStructure_def dependency_order_def mvc_refs)
  next
    case TMVVM
    then show ?thesis
      by (simp add: generateStructure_def dependency_order_def mvvm_refs)
  next
    case TMicroservices
    then show ?thesis
      by (simp add: generateStructure_def dependency_order_def microservices_refs)
  qed
  show "refs_earlier (solution_projects n)"
    by (rule solution_refs)
qed

lemma layered_sample:
  "map (\<lambda>p. (pp_name p, pp_dependencies p))
     (fst (generateStructure ''App'' [data_module] TLayered structure_default_options))
   = [(''App.Presentation'', [''App.Business'']), (''App.Business'', [''App.Data'']),
      (''App.Data'', [])]"
  by code_simp

lemma layered_order:
  "dependency_order ''App'' [data_module] TLayered structure_default_options
   = [''App.Data'', ''App.Business'', ''App.Presentation'']"
  by code_simp

theorem project_graph_witness:
  "map (\<lambda>p. (pp_name p, pp_dependencies p))
     (fst (generateStructure ''App'' [data_module] TLayered structure_default_options))
   = [(''App.Presentation'', [''App.Business'']), (''App.Business'', [''App.Data'']),
      (''App.Data'', [])]
   \<and> refs_before [''App.Data'', ''App.Business'', ''App.Presentation'']
        (fst (generateStructure ''App'' [data_module] TLayered structure_default_options))"
proof -
  have "refs_before
          (dependency_order ''App'' [data_module] TLayered structure_default_options)
          (fst (generateStructure ''App'' [data_module] TLayered structure_default_options))"
    using project_graph[of "''App''" "[data_module]" structure_default_options TLayered]
    by blast
  then show ?thesis
    using layered_sample layered_order by simp
qed

end
